theory Spec2Isabelle
  imports Main
begin

unbundle bit_operations_syntax

chapter \<open>The relay core of the ephemeral chat server\<close>

text \<open>
  A shallow embedding of the server-side relay: the per-connection token bucket and the
  connection meters (\<^verbatim>\<open>security/rateLimit.ts\<close>), the join token codec
  (\<^verbatim>\<open>security/joinTokens.ts\<close>, \<^verbatim>\<open>utils/base64url.ts\<close>), the Redis-backed room store
  (\<^verbatim>\<open>rooms/roomStore.ts\<close>) and the WebSocket protocol engine (\<^verbatim>\<open>ws/handlers.ts\<close>,
  \<^verbatim>\<open>ws/types.ts\<close>).

  Conventions. JavaScript numbers that hold counts and millisecond clocks are \<open>int\<close>; the
  statements that depend on their arithmetic bound them by \<open>MAX_SAFE_INTEGER\<close>.
  \<^verbatim>\<open>Date.now()\<close> is an explicit argument \<open>now\<close>, read once per event. Mutation is explicit
  state passing. \<open>step\<close> runs a handler to completion before the next event is taken; a
  run in which an event arrives while a handler waits for the store is composed from the
  two parts of the handler, before and after the \<^verbatim>\<open>await\<close>.
\<close>

section \<open>Token bucket\<close>

text \<open>
  \<^verbatim>\<open>class TokenBucket\<close>: three read-only parameters and the mutable \<^verbatim>\<open>state\<close>
  \<^verbatim>\<open>{ tokens, lastRefillMs }\<close>. \<^verbatim>\<open>Math.floor(elapsed / refillEveryMs)\<close> on integers is
  \<open>div\<close> for a non-zero interval; the only buckets the server builds have the interval
  \<open>10000\<close>. (For a zero interval JavaScript yields \<^verbatim>\<open>Infinity\<close>, which \<open>int\<close> cannot hold; every
  statement below about refilling assumes a positive interval.)
\<close>

record TokenBucket =
  capacity :: int
  refillTokens :: int
  refillEveryMs :: int
  tokens :: int
  lastRefillMs :: int

definition new_TokenBucket :: "int \<Rightarrow> int \<Rightarrow> int \<Rightarrow> int \<Rightarrow> TokenBucket" where
  "new_TokenBucket cap rt every now =
     \<lparr> capacity = cap, refillTokens = rt, refillEveryMs = every,
       tokens = cap, lastRefillMs = now \<rparr>"

definition refill :: "int \<Rightarrow> TokenBucket \<Rightarrow> TokenBucket" where
  "refill now b =
     (let elapsed = now - lastRefillMs b in
      if elapsed \<le> 0 then b
      else
        let periods = elapsed div refillEveryMs b in
        if periods \<le> 0 then b
        else
          let add = periods * refillTokens b in
          b \<lparr> tokens := min (capacity b) (tokens b + add),
              lastRefillMs := lastRefillMs b + periods * refillEveryMs b \<rparr>)"

definition take_tokens :: "int \<Rightarrow> int \<Rightarrow> TokenBucket \<Rightarrow> bool \<times> TokenBucket" where
  "take_tokens now n b =
     (let b1 = refill now b in
      if n \<le> 0 then (True, b1)
      else if tokens b1 < n then (False, b1)
      else (True, b1 \<lparr> tokens := tokens b1 - n \<rparr>))"

text \<open>
  The bucket invariant: what the constructor establishes (for a positive interval and
  non-negative capacity and refill amount) and \<open>take\<close> keeps.
\<close>

definition bucket_inv :: "TokenBucket \<Rightarrow> bool" where
  "bucket_inv b \<longleftrightarrow>
     0 < refillEveryMs b \<and> 0 \<le> refillTokens b \<and> 0 \<le> tokens b \<and> tokens b \<le> capacity b"

text \<open>
  The quantities of the class are JavaScript numbers. Their arithmetic is the integer
  arithmetic of the model as long as every value that occurs is an integer of magnitude
  at most \<open>2^53 - 1\<close>: the clock, the amount taken, the parameters of the bucket and the
  refilled sum before it is capped.
\<close>

definition MAX_SAFE_INTEGER :: int where
  "MAX_SAFE_INTEGER = 9007199254740991"

definition safe_take :: "int \<Rightarrow> int \<Rightarrow> TokenBucket \<Rightarrow> bool" where
  "safe_take now n b \<longleftrightarrow>
     0 \<le> lastRefillMs b \<and> now \<le> MAX_SAFE_INTEGER \<and> n \<le> MAX_SAFE_INTEGER
     \<and> capacity b \<le> MAX_SAFE_INTEGER \<and> refillTokens b \<le> MAX_SAFE_INTEGER
     \<and> refillEveryMs b \<le> MAX_SAFE_INTEGER
     \<and> tokens b + ((now - lastRefillMs b) div refillEveryMs b) * refillTokens b
           \<le> MAX_SAFE_INTEGER"

section \<open>Connection meters\<close>

text \<open>\<^verbatim>\<open>class IpConnectionLimiter\<close>: a \<^verbatim>\<open>Map<string, number>\<close> of open connections per address.\<close>

record IpConnectionLimiter =
  maxPerIp :: int
  counts :: "string \<rightharpoonup> int"

definition getCount :: "IpConnectionLimiter \<Rightarrow> string \<Rightarrow> int" where
  "getCount l ip = (case counts l ip of None \<Rightarrow> 0 | Some c \<Rightarrow> c)"

definition ip_tryInc :: "string \<Rightarrow> IpConnectionLimiter \<Rightarrow> bool \<times> IpConnectionLimiter" where
  "ip_tryInc ip l =
     (let cur = getCount l ip in
      if cur \<ge> maxPerIp l then (False, l)
      else (True, l \<lparr> counts := (counts l)(ip \<mapsto> cur + 1) \<rparr>))"

definition ip_dec :: "string \<Rightarrow> IpConnectionLimiter \<Rightarrow> IpConnectionLimiter" where
  "ip_dec ip l =
     (let cur = getCount l ip in
      if cur \<le> 1 then l \<lparr> counts := (counts l)(ip := None) \<rparr>
      else l \<lparr> counts := (counts l)(ip \<mapsto> cur - 1) \<rparr>)"

text \<open>\<^verbatim>\<open>class GlobalConnectionLimiter\<close>: one counter below a hard ceiling.\<close>

record GlobalConnectionLimiter =
  maxTotal :: int
  current :: int

definition global_tryInc :: "GlobalConnectionLimiter \<Rightarrow> bool \<times> GlobalConnectionLimiter" where
  "global_tryInc g =
     (if current g \<ge> maxTotal g then (False, g)
      else (True, g \<lparr> current := current g + 1 \<rparr>))"

definition global_dec :: "GlobalConnectionLimiter \<Rightarrow> GlobalConnectionLimiter" where
  "global_dec g = (if current g > 0 then g \<lparr> current := current g - 1 \<rparr> else g)"

section \<open>Room store\<close>

text \<open>
  \<^verbatim>\<open>class RoomStore\<close> keeps five kinds of Redis keys per room id: the hash
  \<^verbatim>\<open>room:<id>:meta\<close>, the set \<^verbatim>\<open>room:<id>:members\<close>, the decimal string
  \<^verbatim>\<open>room:<id>:count\<close>, the set \<^verbatim>\<open>room:<id>:jtis\<close> and one marker
  \<^verbatim>\<open>room:<id>:jti:<jti>\<close> per consumed token. The model indexes them by room id (room ids
  are base64url text, so the key names of different rooms do not collide). A Redis set
  that is empty does not exist, so a set key is a set, empty when absent. The marker
  carries the instant at which its \<^verbatim>\<open>PX\<close> time-to-live ends; the statements below read a
  marker only strictly before that instant. The four room keys always receive the same
  \<^verbatim>\<open>PEXPIRE\<close> together; their expiry is not part of the model. Each \<^verbatim>\<open>MULTI\<close> block and
  each Lua script is one atomic step.
\<close>

record Redis =
  meta :: "string \<rightharpoonup> int"
  members :: "string \<Rightarrow> string set"
  count :: "string \<rightharpoonup> int"
  jtis :: "string \<Rightarrow> string set"
  jti_key :: "string \<times> string \<rightharpoonup> int"

definition redis_empty :: Redis where
  "redis_empty = \<lparr> meta = Map.empty, members = (\<lambda>_. {}), count = Map.empty,
                    jtis = (\<lambda>_. {}), jti_key = Map.empty \<rparr>"

record RoomStore =
  ttlMs :: int
  maxParticipants :: int

record RoomCreateResult =
  rc_roomId :: string
  participantCount :: int

datatype JoinResult = JoinOk int string | JoinFailed string

text \<open>
  Decimal rendering of a number, as Lua's \<^verbatim>\<open>..\<close> and \<^verbatim>\<open>JSON.stringify\<close> print an integer
  of magnitude at most \<open>MAX_SAFE_INTEGER\<close> (JavaScript prints an exponent from \<open>10^21\<close> on,
  and holds no integer exactly beyond that bound).
\<close>

definition digit_char :: "nat \<Rightarrow> char" where
  "digit_char n = ''0123456789'' ! n"

function show_pos :: "int \<Rightarrow> string" where
  "show_pos i =
     (if i < 10 then [digit_char (nat i)]
      else show_pos (i div 10) @ [digit_char (nat (i mod 10))])"
  by pat_completeness auto
termination
  by (relation "measure nat") auto

definition show_int :: "int \<Rightarrow> string" where
  "show_int i = (if i < 0 then CHR ''-'' # show_pos (- i) else show_pos i)"

text \<open>\<^verbatim>\<open>tonumber(redis.call("GET", countKey) or "0")\<close>\<close>

definition get_count :: "Redis \<Rightarrow> string \<Rightarrow> int" where
  "get_count s rid = (case count s rid of None \<Rightarrow> 0 | Some c \<Rightarrow> c)"

definition createRoom ::
  "RoomStore \<Rightarrow> string \<Rightarrow> string \<Rightarrow> int \<Rightarrow> Redis \<Rightarrow> RoomCreateResult \<times> Redis" where
  "createRoom rs roomId creatorConnId now s =
     (\<lparr> rc_roomId = roomId, participantCount = 1 \<rparr>,
      s \<lparr> meta := (meta s)(roomId \<mapsto> now),
          members := (members s)(roomId := insert creatorConnId (members s roomId)),
          count := (count s)(roomId \<mapsto> 1),
          jtis := (jtis s)(roomId := {}) \<rparr>)"

definition createRoomEmpty :: "RoomStore \<Rightarrow> string \<Rightarrow> int \<Rightarrow> Redis \<Rightarrow> Redis" where
  "createRoomEmpty rs roomId now s =
     s \<lparr> meta := (meta s)(roomId \<mapsto> now), count := (count s)(roomId \<mapsto> 0) \<rparr>"

definition tryJoin :: "RoomStore \<Rightarrow> string \<Rightarrow> string \<Rightarrow> Redis \<Rightarrow> JoinResult \<times> Redis" where
  "tryJoin rs roomId connId s =
     (if meta s roomId = None then (JoinFailed ''ERR_NO_ROOM'', s)
      else
        let cur = get_count s roomId in
        if connId \<in> members s roomId then (JoinOk cur (''P'' @ show_int cur), s)
        else if cur \<ge> maxParticipants rs then (JoinFailed ''ERR_ROOM_FULL'', s)
        else
          (JoinOk (cur + 1) (''P'' @ show_int (cur + 1)),
           s \<lparr> members := (members s)(roomId := insert connId (members s roomId)),
               count := (count s)(roomId \<mapsto> cur + 1) \<rparr>))"

definition leave :: "RoomStore \<Rightarrow> string \<Rightarrow> string \<Rightarrow> Redis \<Rightarrow> int \<times> Redis" where
  "leave rs roomId connId s =
     (if meta s roomId = None then (0, s)
      else
        let removed = (connId \<in> members s roomId);
            s1 = s \<lparr> members := (members s)(roomId := members s roomId - {connId}) \<rparr>;
            cur0 = get_count s1 roomId;
            cur = (if removed \<and> cur0 > 0 then cur0 - 1 else cur0);
            s2 = (if removed \<and> cur0 > 0 then s1 \<lparr> count := (count s1)(roomId \<mapsto> cur) \<rparr> else s1)
        in
          if cur \<le> 0 then
            (0, s2 \<lparr> jti_key := (\<lambda>(r, j). if r = roomId \<and> j \<in> jtis s2 roomId then None
                                         else jti_key s2 (r, j)),
                    meta := (meta s2)(roomId := None),
                    members := (members s2)(roomId := {}),
                    count := (count s2)(roomId := None),
                    jtis := (jtis s2)(roomId := {}) \<rparr>)
          else (cur, s2))"

definition roomExists :: "string \<Rightarrow> Redis \<Rightarrow> bool" where
  "roomExists roomId s \<longleftrightarrow> meta s roomId \<noteq> None"

text \<open>\<^verbatim>\<open>touch\<close> only renews the time-to-live of the four room keys.\<close>

definition touch :: "RoomStore \<Rightarrow> string \<Rightarrow> Redis \<Rightarrow> Redis" where
  "touch rs roomId s = s"

text \<open>
  \<^verbatim>\<open>SET key "1" PX ttlMs NX\<close> answers \<^verbatim>\<open>OK\<close> only when the key is absent or has expired.
  (Redis rejects a non-positive \<^verbatim>\<open>PX\<close>; the engine passes \<^verbatim>\<open>Math.max(1, ...)\<close>.)
\<close>

definition jti_live :: "Redis \<Rightarrow> string \<Rightarrow> string \<Rightarrow> int \<Rightarrow> bool" where
  "jti_live s roomId jti now =
     (case jti_key s (roomId, jti) of None \<Rightarrow> False | Some e \<Rightarrow> now < e)"

definition markTokenJtiUsed ::
  "RoomStore \<Rightarrow> string \<Rightarrow> string \<Rightarrow> int \<Rightarrow> int \<Rightarrow> Redis \<Rightarrow> bool \<times> Redis" where
  "markTokenJtiUsed rs roomId jti ttl now s =
     (if jti_live s roomId jti now then (False, s)
      else
        (True,
         s \<lparr> jti_key := (jti_key s)((roomId, jti) \<mapsto> now + ttl),
             jtis := (jtis s)(roomId := insert jti (jtis s roomId)) \<rparr>))"

text \<open>Sequences of store operations, each one atomic commit.\<close>

datatype store_op =
    Create string string int
  | CreateEmpty string int
  | Join string string
  | Leave string string
  | Touch string
  | Mark string string int int

fun apply_op :: "RoomStore \<Rightarrow> store_op \<Rightarrow> Redis \<Rightarrow> Redis" where
  "apply_op rs (Create r c now) s = snd (createRoom rs r c now s)"
| "apply_op rs (CreateEmpty r now) s = createRoomEmpty rs r now s"
| "apply_op rs (Join r c) s = snd (tryJoin rs r c s)"
| "apply_op rs (Leave r c) s = snd (leave rs r c s)"
| "apply_op rs (Touch r) s = touch rs r s"
| "apply_op rs (Mark r j ttl now) s = snd (markTokenJtiUsed rs r j ttl now s)"

fun run_ops :: "RoomStore \<Rightarrow> store_op list \<Rightarrow> Redis \<Rightarrow> Redis" where
  "run_ops rs [] s = s"
| "run_ops rs (op # ops) s = run_ops rs ops (apply_op rs op s)"

text \<open>
  The room invariant: the stored count is the number of stored members and does not
  exceed the configured maximum.
\<close>

definition room_inv :: "int \<Rightarrow> Redis \<Rightarrow> string \<Rightarrow> bool" where
  "room_inv mx s rid \<longleftrightarrow>
     finite (members s rid) \<and> get_count s rid = int (card (members s rid)) \<and> get_count s rid \<le> mx"

definition store_inv :: "int \<Rightarrow> Redis \<Rightarrow> bool" where
  "store_inv mx s \<longleftrightarrow> (\<forall>rid. room_inv mx s rid)"

text \<open>
  The engine creates a room under a fresh 128-bit random id: when \<^verbatim>\<open>createRoom\<close> or
  \<^verbatim>\<open>createRoomEmpty\<close> runs, the id has no stored member (other than the creator).
\<close>

fun creates_fresh :: "RoomStore \<Rightarrow> store_op list \<Rightarrow> Redis \<Rightarrow> bool" where
  "creates_fresh rs [] s \<longleftrightarrow> True"
| "creates_fresh rs (Create r c now # ops) s \<longleftrightarrow>
     members s r \<subseteq> {c} \<and> creates_fresh rs ops (apply_op rs (Create r c now) s)"
| "creates_fresh rs (CreateEmpty r now # ops) s \<longleftrightarrow>
     members s r = {} \<and> creates_fresh rs ops (apply_op rs (CreateEmpty r now) s)"
| "creates_fresh rs (op # ops) s \<longleftrightarrow> creates_fresh rs ops (apply_op rs op s)"

text \<open>The store as the server configures it by default (\<^verbatim>\<open>config.ts\<close>).\<close>

definition rs_default :: RoomStore where
  "rs_default = \<lparr> ttlMs = 600000, maxParticipants = 10 \<rparr>"

section \<open>Base64url\<close>

text \<open>
  \<^verbatim>\<open>utils/base64url.ts\<close>. A \<^verbatim>\<open>Buffer\<close> is a list of bytes, each byte a \<open>char\<close>; a
  JavaScript string is a list of code units, here restricted to code units below 256.
  \<^verbatim>\<open>Buffer.toString("base64")\<close> is the RFC 4648 encoder with padding.
  \<^verbatim>\<open>Buffer.from(s, "base64")\<close> is Node's decoder: it accepts both alphabets, skips every
  character outside them, stops at the first \<^verbatim>\<open>=\<close>, and drops the bits of an incomplete
  final group. It never throws.
\<close>

definition b64_alphabet :: string where
  "b64_alphabet = ''ABCDEFGHIJKLMNOPQRSTUVWXYZabcdefghijklmnopqrstuvwxyz0123456789+/''"

definition b64_char :: "nat \<Rightarrow> char" where
  "b64_char n = b64_alphabet ! n"

fun base64_encode :: "string \<Rightarrow> string" where
  "base64_encode [] = []"
| "base64_encode [x] =
     (let a = (of_char x :: nat) in
      [b64_char (a div 4), b64_char ((a mod 4) * 16), CHR ''='', CHR ''=''])"
| "base64_encode [x, y] =
     (let a = (of_char x :: nat); b = (of_char y :: nat) in
      [b64_char (a div 4), b64_char ((a mod 4) * 16 + b div 16),
       b64_char ((b mod 16) * 4), CHR ''=''])"
| "base64_encode (x # y # z # rest) =
     (let a = (of_char x :: nat); b = (of_char y :: nat); c = (of_char z :: nat) in
      [b64_char (a div 4), b64_char ((a mod 4) * 16 + b div 16),
       b64_char ((b mod 16) * 4 + c div 64), b64_char (c mod 64)] @ base64_encode rest)"

text \<open>\<^verbatim>\<open>String.prototype.replaceAll\<close> for a one-character pattern.\<close>

definition replaceAll :: "char \<Rightarrow> string \<Rightarrow> string \<Rightarrow> string" where
  "replaceAll a r s = concat (map (\<lambda>c. if c = a then r else [c]) s)"

definition b64urlEncode :: "string \<Rightarrow> string" where
  "b64urlEncode buf =
     replaceAll (CHR ''='') [] (replaceAll (CHR ''/'') ''_'' (replaceAll (CHR ''+'') ''-''
       (base64_encode buf)))"

definition unbase64 :: "char \<Rightarrow> nat option" where
  "unbase64 c =
     (if c = CHR ''-'' then Some 62 else if c = CHR ''_'' then Some 63
      else map_of (zip b64_alphabet [0..<64]) c)"

fun sextets :: "string \<Rightarrow> nat list" where
  "sextets [] = []"
| "sextets (c # cs) =
     (if c = CHR ''='' then []
      else case unbase64 c of None \<Rightarrow> sextets cs | Some n \<Rightarrow> n # sextets cs)"

fun sextets_bytes :: "nat list \<Rightarrow> string" where
  "sextets_bytes (a # b # c # d # rest) =
     [char_of (a * 4 + b div 16), char_of ((b mod 16) * 16 + c div 4),
      char_of ((c mod 4) * 64 + d)] @ sextets_bytes rest"
| "sextets_bytes [a, b, c] =
     [char_of (a * 4 + b div 16), char_of ((b mod 16) * 16 + c div 4)]"
| "sextets_bytes [a, b] = [char_of (a * 4 + b div 16)]"
| "sextets_bytes _ = []"

definition base64_decode :: "string \<Rightarrow> string" where
  "base64_decode s = sextets_bytes (sextets s)"

definition b64urlDecode :: "string \<Rightarrow> string" where
  "b64urlDecode s =
     (let padLen = (4 - length s mod 4) mod 4;
          padded = replaceAll (CHR ''_'') ''/'' (replaceAll (CHR ''-'') ''+'' s)
                     @ replicate padLen (CHR ''='')
      in base64_decode padded)"

text \<open>\<^verbatim>\<open>randomIdB64Url(n)\<close> encodes \<open>n\<close> bytes drawn by \<^verbatim>\<open>randomBytes\<close>, here an argument.\<close>

definition randomIdB64Url :: "string \<Rightarrow> string" where
  "randomIdB64Url randomBytes = b64urlEncode randomBytes"

text \<open>Auxiliary functions for the proofs about the codec.\<close>

definition url_char :: "char \<Rightarrow> char" where
  "url_char c = (if c = CHR ''+'' then CHR ''-'' else if c = CHR ''/'' then CHR ''_'' else c)"

definition std_char :: "char \<Rightarrow> char" where
  "std_char c = (if c = CHR ''-'' then CHR ''+'' else if c = CHR ''_'' then CHR ''/'' else c)"

fun enc_sextets :: "string \<Rightarrow> nat list" where
  "enc_sextets [] = []"
| "enc_sextets [x] = (let a = (of_char x :: nat) in [a div 4, (a mod 4) * 16])"
| "enc_sextets [x, y] =
     (let a = (of_char x :: nat); b = (of_char y :: nat) in
      [a div 4, (a mod 4) * 16 + b div 16, (b mod 16) * 4])"
| "enc_sextets (x # y # z # rest) =
     (let a = (of_char x :: nat); b = (of_char y :: nat); c = (of_char z :: nat) in
      [a div 4, (a mod 4) * 16 + b div 16, (b mod 16) * 4 + c div 64, c mod 64]
      @ enc_sextets rest)"

section \<open>HMAC-SHA256\<close>

text \<open>
  \<^verbatim>\<open>createHmac("sha256", secret).update(data).digest()\<close> of \<^verbatim>\<open>node:crypto\<close>, written out
  from FIPS 180-4 and RFC 2104. A 32-bit word is an \<open>int\<close> kept below \<open>2^32\<close>.
\<close>

definition w32 :: "int \<Rightarrow> int" where
  "w32 x = x mod 4294967296"

definition rotr :: "nat \<Rightarrow> int \<Rightarrow> int" where
  "rotr n x = x div 2 ^ n + (x mod 2 ^ n) * 2 ^ (32 - n)"

definition shr :: "nat \<Rightarrow> int \<Rightarrow> int" where
  "shr n x = x div 2 ^ n"

definition Ch :: "int \<Rightarrow> int \<Rightarrow> int \<Rightarrow> int" where
  "Ch x y z = (x AND y) XOR ((4294967295 - x) AND z)"

definition Maj :: "int \<Rightarrow> int \<Rightarrow> int \<Rightarrow> int" where
  "Maj x y z = (x AND y) XOR (x AND z) XOR (y AND z)"

definition bsig0 :: "int \<Rightarrow> int" where
  "bsig0 x = rotr 2 x XOR rotr 13 x XOR rotr 22 x"

definition bsig1 :: "int \<Rightarrow> int" where
  "bsig1 x = rotr 6 x XOR rotr 11 x XOR rotr 25 x"

definition ssig0 :: "int \<Rightarrow> int" where
  "ssig0 x = rotr 7 x XOR rotr 18 x XOR shr 3 x"

definition ssig1 :: "int \<Rightarrow> int" where
  "ssig1 x = rotr 17 x XOR rotr 19 x XOR shr 10 x"

definition sha256_K :: "int list" where
  "sha256_K = [
   1116352408, 1899447441, 3049323471, 3921009573, 961987163, 1508970993, 2453635748, 2870763221,
   3624381080, 310598401, 607225278, 1426881987, 1925078388, 2162078206, 2614888103, 3248222580,
   3835390401, 4022224774, 264347078, 604807628, 770255983, 1249150122, 1555081692, 1996064986,
   2554220882, 2821834349, 2952996808, 3210313671, 3336571891, 3584528711, 113926993, 338241895,
   666307205, 773529912, 1294757372, 1396182291, 1695183700, 1986661051, 2177026350, 2456956037,
   2730485921, 2820302411, 3259730800, 3345764771, 3516065817, 3600352804, 4094571909, 275423344,
   430227734, 506948616, 659060556, 883997877, 958139571, 1322822218, 1537002063, 1747873779,
   1955562222, 2024104815, 2227730452, 2361852424, 2428436474, 2756734187, 3204031479, 3329325298]"

definition sha256_H0 :: "int list" where
  "sha256_H0 = [1779033703, 3144134277, 1013904242, 2773480762,
                1359893119, 2600822924, 528734635, 1541459225]"

text \<open>The message schedule, newest word first.\<close>

fun schedule :: "nat \<Rightarrow> int list \<Rightarrow> int list" where
  "schedule 0 ws = ws"
| "schedule (Suc n) ws =
     schedule n (w32 (ssig1 (ws ! 1) + ws ! 6 + ssig0 (ws ! 14) + ws ! 15) # ws)"

fun round256 :: "int list \<Rightarrow> int \<times> int \<Rightarrow> int list" where
  "round256 [a, b, c, d, e, f, g, h] (k, w) =
     (let t1 = h + bsig1 e + Ch e f g + k + w;
          t2 = bsig0 a + Maj a b c
      in [w32 (t1 + t2), a, b, c, w32 (d + t1), e, f, g])"
| "round256 st _ = st"

fun words_of :: "string \<Rightarrow> int list" where
  "words_of (a # b # c # d # rest) =
     (((of_char a * 256 + of_char b) * 256 + of_char c) * 256 + of_char d) # words_of rest"
| "words_of _ = []"

definition compress :: "int list \<Rightarrow> string \<Rightarrow> int list" where
  "compress hs block =
     (let ws = rev (schedule 48 (rev (words_of block)));
          st = foldl round256 hs (zip sha256_K ws)
      in map (\<lambda>(x, y). w32 (x + y)) (zip hs st))"

fun blocks :: "nat \<Rightarrow> string \<Rightarrow> string list" where
  "blocks 0 s = []"
| "blocks (Suc n) s = take 64 s # blocks n (drop 64 s)"

definition be_bytes :: "nat \<Rightarrow> int \<Rightarrow> string" where
  "be_bytes n x = map (\<lambda>i. char_of ((x div 256 ^ (n - 1 - i)) mod 256)) [0..<n]"

definition sha256_pad :: "string \<Rightarrow> string" where
  "sha256_pad m =
     (let l = length m; z = (119 - l mod 64) mod 64
      in m @ [char_of (128 :: nat)] @ replicate z (char_of (0 :: nat)) @ be_bytes 8 (int l * 8))"

definition sha256 :: "string \<Rightarrow> string" where
  "sha256 m =
     (let p = sha256_pad m
      in concat (map (be_bytes 4) (foldl compress sha256_H0 (blocks (length p div 64) p))))"

definition hmac_sha256 :: "string \<Rightarrow> string \<Rightarrow> string" where
  "hmac_sha256 key m =
     (let k0 = (if length key > 64 then sha256 key else key);
          k = k0 @ replicate (64 - length k0) (char_of (0 :: nat));
          ipad = map (\<lambda>c. char_of ((of_char c :: int) XOR 0x36)) k;
          opad = map (\<lambda>c. char_of ((of_char c :: int) XOR 0x5c)) k
      in sha256 (opad @ sha256 (ipad @ m)))"

section \<open>JSON\<close>

text \<open>
  The values \<^verbatim>\<open>JSON.parse\<close> returns. A number is an \<open>int\<close>: the frames and tokens of
  the protocol carry integers only. An object is the list of its members; a member is
  looked up with \<open>map_of\<close>.
\<close>

datatype jval =
    JNull
  | JBool bool
  | JNum int
  | JStr string
  | JArr "jval list"
  | JObj "(string \<times> jval) list"

text \<open>\<^verbatim>\<open>JSON.stringify\<close> of a string: the quoting rules of ECMA-262 (QuoteJSONString).\<close>

definition hex_digit :: "nat \<Rightarrow> char" where
  "hex_digit n = ''0123456789abcdef'' ! n"

definition json_quote_char :: "char \<Rightarrow> string" where
  "json_quote_char c =
     (if c = CHR 0x22 then [CHR 0x5C, CHR 0x22]
      else if c = CHR 0x5C then [CHR 0x5C, CHR 0x5C]
      else if c = CHR 0x08 then [CHR 0x5C, CHR ''b'']
      else if c = CHR 0x0C then [CHR 0x5C, CHR ''f'']
      else if c = CHR 0x0A then [CHR 0x5C, CHR ''n'']
      else if c = CHR 0x0D then [CHR 0x5C, CHR ''r'']
      else if c = CHR 0x09 then [CHR 0x5C, CHR ''t'']
      else if (of_char c :: nat) < 32 then
        [CHR 0x5C, CHR ''u'', CHR ''0'', CHR ''0'',
         hex_digit ((of_char c :: nat) div 16), hex_digit ((of_char c :: nat) mod 16)]
      else [c])"

definition json_quote :: "string \<Rightarrow> string" where
  "json_quote s = CHR 0x22 # concat (map json_quote_char s) @ [CHR 0x22]"

text \<open>\<^verbatim>\<open>Buffer.from(text, "utf8")\<close> on code units below 256.\<close>

definition Buffer_from_utf8 :: "string \<Rightarrow> string" where
  "Buffer_from_utf8 s =
     concat (map (\<lambda>c. if (of_char c :: nat) < 128 then [c]
                       else [char_of (192 + (of_char c :: nat) div 64),
                             char_of (128 + (of_char c :: nat) mod 64)]) s)"

text \<open>
  \<^verbatim>\<open>buf.toString("utf8")\<close>: the text of a byte sequence. The strings of the model hold
  code units below 256, so the decoder reads the one-byte and the two-byte sequences of
  those code points and answers \<open>None\<close> on every other byte sequence (whose text lies
  outside the strings of the model).
\<close>

fun Buffer_toString_utf8 :: "string \<Rightarrow> string option" where
  "Buffer_toString_utf8 [] = Some []"
| "Buffer_toString_utf8 [b] =
     (if (of_char b :: nat) < 128 then Some [b] else None)"
| "Buffer_toString_utf8 (b # c # rest) =
     (if (of_char b :: nat) < 128 then map_option ((#) b) (Buffer_toString_utf8 (c # rest))
      else if ((of_char b :: nat) = 194 \<or> (of_char b :: nat) = 195)
              \<and> 128 \<le> (of_char c :: nat) \<and> (of_char c :: nat) < 192
      then map_option ((#) (char_of (((of_char b :: nat) - 192) * 64 + ((of_char c :: nat) - 128))))
             (Buffer_toString_utf8 rest)
      else None)"

text \<open>
  \<^verbatim>\<open>JSON.parse\<close> on the values of \<open>jval\<close>: objects, arrays, strings with their escapes,
  integers, \<^verbatim>\<open>true\<close>, \<^verbatim>\<open>false\<close>, \<^verbatim>\<open>null\<close>. It answers \<open>None\<close> where \<^verbatim>\<open>JSON.parse\<close>
  throws, and also on a text whose value is no \<open>jval\<close>: a number written with a fraction
  or an exponent, an escape of a code unit from 256 on. A later member of an object
  overrides an earlier one of the same name, so the members are kept newest first.
\<close>

definition is_ws :: "char \<Rightarrow> bool" where
  "is_ws c \<longleftrightarrow> c = CHR 0x20 \<or> c = CHR 0x09 \<or> c = CHR 0x0A \<or> c = CHR 0x0D"

definition skip_ws :: "string \<Rightarrow> string" where
  "skip_ws s = dropWhile is_ws s"

definition hex_val :: "char \<Rightarrow> nat option" where
  "hex_val c = map_of (zip ''0123456789abcdef'' [0..<16] @ zip ''ABCDEF'' [10..<16]) c"

definition unescape :: "char \<Rightarrow> char option" where
  "unescape e =
     (if e = CHR 0x22 \<or> e = CHR 0x5C \<or> e = CHR ''/'' then Some e
      else if e = CHR ''b'' then Some (CHR 0x08)
      else if e = CHR ''f'' then Some (CHR 0x0C)
      else if e = CHR ''n'' then Some (CHR 0x0A)
      else if e = CHR ''r'' then Some (CHR 0x0D)
      else if e = CHR ''t'' then Some (CHR 0x09)
      else None)"

definition cons_fst :: "'a \<Rightarrow> ('a list \<times> 'b) option \<Rightarrow> ('a list \<times> 'b) option" where
  "cons_fst x r = map_option (\<lambda>(xs, t). (x # xs, t)) r"

fun parse_string :: "string \<Rightarrow> (string \<times> string) option" where
  "parse_string [] = None"
| "parse_string (c # cs) =
     (if c = CHR 0x22 then Some ([], cs)
      else if c = CHR 0x5C then
        (case cs of
           [] \<Rightarrow> None
         | e # r \<Rightarrow>
             if e = CHR ''u'' then
               (case r of
                  h1 # h2 # h3 # h4 # r' \<Rightarrow>
                    (case (hex_val h1, hex_val h2, hex_val h3, hex_val h4) of
                       (Some a, Some b, Some c', Some d) \<Rightarrow>
                         if a = 0 \<and> b = 0 then cons_fst (char_of (c' * 16 + d)) (parse_string r')
                         else None
                     | _ \<Rightarrow> None)
                | _ \<Rightarrow> None)
             else (case unescape e of
                     None \<Rightarrow> None
                   | Some x \<Rightarrow> cons_fst x (parse_string r)))
      else if (of_char c :: nat) < 32 then None
      else cons_fst c (parse_string cs))"

definition is_digit :: "char \<Rightarrow> bool" where
  "is_digit c \<longleftrightarrow> 48 \<le> (of_char c :: nat) \<and> (of_char c :: nat) \<le> 57"

definition digits_val :: "string \<Rightarrow> int" where
  "digits_val ds = foldl (\<lambda>acc c. acc * 10 + (of_char c - 48)) 0 ds"

definition parse_number :: "string \<Rightarrow> (int \<times> string) option" where
  "parse_number s =
     (let neg = (s \<noteq> [] \<and> hd s = CHR ''-'');
          s1 = (if neg then tl s else s);
          ds = takeWhile is_digit s1;
          rest = dropWhile is_digit s1
      in if ds = [] then None
         else if 1 < length ds \<and> hd ds = CHR ''0'' then None
         else if rest \<noteq> [] \<and> (hd rest = CHR ''.'' \<or> hd rest = CHR ''e'' \<or> hd rest = CHR ''E'')
           then None
         else Some (if neg then - digits_val ds else digits_val ds, rest))"

fun parse_value :: "nat \<Rightarrow> string \<Rightarrow> (jval \<times> string) option"
  and parse_elements :: "nat \<Rightarrow> string \<Rightarrow> (jval list \<times> string) option"
  and parse_members :: "nat \<Rightarrow> string \<Rightarrow> ((string \<times> jval) list \<times> string) option"
where
  "parse_value 0 s = None"
| "parse_value (Suc n) s =
     (case skip_ws s of
        [] \<Rightarrow> None
      | c # cs \<Rightarrow>
          if c = CHR 0x22 then map_option (\<lambda>(x, r). (JStr x, r)) (parse_string cs)
          else if c = CHR ''{'' then
            (case skip_ws cs of
               [] \<Rightarrow> None
             | d # r \<Rightarrow> if d = CHR ''}'' then Some (JObj [], r)
                        else map_option (\<lambda>(m, t). (JObj (rev m), t)) (parse_members n cs))
          else if c = CHR ''['' then
            (case skip_ws cs of
               [] \<Rightarrow> None
             | d # r \<Rightarrow> if d = CHR '']'' then Some (JArr [], r)
                        else map_option (\<lambda>(xs, t). (JArr xs, t)) (parse_elements n cs))
          else if take 4 (c # cs) = ''true'' then Some (JBool True, drop 3 cs)
          else if take 5 (c # cs) = ''false'' then Some (JBool False, drop 4 cs)
          else if take 4 (c # cs) = ''null'' then Some (JNull, drop 3 cs)
          else map_option (\<lambda>(i, r). (JNum i, r)) (parse_number (c # cs)))"
| "parse_elements 0 s = None"
| "parse_elements (Suc n) s =
     (case parse_value n s of
        None \<Rightarrow> None
      | Some (x, r) \<Rightarrow>
          (case skip_ws r of
             [] \<Rightarrow> None
           | d # r' \<Rightarrow> if d = CHR '','' then cons_fst x (parse_elements n r')
                       else if d = CHR '']'' then Some ([x], r')
                       else None))"
| "parse_members 0 s = None"
| "parse_members (Suc n) s =
     (case skip_ws s of
        [] \<Rightarrow> None
      | q # r \<Rightarrow>
          if q \<noteq> CHR 0x22 then None
          else (case parse_string r of
                  None \<Rightarrow> None
                | Some (k, r1) \<Rightarrow>
                    (case skip_ws r1 of
                       [] \<Rightarrow> None
                     | d # r2 \<Rightarrow>
                         if d \<noteq> CHR '':'' then None
                         else (case parse_value n r2 of
                                 None \<Rightarrow> None
                               | Some (x, r3) \<Rightarrow>
                                   (case skip_ws r3 of
                                      [] \<Rightarrow> None
                                    | e # r4 \<Rightarrow>
                                        if e = CHR '','' then cons_fst (k, x) (parse_members n r4)
                                        else if e = CHR ''}'' then Some ([(k, x)], r4)
                                        else None)))))"

definition json_parse :: "string \<Rightarrow> jval option" where
  "json_parse s =
     (case parse_value (Suc (length s)) s of
        None \<Rightarrow> None
      | Some (x, r) \<Rightarrow> if skip_ws r = [] then Some x else None)"


section \<open>Join tokens\<close>

text \<open>
  \<^verbatim>\<open>security/joinTokens.ts\<close>. The two library functions the codec calls, the keyed hash
  and \<^verbatim>\<open>JSON.parse\<close> (composed with \<^verbatim>\<open>Buffer.toString("utf8")\<close>), are the fields of a
  \<open>platform\<close>; \<open>node_platform\<close> is the instance written out above.
\<close>

record platform =
  createHmac_sha256 :: "string \<Rightarrow> string \<Rightarrow> string"
  JSON_parse :: "string \<Rightarrow> jval option"

definition node_platform :: platform where
  "node_platform =
     \<lparr> createHmac_sha256 = (\<lambda>secret data. hmac_sha256 (Buffer_from_utf8 secret) data),
       JSON_parse = (\<lambda>bytes. case Buffer_toString_utf8 bytes of
                                None \<Rightarrow> None
                              | Some text \<Rightarrow> json_parse text) \<rparr>"

record JoinTokenPayload =
  tok_v :: int
  tok_rid :: string
  tok_exp :: int
  tok_jti :: string

definition JSON_stringify_payload :: "JoinTokenPayload \<Rightarrow> string" where
  \<open>JSON_stringify_payload p =
     ''{"v":'' @ show_int (tok_v p) @ '',"rid":'' @ json_quote (tok_rid p)
     @ '',"exp":'' @ show_int (tok_exp p) @ '',"jti":'' @ json_quote (tok_jti p) @ ''}''\<close>

definition hmacSha256B64Url :: "platform \<Rightarrow> string \<Rightarrow> string \<Rightarrow> string" where
  "hmacSha256B64Url P secret data = b64urlEncode (createHmac_sha256 P secret data)"

definition timingSafeEqualB64Url :: "string \<Rightarrow> string \<Rightarrow> bool" where
  "timingSafeEqualB64Url a b =
     (let ba = b64urlDecode a; bb = b64urlDecode b
      in if length ba \<noteq> length bb then False else ba = bb)"

text \<open>The \<open>jti\<close> is the value \<^verbatim>\<open>randomIdB64Url(16)\<close> returned, an argument here.\<close>

definition payload_bytes :: "string \<Rightarrow> int \<Rightarrow> string \<Rightarrow> string" where
  "payload_bytes rid expUnixMs jti =
     Buffer_from_utf8 (JSON_stringify_payload
       \<lparr> tok_v = 1, tok_rid = rid, tok_exp = expUnixMs, tok_jti = jti \<rparr>)"

definition mintJoinToken :: "platform \<Rightarrow> string \<Rightarrow> string \<Rightarrow> int \<Rightarrow> string \<Rightarrow> string" where
  "mintJoinToken P secret rid expUnixMs jti =
     (let payloadBytes = payload_bytes rid expUnixMs jti;
          payloadB64Url = b64urlEncode payloadBytes;
          macB64Url = hmacSha256B64Url P secret payloadBytes
      in payloadB64Url @ ''.'' @ macB64Url)"

text \<open>\<^verbatim>\<open>String.prototype.split\<close> at a one-character separator.\<close>

fun split_on :: "char \<Rightarrow> string \<Rightarrow> string list" where
  "split_on c [] = [[]]"
| "split_on c (x # xs) =
     (if x = c then [] # split_on c xs
      else (case split_on c xs of p # ps \<Rightarrow> (x # p) # ps | [] \<Rightarrow> [[x]]))"

text \<open>The field checks on the parsed payload.\<close>

definition payload_of_json :: "jval \<Rightarrow> string + JoinTokenPayload" where
  "payload_of_json j =
     (case j of
        JObj kv \<Rightarrow>
          (case (map_of kv ''v'', map_of kv ''rid'', map_of kv ''exp'', map_of kv ''jti'') of
             (Some (JNum ver), Some (JStr r), Some (JNum e), Some (JStr i)) \<Rightarrow>
               if ver \<noteq> 1 then Inl ''ERR_TOKEN_FORMAT''
               else Inr \<lparr> tok_v = ver, tok_rid = r, tok_exp = e, tok_jti = i \<rparr>
           | _ \<Rightarrow> Inl ''ERR_TOKEN_FORMAT'')
      | _ \<Rightarrow> Inl ''ERR_TOKEN_FORMAT'')"

definition verifyJoinToken :: "platform \<Rightarrow> string \<Rightarrow> string \<Rightarrow> string + JoinTokenPayload" where
  "verifyJoinToken P secret token =
     (let parts = split_on (CHR ''.'') token in
      if length parts \<noteq> 2 then Inl ''ERR_TOKEN_FORMAT''
      else
        let payloadB64Url = parts ! 0; macB64Url = parts ! 1 in
        if payloadB64Url = [] \<or> macB64Url = [] then Inl ''ERR_TOKEN_FORMAT''
        else
          let payloadBytes = b64urlDecode payloadB64Url;
              expectedMac = hmacSha256B64Url P secret payloadBytes
          in
            if \<not> timingSafeEqualB64Url macB64Url expectedMac then Inl ''ERR_TOKEN_MAC''
            else (case JSON_parse P payloadBytes of
                    None \<Rightarrow> Inl ''ERR_TOKEN_FORMAT''
                  | Some payload \<Rightarrow> payload_of_json payload))"


text \<open>A token whose parsed payload is the minted one.\<close>

definition json_roundtrip :: "platform \<Rightarrow> string \<Rightarrow> int \<Rightarrow> string \<Rightarrow> bool" where
  "json_roundtrip P rid expUnixMs jti =
     (case JSON_parse P (payload_bytes rid expUnixMs jti) of
        None \<Rightarrow> False
      | Some j \<Rightarrow> payload_of_json j
                  = Inr \<lparr> tok_v = 1, tok_rid = rid, tok_exp = expUnixMs, tok_jti = jti \<rparr>)"

section \<open>Protocol engine: state\<close>

text \<open>
  \<^verbatim>\<open>ws/handlers.ts\<close>. The socket library, the clock and the random source are outside the
  code: a socket is its \<^verbatim>\<open>readyState\<close> and \<^verbatim>\<open>bufferedAmount\<close>; what the server does to
  sockets is returned as a list of effects; the values \<^verbatim>\<open>randomIdB64Url\<close> returns during
  one handler run are the fields of \<open>Env\<close>, together with the clock.
\<close>

record Config =
  JOIN_TOKEN_SECRET :: string
  ROOM_MAX_PARTICIPANTS :: int
  ROOM_KEY_TTL_MS :: int
  QR_ROTATION_MS :: int
  MAX_WS_MSG_BYTES :: int
  MAX_APP_CIPHERTEXT_BYTES :: int
  MAX_MSGS_PER_10S :: int
  MAX_BYTES_PER_10S :: int
  MAX_CONNS_PER_IP :: int
  MAX_TOTAL_CONNECTIONS :: int
  WS_PING_INTERVAL_MS :: int
  WS_PING_TIMEOUT_MS :: int

record WebSocket =
  readyState :: nat
  bufferedAmount :: int

record ConnCtx =
  connId :: string
  ip :: string
  ws :: WebSocket
  roomId :: "string option"
  label :: "string option"
  msgBucket :: TokenBucket
  bytesBucket :: TokenBucket
  lastPongMs :: int
  awaitingPong :: bool

text \<open>
  \<^verbatim>\<open>LocalRoom\<close>: \<^verbatim>\<open>conns\<close> is a \<^verbatim>\<open>Set<string>\<close>, iterated in insertion order; the rotation
  timer is the event \<open>rotateQr\<close>.
\<close>

record LocalRoom =
  lr_roomId :: string
  conns :: "string list"
  qrToken :: string
  qrExpUnixMs :: int

text \<open>
  The frames the server sends, \<^verbatim>\<open>{ v: 1, t, id, body }\<close>: the tag \<^verbatim>\<open>t\<close> is the constructor,
  the body its arguments in the order of the source; a frame is its \<^verbatim>\<open>id\<close> and this.
\<close>

datatype ServerMsg =
    HELLO int
  | PONG
  | ERROR string bool
  | ROOM_CREATED string string int int
  | ROOM_STATS string int int
  | JOINED string int int "string option" string int
  | LEFT string
  | SYSTEM_MSG string string string
  | APP_MSG string string
  | MEDIA_MSG string string int int "string list" "string option"
  | QR_ROTATED string string int

type_synonym frame = "string \<times> ServerMsg"

datatype effect =
    Send string frame
  | Close string nat string
  | Terminate string
  | Ping string
  | Reject nat string

record Env =
  nowMs :: int
  frameId :: "nat \<Rightarrow> string"
  newConnId :: string
  newRoomId :: string
  newJti :: "nat \<Rightarrow> string"

text \<open>
  The server state. A connection context is an object shared by the \<^verbatim>\<open>connections\<close> map
  and by the closures of its socket's event handlers; \<open>ctxs\<close> holds the objects by
  connection id, and \<open>connections\<close> holds the keys of the map in insertion order. The
  flag \<^verbatim>\<open>disconnected\<close> of each socket's closure is the set of the ids whose flag is set.
\<close>

record Server =
  ctxs :: "string \<rightharpoonup> ConnCtx"
  connections :: "string list"
  localRooms :: "string \<rightharpoonup> LocalRoom"
  redis :: Redis
  ipLimiter :: IpConnectionLimiter
  globalLimiter :: GlobalConnectionLimiter
  disconnected :: "string set"

definition WS_CLOSE_POLICY_VIOLATION :: nat where "WS_CLOSE_POLICY_VIOLATION = 1008"

definition WS_CLOSE_UNSUPPORTED_DATA :: nat where "WS_CLOSE_UNSUPPORTED_DATA = 1003"

text \<open>
  \<^verbatim>\<open>connections.get(id)\<close>, and the write of a field of the context object \<open>cid\<close>. The
  object of a socket is named by the id it was admitted under; the field \<^verbatim>\<open>ctx.connId\<close> is
  read where the source reads it.
\<close>

definition conn_get :: "Server \<Rightarrow> string \<Rightarrow> ConnCtx option" where
  "conn_get s cid = (if cid \<in> set (connections s) then ctxs s cid else None)"

definition conn_set :: "string \<Rightarrow> ConnCtx \<Rightarrow> Server \<Rightarrow> Server" where
  "conn_set cid ctx s = s \<lparr> ctxs := (ctxs s)(cid \<mapsto> ctx) \<rparr>"

text \<open>\<^verbatim>\<open>Set.add\<close> and \<^verbatim>\<open>Set.delete\<close> on the insertion-ordered set.\<close>

definition Set_add :: "string \<Rightarrow> string list \<Rightarrow> string list" where
  "Set_add x xs = (if x \<in> set xs then xs else xs @ [x])"

definition Set_delete :: "string \<Rightarrow> string list \<Rightarrow> string list" where
  "Set_delete x xs = filter (\<lambda>y. y \<noteq> x) xs"

text \<open>JavaScript truthiness of \<^verbatim>\<open>string | undefined\<close>.\<close>

definition truthy :: "string option \<Rightarrow> bool" where
  "truthy x \<longleftrightarrow> (case x of None \<Rightarrow> False | Some t \<Rightarrow> t \<noteq> [])"

text \<open>\<^verbatim>\<open>ws.close(code, reason)\<close> and \<^verbatim>\<open>ws.terminate()\<close> leave an open socket \<^verbatim>\<open>CLOSING\<close>.\<close>

definition ws_closing :: "ConnCtx \<Rightarrow> ConnCtx" where
  "ws_closing ctx =
     (if readyState (ws ctx) = 1 then ctx \<lparr> ws := (ws ctx) \<lparr> readyState := 2 \<rparr> \<rparr> else ctx)"

definition wsSend :: "Config \<Rightarrow> string \<Rightarrow> ConnCtx \<Rightarrow> frame \<Rightarrow> effect list" where
  "wsSend cfg cid ctx msg =
     (if readyState (ws ctx) \<noteq> 1 then []
      else if bufferedAmount (ws ctx) > MAX_WS_MSG_BYTES cfg * 4 then []
      else [Send cid msg])"

text \<open>
  \<^verbatim>\<open>broadcast\<close>: the frame is serialised once and sent to the snapshot of the room's
  connection ids, in order. The source yields to the event loop after every 50 sends; a
  room holds at most 50 participants, and the model runs the snapshot as one step.
\<close>

fun broadcast_loop :: "Config \<Rightarrow> frame \<Rightarrow> string list \<Rightarrow> Server \<Rightarrow> Server \<times> effect list" where
  "broadcast_loop cfg data [] s = (s, [])"
| "broadcast_loop cfg data (i # rest) s =
     (case conn_get s i of
        None \<Rightarrow> broadcast_loop cfg data rest s
      | Some ctx \<Rightarrow>
          if readyState (ws ctx) \<noteq> 1 then broadcast_loop cfg data rest s
          else if bufferedAmount (ws ctx) > MAX_WS_MSG_BYTES cfg * 4 then
            (let (s', es) = broadcast_loop cfg data rest (conn_set i (ws_closing ctx) s)
             in (s', Close i WS_CLOSE_POLICY_VIOLATION ''slow consumer'' # es))
          else
            (let (s', es) = broadcast_loop cfg data rest s
             in (s', Send i data # es)))"

definition broadcast :: "Config \<Rightarrow> string \<Rightarrow> frame \<Rightarrow> Server \<Rightarrow> Server \<times> effect list" where
  "broadcast cfg rid msg s =
     (case localRooms s rid of
        None \<Rightarrow> (s, [])
      | Some r \<Rightarrow> if conns r = [] then (s, []) else broadcast_loop cfg msg (conns r) s)"

definition roomStore :: "Config \<Rightarrow> RoomStore" where
  "roomStore cfg = \<lparr> ttlMs = ROOM_KEY_TTL_MS cfg, maxParticipants = ROOM_MAX_PARTICIPANTS cfg \<rparr>"

definition ensureLocalRoom ::
  "platform \<Rightarrow> Config \<Rightarrow> Env \<Rightarrow> string \<Rightarrow> Server \<Rightarrow> LocalRoom \<times> Server" where
  "ensureLocalRoom P cfg env rid s =
     (case localRooms s rid of
        Some existing \<Rightarrow> (existing, s)
      | None \<Rightarrow>
          let expMs = nowMs env + QR_ROTATION_MS cfg;
              token = mintJoinToken P (JOIN_TOKEN_SECRET cfg) rid expMs (newJti env 0);
              r = \<lparr> lr_roomId = rid, conns = [], qrToken = token, qrExpUnixMs = expMs \<rparr>
          in (r, s \<lparr> localRooms := (localRooms s)(rid \<mapsto> r) \<rparr>))"

definition local_conns_add :: "string \<Rightarrow> string \<Rightarrow> Server \<Rightarrow> Server" where
  "local_conns_add rid cid s =
     (case localRooms s rid of
        None \<Rightarrow> s
      | Some r \<Rightarrow> s \<lparr> localRooms := (localRooms s)(rid \<mapsto> r \<lparr> conns := Set_add cid (conns r) \<rparr>) \<rparr>)"

definition local_conns_delete :: "string \<Rightarrow> string \<Rightarrow> Server \<Rightarrow> Server" where
  "local_conns_delete rid cid s =
     (case localRooms s rid of
        None \<Rightarrow> s
      | Some r \<Rightarrow> s \<lparr> localRooms := (localRooms s)(rid \<mapsto> r \<lparr> conns := Set_delete cid (conns r) \<rparr>) \<rparr>)"

definition rotateQr :: "platform \<Rightarrow> Config \<Rightarrow> Env \<Rightarrow> string \<Rightarrow> Server \<Rightarrow> Server \<times> effect list" where
  "rotateQr P cfg env rid s =
     (case localRooms s rid of
        None \<Rightarrow> (s, [])
      | Some r \<Rightarrow>
          let s1 = s \<lparr> redis := touch (roomStore cfg) rid (redis s) \<rparr>;
              expMs = nowMs env + QR_ROTATION_MS cfg;
              token = mintJoinToken P (JOIN_TOKEN_SECRET cfg) rid expMs (newJti env 0);
              s2 = s1 \<lparr> localRooms :=
                     (localRooms s1)(rid \<mapsto> r \<lparr> qrToken := token, qrExpUnixMs := expMs \<rparr>) \<rparr>
          in broadcast cfg rid (frameId env 0, QR_ROTATED rid token expMs) s2)"

definition cleanupIfEmpty :: "string \<Rightarrow> Server \<Rightarrow> Server" where
  "cleanupIfEmpty rid s =
     (case localRooms s rid of
        Some r \<Rightarrow> if conns r \<noteq> [] then s else s \<lparr> localRooms := (localRooms s)(rid := None) \<rparr>
      | None \<Rightarrow> s \<lparr> localRooms := (localRooms s)(rid := None) \<rparr>)"

definition leaveRoom :: "Config \<Rightarrow> Env \<Rightarrow> string \<Rightarrow> string \<Rightarrow> Server \<Rightarrow> Server \<times> effect list" where
  "leaveRoom cfg env cid rid s =
     (case ctxs s cid of
        None \<Rightarrow> (s, [])
      | Some ctx \<Rightarrow>
          if roomId ctx \<noteq> Some rid then (s, [])
          else
            let s1 = conn_set cid (ctx \<lparr> roomId := None \<rparr>) s;
                s2 = local_conns_delete rid (connId ctx) s1;
                (remaining, rd) = leave (roomStore cfg) rid (connId ctx) (redis s2);
                s3 = s2 \<lparr> redis := rd \<rparr>
            in
              if remaining \<le> 0 then (cleanupIfEmpty rid s3, [])
              else
                let (s4, es1) =
                      (case label ctx of
                         None \<Rightarrow> (s3, [])
                       | Some l \<Rightarrow>
                           if l = [] then (s3, [])
                           else broadcast cfg rid
                                  (frameId env 0, SYSTEM_MSG rid (l @ '' has left the chat'') ''info'')
                                  s3);
                    (s5, es2) =
                      broadcast cfg rid
                        (frameId env 1, ROOM_STATS rid remaining (ROOM_MAX_PARTICIPANTS cfg)) s4
                in (s5, es1 @ es2))"

definition onDisconnect :: "Config \<Rightarrow> Env \<Rightarrow> string \<Rightarrow> Server \<Rightarrow> Server \<times> effect list" where
  "onDisconnect cfg env cid s =
     (case ctxs s cid of
        None \<Rightarrow> (s, [])
      | Some ctx \<Rightarrow>
          let (s1, es) =
                (case roomId ctx of
                   None \<Rightarrow> (s, [])
                 | Some rid \<Rightarrow> if rid = [] then (s, []) else leaveRoom cfg env cid rid s);
              s2 = s1 \<lparr> connections := Set_delete (connId ctx) (connections s1),
                        ipLimiter := ip_dec (ip ctx) (ipLimiter s1),
                        globalLimiter := global_dec (globalLimiter s1) \<rparr>
          in (s2, es))"

text \<open>
  The socket library sets \<^verbatim>\<open>readyState\<close> to \<^verbatim>\<open>CLOSED\<close> before it emits \<^verbatim>\<open>close\<close>.
\<close>

definition ws_closed :: "string \<Rightarrow> Server \<Rightarrow> Server" where
  "ws_closed cid s =
     (case ctxs s cid of
        None \<Rightarrow> s
      | Some ctx \<Rightarrow> conn_set cid (ctx \<lparr> ws := (ws ctx) \<lparr> readyState := 3 \<rparr> \<rparr>) s)"

text \<open>The \<^verbatim>\<open>close\<close> and \<^verbatim>\<open>error\<close> events of a socket, guarded by its \<^verbatim>\<open>disconnected\<close> flag.\<close>

definition onClose :: "Config \<Rightarrow> Env \<Rightarrow> string \<Rightarrow> Server \<Rightarrow> Server \<times> effect list" where
  "onClose cfg env cid s =
     (if cid \<in> disconnected s then (s, [])
      else onDisconnect cfg env cid (s \<lparr> disconnected := insert cid (disconnected s) \<rparr>))"

definition onError :: "Config \<Rightarrow> Env \<Rightarrow> string \<Rightarrow> Server \<Rightarrow> Server \<times> effect list" where
  "onError cfg env cid s =
     (if cid \<in> disconnected s then (s, [])
      else onDisconnect cfg env cid (s \<lparr> disconnected := insert cid (disconnected s) \<rparr>))"

text \<open>The \<^verbatim>\<open>pong\<close> event.\<close>

definition onPong :: "Env \<Rightarrow> string \<Rightarrow> Server \<Rightarrow> Server" where
  "onPong env cid s =
     (case ctxs s cid of
        None \<Rightarrow> s
      | Some ctx \<Rightarrow> conn_set cid (ctx \<lparr> lastPongMs := nowMs env, awaitingPong := False \<rparr>) s)"

text \<open>Admission of a new socket \<open>sock\<close> from address \<open>addr\<close>.\<close>

definition onConnection ::
  "Config \<Rightarrow> Env \<Rightarrow> WebSocket \<Rightarrow> string \<Rightarrow> Server \<Rightarrow> Server \<times> effect list" where
  "onConnection cfg env sock addr s =
     (let (okG, g1) = global_tryInc (globalLimiter s) in
      if \<not> okG then (s \<lparr> globalLimiter := g1 \<rparr>, [Reject WS_CLOSE_POLICY_VIOLATION ''server at capacity''])
      else
        let (okI, l1) = ip_tryInc addr (ipLimiter s) in
        if \<not> okI then
          (s \<lparr> globalLimiter := global_dec g1, ipLimiter := l1 \<rparr>,
           [Reject WS_CLOSE_POLICY_VIOLATION ''too many connections from your IP''])
        else
          let cid = newConnId env;
              ctx = \<lparr> connId = cid, ip = addr, ws = sock, roomId = None, label = None,
                      msgBucket = new_TokenBucket (MAX_MSGS_PER_10S cfg) (MAX_MSGS_PER_10S cfg)
                                    10000 (nowMs env),
                      bytesBucket = new_TokenBucket (MAX_BYTES_PER_10S cfg) (MAX_BYTES_PER_10S cfg)
                                      10000 (nowMs env),
                      lastPongMs = nowMs env, awaitingPong = False \<rparr>;
              s1 = s \<lparr> globalLimiter := g1, ipLimiter := l1,
                       ctxs := (ctxs s)(cid \<mapsto> ctx),
                       connections := Set_add cid (connections s) \<rparr>
          in (s1, wsSend cfg cid ctx (frameId env 0, HELLO (nowMs env))))"

text \<open>The keep-alive timer: one sweep over the connections, in map order.\<close>

definition pingStep :: "Config \<Rightarrow> int \<Rightarrow> string \<Rightarrow> ConnCtx \<Rightarrow> ConnCtx \<times> effect list" where
  "pingStep cfg t cid ctx =
     (if readyState (ws ctx) \<noteq> 1 then (ctx, [])
      else if awaitingPong ctx \<and> t - lastPongMs ctx > WS_PING_TIMEOUT_MS cfg then
        (ws_closing ctx, [Terminate cid])
      else (ctx \<lparr> awaitingPong := True \<rparr>, [Ping cid]))"

fun pingSweep_loop :: "Config \<Rightarrow> int \<Rightarrow> string list \<Rightarrow> Server \<Rightarrow> Server \<times> effect list" where
  "pingSweep_loop cfg t [] s = (s, [])"
| "pingSweep_loop cfg t (i # rest) s =
     (case ctxs s i of
        None \<Rightarrow> pingSweep_loop cfg t rest s
      | Some ctx \<Rightarrow>
          let (ctx', es1) = pingStep cfg t i ctx;
              (s', es2) = pingSweep_loop cfg t rest (conn_set i ctx' s)
          in (s', es1 @ es2))"

definition pingSweep :: "Config \<Rightarrow> int \<Rightarrow> Server \<Rightarrow> Server \<times> effect list" where
  "pingSweep cfg t s = pingSweep_loop cfg t (connections s) s"

section \<open>Protocol engine: client messages\<close>

text \<open>
  \<^verbatim>\<open>ws/types.ts\<close>: the zod schemas, as functions from the parsed JSON to the validated
  message or \<open>None\<close>. \<^verbatim>\<open>z.object\<close> keeps the declared keys only: a key the schema does
  not declare is absent from the parsed value.
\<close>

definition z_string :: "nat \<Rightarrow> nat \<Rightarrow> jval option \<Rightarrow> string option" where
  "z_string lo hi x =
     (case x of
        Some (JStr t) \<Rightarrow> if lo \<le> length t \<and> length t \<le> hi then Some t else None
      | _ \<Rightarrow> None)"

definition z_string_optional :: "nat \<Rightarrow> nat \<Rightarrow> jval option \<Rightarrow> string option option" where
  "z_string_optional lo hi x =
     (case x of
        None \<Rightarrow> Some None
      | Some (JStr t) \<Rightarrow> if lo \<le> length t \<and> length t \<le> hi then Some (Some t) else None
      | Some _ \<Rightarrow> None)"

text \<open>
  \<^verbatim>\<open>z.coerce.number().int()\<close>: \<^verbatim>\<open>Number(x)\<close> of a number, a boolean, \<^verbatim>\<open>null\<close>, the empty
  string or a string of decimal digits. The other spellings that \<^verbatim>\<open>Number\<close> reads as an
  integer (surrounding white space, a sign, a hexadecimal, binary or octal literal, an
  exponent, a one-element array) are left invalid here; they occur in the fields of
  \<^verbatim>\<open>MEDIA_MSG\<close> only, and no statement below depends on how such a field is read.
\<close>

definition z_coerce_int :: "jval option \<Rightarrow> int option" where
  "z_coerce_int x =
     (case x of
        Some (JNum n) \<Rightarrow> Some n
      | Some (JBool b) \<Rightarrow> Some (if b then 1 else 0)
      | Some JNull \<Rightarrow> Some 0
      | Some (JStr t) \<Rightarrow> if list_all is_digit t then Some (digits_val t) else None
      | _ \<Rightarrow> None)"

definition WsEnvelopeSchema :: "jval \<Rightarrow> (string \<times> jval option) option" where
  "WsEnvelopeSchema j =
     (case j of
        JObj kv \<Rightarrow>
          if map_of kv ''v'' \<noteq> Some (JNum 1) then None
          else (case (map_of kv ''t'', z_string 8 256 (map_of kv ''id'')) of
                  (Some (JStr t), Some i) \<Rightarrow> Some (t, map_of kv ''body'')
                | _ \<Rightarrow> None)
      | _ \<Rightarrow> None)"

record JoinBody =
  jb_roomId :: string
  jb_token :: "string option"
  jb_qrToken :: "string option"
  jb_label :: "string option"

record MediaBody =
  mb_roomId :: string
  mb_mime :: string
  mb_size :: int
  mb_chunkSize :: int
  mb_chunks :: "string list"
  mb_from :: "string option"

datatype ClientMsg =
    ROOM_CREATE
  | JOIN_REQUEST JoinBody
  | LEAVE string
  | APP_MSG_in string string
  | MEDIA_MSG_in MediaBody
  | PING

text \<open>
  \<^verbatim>\<open>JoinRequestSchema\<close>: the body declares \<^verbatim>\<open>roomId\<close>, \<^verbatim>\<open>token\<close>, \<^verbatim>\<open>qrToken\<close> and
  \<^verbatim>\<open>label: z.string().min(1).max(32).optional()\<close>, and one of the two tokens must be there.
\<close>

definition JoinRequestSchema :: "(string \<times> jval) list \<Rightarrow> JoinBody option" where
  "JoinRequestSchema kv =
     (case (z_string 8 128 (map_of kv ''roomId''),
            z_string_optional 8 2048 (map_of kv ''token''),
            z_string_optional 8 2048 (map_of kv ''qrToken''),
            z_string_optional 1 32 (map_of kv ''label'')) of
        (Some r, Some t, Some q, Some l) \<Rightarrow>
          if truthy t \<or> truthy q
          then Some \<lparr> jb_roomId = r, jb_token = t, jb_qrToken = q, jb_label = l \<rparr>
          else None
      | _ \<Rightarrow> None)"

fun z_chunks :: "jval list \<Rightarrow> string list option" where
  "z_chunks [] = Some []"
| "z_chunks (x # xs) =
     (case (x, z_chunks xs) of
        (JStr t, Some ts) \<Rightarrow> if 1 \<le> length t then Some (t # ts) else None
      | _ \<Rightarrow> None)"

definition MediaMsgSchema :: "(string \<times> jval) list \<Rightarrow> MediaBody option" where
  "MediaMsgSchema kv =
     (case (z_string 8 128 (map_of kv ''roomId''), z_string 0 128 (map_of kv ''mime''),
            z_coerce_int (map_of kv ''size''), z_coerce_int (map_of kv ''chunkSize''),
            map_of kv ''chunks'') of
        (Some r, Some m, Some sz, Some cs, Some (JArr xs)) \<Rightarrow>
          (case z_chunks xs of
             None \<Rightarrow> None
           | Some ch \<Rightarrow>
               if 1 \<le> sz \<and> sz \<le> 10485760 \<and> 1024 \<le> cs \<and> 1 \<le> length ch \<and> length ch \<le> 128
               then Some \<lparr> mb_roomId = r, mb_mime = m, mb_size = sz, mb_chunkSize = cs,
                           mb_chunks = ch, mb_from = None \<rparr>
               else None)
      | _ \<Rightarrow> None)"

text \<open>
  The schema module the handler is linked with: \<open>ws_types\<close> is the module whose exports
  satisfy the imports of \<^verbatim>\<open>ws/handlers.ts\<close> (\<^verbatim>\<open>MediaMsgSchema\<close> among them) and whose
  \<^verbatim>\<open>JoinRequestSchema\<close> declares the \<^verbatim>\<open>label\<close> that the handler reads. The tree holds an
  older copy of the module without \<^verbatim>\<open>MediaMsgSchema\<close> and without \<^verbatim>\<open>label\<close>; the handler
  cannot be loaded with it.
\<close>

record Schemas =
  schema_JoinRequest :: "(string \<times> jval) list \<Rightarrow> JoinBody option"
  schema_MediaMsg :: "((string \<times> jval) list \<Rightarrow> MediaBody option) option"

definition ws_types :: Schemas where
  "ws_types =
     \<lparr> schema_JoinRequest = JoinRequestSchema, schema_MediaMsg = Some MediaMsgSchema \<rparr>"

definition parseClientMsg :: "Schemas \<Rightarrow> jval \<Rightarrow> ClientMsg option" where
  "parseClientMsg T raw =
     (case WsEnvelopeSchema raw of
        None \<Rightarrow> None
      | Some (t, body) \<Rightarrow>
          (case body of
             Some (JObj kv) \<Rightarrow>
               if t = ''ROOM_CREATE'' then Some ROOM_CREATE
               else if t = ''JOIN_REQUEST'' then map_option JOIN_REQUEST (schema_JoinRequest T kv)
               else if t = ''LEAVE'' then map_option LEAVE (z_string 8 128 (map_of kv ''roomId''))
               else if t = ''APP_MSG'' then
                 (case (z_string 8 128 (map_of kv ''roomId''),
                        z_string 1 200000 (map_of kv ''ciphertextB64'')) of
                    (Some r, Some c) \<Rightarrow> Some (APP_MSG_in r c)
                  | _ \<Rightarrow> None)
               else if t = ''MEDIA_MSG'' then
                 (case schema_MediaMsg T of
                    None \<Rightarrow> None
                  | Some f \<Rightarrow> map_option MEDIA_MSG_in (f kv))
               else if t = ''PING'' then Some PING
               else None
           | _ \<Rightarrow> None))"

section \<open>Protocol engine: the message handler\<close>

text \<open>\<^verbatim>\<open>Buffer.byteLength(s, "utf8")\<close>\<close>

definition byteLength :: "string \<Rightarrow> int" where
  "byteLength t = int (length (Buffer_from_utf8 t))"

definition error_frame ::
  "Config \<Rightarrow> Env \<Rightarrow> string \<Rightarrow> ConnCtx \<Rightarrow> string \<Rightarrow> bool \<Rightarrow> effect list" where
  "error_frame cfg env cid ctx code retryable =
     wsSend cfg cid ctx (frameId env 0, ERROR code retryable)"

definition handle_PING ::
  "Config \<Rightarrow> Env \<Rightarrow> string \<Rightarrow> ConnCtx \<Rightarrow> Server \<Rightarrow> Server \<times> effect list" where
  "handle_PING cfg env cid ctx s = (s, wsSend cfg cid ctx (frameId env 0, PONG))"

definition handle_ROOM_CREATE ::
  "platform \<Rightarrow> Config \<Rightarrow> Env \<Rightarrow> string \<Rightarrow> ConnCtx \<Rightarrow> Server \<Rightarrow> Server \<times> effect list" where
  "handle_ROOM_CREATE P cfg env cid ctx s =
     (if truthy (roomId ctx) then (s, error_frame cfg env cid ctx ''ERR_ALREADY_IN_ROOM'' False)
      else
        let rid = newRoomId env;
            (res, rd) = createRoom (roomStore cfg) rid (connId ctx) (nowMs env) (redis s);
            s1 = s \<lparr> redis := rd \<rparr>;
            (local, s2) = ensureLocalRoom P cfg env rid s1;
            s3 = local_conns_add rid (connId ctx) s2;
            ctx' = ctx \<lparr> roomId := Some rid \<rparr>;
            s4 = conn_set cid ctx' s3;
            es1 = wsSend cfg cid ctx'
                    (frameId env 1,
                     ROOM_CREATED rid (qrToken local) (qrExpUnixMs local) (ROOM_MAX_PARTICIPANTS cfg));
            (s5, es2) = broadcast cfg rid
                          (frameId env 2, ROOM_STATS rid 1 (ROOM_MAX_PARTICIPANTS cfg)) s4
        in (s5, es1 @ es2))"

text \<open>The success path of \<^verbatim>\<open>JOIN_REQUEST\<close>, after \<^verbatim>\<open>tryJoin\<close> has returned \<^verbatim>\<open>ok\<close>.\<close>

definition join_success ::
  "platform \<Rightarrow> Config \<Rightarrow> Env \<Rightarrow> string \<Rightarrow> ConnCtx \<Rightarrow> JoinBody \<Rightarrow> int \<Rightarrow> string \<Rightarrow> Server
     \<Rightarrow> Server \<times> effect list" where
  "join_success P cfg env cid ctx body cnt lbl s =
     (let rid = jb_roomId body;
          (local, s3) = ensureLocalRoom P cfg env rid s;
          s4 = local_conns_add rid (connId ctx) s3;
          newLabel = (if truthy (jb_label body) then jb_label body else Some lbl);
          ctx' = ctx \<lparr> roomId := Some rid, label := newLabel \<rparr>;
          s5 = conn_set cid ctx' s4;
          nextToken = mintJoinToken P (JOIN_TOKEN_SECRET cfg) rid
                        (nowMs env + ROOM_KEY_TTL_MS cfg) (newJti env 1);
          nextTokenExpUnixMs = nowMs env + ROOM_KEY_TTL_MS cfg;
          es1 = wsSend cfg cid ctx'
                  (frameId env 1,
                   JOINED rid cnt (ROOM_MAX_PARTICIPANTS cfg) newLabel nextToken nextTokenExpUnixMs);
          (s6, es2) = broadcast cfg rid
                        (frameId env 2,
                         SYSTEM_MSG rid
                           (''this person has entered the chat with the name ''
                            @ (case newLabel of Some l \<Rightarrow> l | None \<Rightarrow> ''undefined''))
                           ''info'') s5;
          (s7, es3) = broadcast cfg rid
                        (frameId env 3, ROOM_STATS rid cnt (ROOM_MAX_PARTICIPANTS cfg)) s6
      in (s7, es1 @ es2 @ es3))"

text \<open>\<^verbatim>\<open>qrToken || token\<close>\<close>

definition effectiveToken :: "JoinBody \<Rightarrow> string option" where
  "effectiveToken body = (if truthy (jb_qrToken body) then jb_qrToken body else jb_token body)"

definition handle_JOIN_REQUEST ::
  "platform \<Rightarrow> Config \<Rightarrow> Env \<Rightarrow> string \<Rightarrow> ConnCtx \<Rightarrow> JoinBody \<Rightarrow> Server
     \<Rightarrow> Server \<times> effect list" where
  "handle_JOIN_REQUEST P cfg env cid ctx body s =
     (if truthy (roomId ctx) then (s, error_frame cfg env cid ctx ''ERR_ALREADY_IN_ROOM'' False)
      else
        let rid = jb_roomId body in
          case effectiveToken body of
            None \<Rightarrow> (s, [])
          | Some tk \<Rightarrow>
              if tk = [] then (s, [])
              else
                (case verifyJoinToken P (JOIN_TOKEN_SECRET cfg) tk of
                   Inl code \<Rightarrow> (s, error_frame cfg env cid ctx code True)
                 | Inr payload \<Rightarrow>
                     if tok_rid payload \<noteq> rid then
                       (s, error_frame cfg env cid ctx ''ERR_TOKEN_ROOM_MISMATCH'' False)
                     else if nowMs env > tok_exp payload then
                       (s, error_frame cfg env cid ctx ''ERR_TOKEN_EXPIRED'' True)
                     else
                       let graceMs = 5000;
                           jtiTtlMs = max 1 (tok_exp payload - nowMs env + graceMs);
                           (fresh, rd1) = markTokenJtiUsed (roomStore cfg) rid (tok_jti payload)
                                            jtiTtlMs (nowMs env) (redis s);
                           s1 = s \<lparr> redis := rd1 \<rparr>
                       in
                         if \<not> fresh then (s1, error_frame cfg env cid ctx ''ERR_TOKEN_REPLAY'' True)
                         else
                           let (joined, rd2) = tryJoin (roomStore cfg) rid (connId ctx) (redis s1);
                               s2 = s1 \<lparr> redis := rd2 \<rparr>
                           in
                             (case joined of
                                JoinFailed code \<Rightarrow>
                                  (s2, error_frame cfg env cid ctx code (code \<noteq> ''ERR_NO_ROOM''))
                              | JoinOk cnt lbl \<Rightarrow> join_success P cfg env cid ctx body cnt lbl s2)))"

text \<open>
  The handler is an \<^verbatim>\<open>async\<close> function: it is suspended at
  \<^verbatim>\<open>await roomStore.markTokenJtiUsed(...)\<close> and at \<^verbatim>\<open>await roomStore.tryJoin(...)\<close>, and
  other events of the server may run before it goes on. \<open>handle_JOIN_REQUEST\<close> is the run
  in which none does. The next two definitions cut the handler at the second \<^verbatim>\<open>await\<close>:
  \<open>join_until_tryJoin\<close> runs it until the \<^verbatim>\<open>tryJoin\<close> script has run in the store and its
  reply is outstanding (\<open>Inl\<close> when the handler has returned before), and \<open>join_resume\<close> is
  the continuation on that reply, which reads the context object as it is by then.
\<close>

definition join_until_tryJoin ::
  "platform \<Rightarrow> Config \<Rightarrow> Env \<Rightarrow> string \<Rightarrow> ConnCtx \<Rightarrow> JoinBody \<Rightarrow> Server
     \<Rightarrow> (Server \<times> effect list) + (Server \<times> JoinResult)" where
  "join_until_tryJoin P cfg env cid ctx body s =
     (if truthy (roomId ctx) then Inl (s, error_frame cfg env cid ctx ''ERR_ALREADY_IN_ROOM'' False)
      else
        let rid = jb_roomId body in
          case effectiveToken body of
            None \<Rightarrow> Inl (s, [])
          | Some tk \<Rightarrow>
              if tk = [] then Inl (s, [])
              else
                (case verifyJoinToken P (JOIN_TOKEN_SECRET cfg) tk of
                   Inl code \<Rightarrow> Inl (s, error_frame cfg env cid ctx code True)
                 | Inr payload \<Rightarrow>
                     if tok_rid payload \<noteq> rid then
                       Inl (s, error_frame cfg env cid ctx ''ERR_TOKEN_ROOM_MISMATCH'' False)
                     else if nowMs env > tok_exp payload then
                       Inl (s, error_frame cfg env cid ctx ''ERR_TOKEN_EXPIRED'' True)
                     else
                       let graceMs = 5000;
                           jtiTtlMs = max 1 (tok_exp payload - nowMs env + graceMs);
                           (fresh, rd1) = markTokenJtiUsed (roomStore cfg) rid (tok_jti payload)
                                            jtiTtlMs (nowMs env) (redis s);
                           s1 = s \<lparr> redis := rd1 \<rparr>
                       in
                         if \<not> fresh then
                           Inl (s1, error_frame cfg env cid ctx ''ERR_TOKEN_REPLAY'' True)
                         else
                           let (joined, rd2) = tryJoin (roomStore cfg) rid (connId ctx) (redis s1)
                           in Inr (s1 \<lparr> redis := rd2 \<rparr>, joined)))"

definition join_resume ::
  "platform \<Rightarrow> Config \<Rightarrow> Env \<Rightarrow> string \<Rightarrow> JoinBody \<Rightarrow> JoinResult \<Rightarrow> Server
     \<Rightarrow> Server \<times> effect list" where
  "join_resume P cfg env cid body joined s =
     (case ctxs s cid of
        None \<Rightarrow> (s, [])
      | Some ctx \<Rightarrow>
          (case joined of
             JoinFailed code \<Rightarrow> (s, error_frame cfg env cid ctx code (code \<noteq> ''ERR_NO_ROOM''))
           | JoinOk cnt lbl \<Rightarrow> join_success P cfg env cid ctx body cnt lbl s))"

definition handle_LEAVE ::
  "Config \<Rightarrow> Env \<Rightarrow> string \<Rightarrow> ConnCtx \<Rightarrow> string \<Rightarrow> Server \<Rightarrow> Server \<times> effect list" where
  "handle_LEAVE cfg env cid ctx rid s =
     (let (s1, es) = leaveRoom cfg env cid rid s;
          ctx' = (case ctxs s1 cid of None \<Rightarrow> ctx | Some c \<Rightarrow> c)
      in (s1, es @ wsSend cfg cid ctx' (frameId env 2, LEFT rid)))"

definition handle_APP_MSG ::
  "Config \<Rightarrow> Env \<Rightarrow> string \<Rightarrow> ConnCtx \<Rightarrow> string \<Rightarrow> string \<Rightarrow> Server
     \<Rightarrow> Server \<times> effect list" where
  "handle_APP_MSG cfg env cid ctx rid ciphertextB64 s =
     (if roomId ctx \<noteq> Some rid then (s, error_frame cfg env cid ctx ''ERR_NOT_IN_ROOM'' False)
      else
        let ctBytes = byteLength ciphertextB64 in
        if ctBytes > MAX_APP_CIPHERTEXT_BYTES cfg then
          (s, error_frame cfg env cid ctx ''ERR_CIPHERTEXT_TOO_LARGE'' False)
        else broadcast cfg rid (frameId env 0, APP_MSG rid ciphertextB64) s)"

definition handle_MEDIA_MSG ::
  "Config \<Rightarrow> Env \<Rightarrow> string \<Rightarrow> ConnCtx \<Rightarrow> MediaBody \<Rightarrow> Server \<Rightarrow> Server \<times> effect list" where
  "handle_MEDIA_MSG cfg env cid ctx body s =
     (if roomId ctx \<noteq> Some (mb_roomId body) then
        (s, error_frame cfg env cid ctx ''ERR_NOT_IN_ROOM'' False)
      else
        let totalChunkBytes = foldl (\<lambda>acc c. acc + byteLength c) 0 (mb_chunks body);
            MAX_RELAY_BYTES = 14 * 1024 * 1024
        in
          if totalChunkBytes > MAX_RELAY_BYTES then
            (s, error_frame cfg env cid ctx ''ERR_MEDIA_TOO_LARGE'' False)
          else broadcast cfg (mb_roomId body)
                 (frameId env 0,
                  MEDIA_MSG (mb_roomId body) (mb_mime body) (mb_size body) (mb_chunkSize body)
                    (mb_chunks body) (mb_from body)) s)"

definition dispatch ::
  "platform \<Rightarrow> Config \<Rightarrow> Env \<Rightarrow> string \<Rightarrow> ConnCtx \<Rightarrow> ClientMsg \<Rightarrow> Server
     \<Rightarrow> Server \<times> effect list" where
  "dispatch P cfg env cid ctx msg s =
     (case msg of
        PING \<Rightarrow> handle_PING cfg env cid ctx s
      | ROOM_CREATE \<Rightarrow> handle_ROOM_CREATE P cfg env cid ctx s
      | JOIN_REQUEST body \<Rightarrow> handle_JOIN_REQUEST P cfg env cid ctx body s
      | LEAVE rid \<Rightarrow> handle_LEAVE cfg env cid ctx rid s
      | APP_MSG_in rid ct \<Rightarrow> handle_APP_MSG cfg env cid ctx rid ct s
      | MEDIA_MSG_in body \<Rightarrow> handle_MEDIA_MSG cfg env cid ctx body s)"

text \<open>
  The \<^verbatim>\<open>message\<close> event of the socket of connection \<open>cid\<close>: \<open>bytes\<close> is the byte length of
  the raw frame and \<open>parsed\<close> the result of \<^verbatim>\<open>JSON.parse\<close> on it, \<open>None\<close> when that throws.
\<close>

definition onMessage ::
  "platform \<Rightarrow> Schemas \<Rightarrow> Config \<Rightarrow> Env \<Rightarrow> string \<Rightarrow> int \<Rightarrow> jval option \<Rightarrow> Server
     \<Rightarrow> Server \<times> effect list" where
  "onMessage P T cfg env cid bytes parsed s =
     (case ctxs s cid of
        None \<Rightarrow> (s, [])
      | Some ctx \<Rightarrow>
          if bytes > MAX_WS_MSG_BYTES cfg then
            (conn_set cid (ws_closing ctx) s,
             [Close cid WS_CLOSE_POLICY_VIOLATION ''message too large''])
          else
            let (ok1, mb) = take_tokens (nowMs env) 1 (msgBucket ctx);
                ctx1 = ctx \<lparr> msgBucket := mb \<rparr>;
                (ok2, bb) = (if ok1 then take_tokens (nowMs env) bytes (bytesBucket ctx1)
                             else (False, bytesBucket ctx1));
                ctx2 = ctx1 \<lparr> bytesBucket := bb \<rparr>
            in
              if \<not> ok1 \<or> \<not> ok2 then
                (conn_set cid (ws_closing ctx2) s,
                 [Close cid WS_CLOSE_POLICY_VIOLATION ''rate limit exceeded''])
              else
                (case (case parsed of None \<Rightarrow> None | Some raw \<Rightarrow> parseClientMsg T raw) of
                   None \<Rightarrow>
                     (conn_set cid (ws_closing ctx2) s,
                      [Close cid WS_CLOSE_UNSUPPORTED_DATA ''invalid message''])
                 | Some msg \<Rightarrow>
                     let s1 = conn_set cid ctx2 s;
                         s2 = (case roomId ctx2 of
                                 None \<Rightarrow> s1
                               | Some rid \<Rightarrow>
                                   if rid = [] then s1
                                   else s1 \<lparr> redis := touch (roomStore cfg) rid (redis s1) \<rparr>)
                     in dispatch P cfg env cid ctx2 msg s2))"

text \<open>
  A reference token: the room id and the \<open>jti\<close> are the base64url text of 16 bytes, the
  expiry is a 13-digit millisecond clock, as for every token the server mints. Its
  payload has 89 bytes, so the payload half ends in a character holding only four bits
  of data. \<open>payload0\<close> is the serialised payload and \<open>mac0\<close> its HMAC-SHA256 under
  \<open>secret0\<close>.
\<close>

definition secret0 :: string where "secret0 = ''0123456789abcdef0123456789abcdef''"
definition rid0 :: string where "rid0 = ''Zm9vYmFyYmF6cXV4MTIzNA''"
definition jti0 :: string where "jti0 = ''AAECAwQFBgcICQoLDA0ODw''"
definition exp0 :: int where "exp0 = 1800000000000"
definition payload0 :: string where
  \<open>payload0 = ''{"v":1,"rid":"Zm9vYmFyYmF6cXV4MTIzNA","exp":1800000000000,"jti":"AAECAwQFBgcICQoLDA0ODw"}''\<close>
definition mac0 :: string where
  "mac0 = [CHR 0x0A, CHR 0x4E, CHR 0xD3, CHR 0x0A, CHR 0x40, CHR 0x5B, CHR 0xD6, CHR 0xEE,
           CHR 0x90, CHR 0x02, CHR 0xE5, CHR 0x72, CHR 0x3B, CHR 0xD8, CHR 0xA0, CHR 0xCF,
           CHR 0xA8, CHR 0x60, CHR 0x1C, CHR 0x2C, CHR 0x52, CHR 0x0E, CHR 0x51, CHR 0x93,
           CHR 0x40, CHR 0xBD, CHR 0x8F, CHR 0x96, CHR 0xAF, CHR 0x8B, CHR 0x26, CHR 0x65]"
definition token0_payload :: string where
  "token0_payload = ''eyJ2IjoxLCJyaWQiOiJabTl2WW1GeVltRjZjWFY0TVRJek5BIiwiZXhwIjoxODAwMDAwMDAwMDAwLCJqdGkiOiJBQUVDQXdRRkJnY0lDUW9MREEwT0R3In0''"
definition token0_mac :: string where
  "token0_mac = ''Ck7TCkBb1u6QAuVyO9igz6hgHCxSDlGTQL2Plq-LJmU''"
definition token0 :: string where
  "token0 = token0_payload @ ''.'' @ token0_mac"



text \<open>The default configuration of \<^verbatim>\<open>config.ts\<close>, with a secret of 32 characters.\<close>

definition config_default :: Config where
  "config_default =
     \<lparr> JOIN_TOKEN_SECRET = secret0,
       ROOM_MAX_PARTICIPANTS = 10, ROOM_KEY_TTL_MS = 600000, QR_ROTATION_MS = 60000,
       MAX_WS_MSG_BYTES = 262144, MAX_APP_CIPHERTEXT_BYTES = 65536,
       MAX_MSGS_PER_10S = 200, MAX_BYTES_PER_10S = 1048576,
       MAX_CONNS_PER_IP = 50, MAX_TOTAL_CONNECTIONS = 10000,
       WS_PING_INTERVAL_MS = 30000, WS_PING_TIMEOUT_MS = 5000 \<rparr>"

definition server_init :: "Config \<Rightarrow> Server" where
  "server_init cfg =
     \<lparr> ctxs = Map.empty, connections = [], localRooms = Map.empty, redis = redis_empty,
       ipLimiter = \<lparr> maxPerIp = MAX_CONNS_PER_IP cfg, counts = Map.empty \<rparr>,
       globalLimiter = \<lparr> maxTotal = MAX_TOTAL_CONNECTIONS cfg, current = 0 \<rparr>,
       disconnected = {} \<rparr>"




section \<open>Protocol engine: events\<close>

text \<open>
  Everything that makes the server run: socket events and the two timers. \<open>step\<close> runs
  the handler of an event to its end, asynchronous parts included: it is a run of the
  server in which no other event arrives while a handler waits for the store. A run in
  which one does is composed from the parts of the handler, as \<open>join_until_tryJoin\<close> and
  \<open>join_resume\<close> for \<^verbatim>\<open>JOIN_REQUEST\<close>.
\<close>

datatype event =
    Connection WebSocket string
  | Message string int "jval option"
  | Pong string
  | CloseEvent string
  | ErrorEvent string
  | PingTimer
  | QrTimer string

definition step ::
  "platform \<Rightarrow> Schemas \<Rightarrow> Config \<Rightarrow> Env \<Rightarrow> event \<Rightarrow> Server \<Rightarrow> Server \<times> effect list" where
  "step P T cfg env ev s =
     (case ev of
        Connection sock addr \<Rightarrow> onConnection cfg env sock addr s
      | Message cid bytes parsed \<Rightarrow> onMessage P T cfg env cid bytes parsed s
      | Pong cid \<Rightarrow> (onPong env cid s, [])
      | CloseEvent cid \<Rightarrow> onClose cfg env cid s
      | ErrorEvent cid \<Rightarrow> onError cfg env cid s
      | PingTimer \<Rightarrow> pingSweep cfg (nowMs env) s
      | QrTimer rid \<Rightarrow> rotateQr P cfg env rid s)"

text \<open>The \<^verbatim>\<open>ERROR\<close> frames among the effects of a step, as pairs of code and retryable flag.\<close>

fun effect_error :: "effect \<Rightarrow> (string \<times> bool) option" where
  "effect_error (Send c (i, ERROR code r)) = Some (code, r)"
| "effect_error _ = None"

definition error_frames :: "effect list \<Rightarrow> (string \<times> bool) list" where
  "error_frames es = List.map_filter effect_error es"

text \<open>The error codes as the source spells them, and as the specification lists them.\<close>

definition wire_error_codes :: "string set" where
  "wire_error_codes =
     {''ERR_ALREADY_IN_ROOM'', ''ERR_NOT_IN_ROOM'', ''ERR_NO_ROOM'', ''ERR_ROOM_FULL'',
      ''ERR_TOKEN_FORMAT'', ''ERR_TOKEN_MAC'', ''ERR_TOKEN_EXPIRED'', ''ERR_TOKEN_REPLAY'',
      ''ERR_TOKEN_ROOM_MISMATCH'', ''ERR_CIPHERTEXT_TOO_LARGE'', ''ERR_MEDIA_TOO_LARGE''}"

definition spec_error_codes :: "string set" where
  "spec_error_codes =
     {''ALREADY_IN_ROOM'', ''NOT_IN_ROOM'', ''NO_ROOM'', ''ROOM_FULL'',
      ''TOKEN_FORMAT'', ''TOKEN_MAC'', ''TOKEN_EXPIRED'', ''TOKEN_REPLAY'',
      ''TOKEN_ROOM_MISMATCH'', ''CIPHERTEXT_TOO_LARGE'', ''MEDIA_TOO_LARGE''}"

section \<open>Notions used in the statements\<close>

text \<open>
  A frame passes the rate check when both buckets grant it; \<open>charge\<close> is the context
  after the two takes.
\<close>

definition rate_ok :: "Env \<Rightarrow> int \<Rightarrow> ConnCtx \<Rightarrow> bool" where
  "rate_ok env bytes ctx \<longleftrightarrow>
     fst (take_tokens (nowMs env) 1 (msgBucket ctx))
     \<and> fst (take_tokens (nowMs env) bytes (bytesBucket ctx))"

definition charge :: "Env \<Rightarrow> int \<Rightarrow> ConnCtx \<Rightarrow> ConnCtx" where
  "charge env bytes ctx =
     ctx \<lparr> msgBucket := snd (take_tokens (nowMs env) 1 (msgBucket ctx)),
           bytesBucket := snd (take_tokens (nowMs env) bytes (bytesBucket ctx)) \<rparr>"

text \<open>The connection ids of the router's entry for a room, in broadcast order.\<close>

definition room_conns :: "Server \<Rightarrow> string \<Rightarrow> string list" where
  "room_conns s rid = (case localRooms s rid of None \<Rightarrow> [] | Some r \<Rightarrow> conns r)"

text \<open>A registered connection whose socket is open and below the slow-consumer threshold.\<close>

definition deliverable :: "Config \<Rightarrow> Server \<Rightarrow> string \<Rightarrow> bool" where
  "deliverable cfg s i =
     (case conn_get s i of
        None \<Rightarrow> False
      | Some c \<Rightarrow> readyState (ws c) = 1 \<and> \<not> bufferedAmount (ws c) > MAX_WS_MSG_BYTES cfg * 4)"

text \<open>The frames sent, with their recipients, in order.\<close>

fun effect_send :: "effect \<Rightarrow> (string \<times> frame) option" where
  "effect_send (Send c f) = Some (c, f)"
| "effect_send _ = None"

definition sends :: "effect list \<Rightarrow> (string \<times> frame) list" where
  "sends es = List.map_filter effect_send es"


text \<open>
  The keep-alive sweeps seen by one connection whose socket stays open: the instant of
  the sweep that terminates it, among at most \<open>k\<close> sweeps spaced by the ping interval.
\<close>

fun sweeps_until_dead :: "Config \<Rightarrow> string \<Rightarrow> nat \<Rightarrow> int \<Rightarrow> ConnCtx \<Rightarrow> int option" where
  "sweeps_until_dead cfg cid 0 t ctx = None"
| "sweeps_until_dead cfg cid (Suc k) t ctx =
     (let (ctx', es) = pingStep cfg t cid ctx in
      if Terminate cid \<in> set es then Some t
      else sweeps_until_dead cfg cid k (t + WS_PING_INTERVAL_MS cfg)
             ctx')"

text \<open>What the engine may put into an \<^verbatim>\<open>ERROR\<close> frame.\<close>

definition ok_errors :: "(string \<times> bool) set" where
  "ok_errors = {(c, r). c \<in> wire_error_codes \<and> (c = ''ERR_TOKEN_REPLAY'' \<longrightarrow> r)}"

text \<open>
  A run of the reference scenario: \<open>connA\<close> connects and creates the room \<open>rid0\<close>, whose
  first rotating token is \<open>token0\<close>; \<open>connB\<close> connects and joins with that token and the
  label \<^verbatim>\<open>bob\<close>. The handler is linked with \<open>ws_types\<close>.
\<close>

definition sock_open :: WebSocket where
  "sock_open = \<lparr> readyState = 1, bufferedAmount = 0 \<rparr>"

definition connA :: string where "connA = ''connAAAAAAAAAAAA''"

definition connB :: string where "connB = ''connBBBBBBBBBBBB''"

definition connC :: string where "connC = ''connCCCCCCCCCCCC''"

definition jti1 :: string where "jti1 = ''EBESExQVFhcYGRobHB0eHw''"

definition env_at :: "int \<Rightarrow> string \<Rightarrow> Env" where
  "env_at t cid =
     \<lparr> nowMs = t, frameId = (\<lambda>k. ''frame-00''), newConnId = cid, newRoomId = rid0,
       newJti = (\<lambda>k. if k = 0 then jti0 else jti1) \<rparr>"

definition msg_room_create :: jval where
  "msg_room_create =
     JObj [(''v'', JNum 1), (''t'', JStr ''ROOM_CREATE''), (''id'', JStr ''req-0001''),
           (''body'', JObj [])]"

definition msg_join :: "string \<Rightarrow> jval" where
  "msg_join rid =
     JObj [(''v'', JNum 1), (''t'', JStr ''JOIN_REQUEST''), (''id'', JStr ''req-0002''),
           (''body'', JObj [(''roomId'', JStr rid), (''token'', JStr token0),
                            (''label'', JStr ''bob'')])]"

definition msg_app :: jval where
  "msg_app =
     JObj [(''v'', JNum 1), (''t'', JStr ''APP_MSG''), (''id'', JStr ''req-0003''),
           (''body'', JObj [(''roomId'', JStr rid0), (''ciphertextB64'', JStr ''AAA'')])]"

definition run :: "Schemas \<Rightarrow> int \<Rightarrow> string \<Rightarrow> event \<Rightarrow> Server \<Rightarrow> Server \<times> effect list" where
  "run T t cid ev s = step node_platform T config_default (env_at t cid) ev s"

definition st1 :: Server where
  "st1 = fst (run ws_types 1799999940000 connA (Connection sock_open ''10.0.0.1'')
                (server_init config_default))"

definition st2 :: Server where
  "st2 = fst (run ws_types 1799999940000 connA (Message connA 80 (Some msg_room_create)) st1)"

definition st3 :: Server where
  "st3 = fst (run ws_types 1799999950000 connB (Connection sock_open ''10.0.0.2'') st2)"

definition st4 :: Server where
  "st4 = fst (run ws_types 1799999950000 connB (Message connB 300 (Some (msg_join rid0))) st3)"

text \<open>
  The states of the reference scenario, written out: the contexts of the two connections,
  the router's entry of the room, and the server after the join of \<open>connB\<close> under the
  label \<open>l\<close>, with the frames that step sends.
\<close>

definition ctxA2 :: ConnCtx where
  "ctxA2 = \<lparr> connId = connA, ip = ''10.0.0.1'', ws = sock_open, roomId = Some rid0, label = None,
       msgBucket = \<lparr> capacity = 200, refillTokens = 200, refillEveryMs = 10000,
                     tokens = 199, lastRefillMs = 1799999940000 \<rparr>,
       bytesBucket = \<lparr> capacity = 1048576, refillTokens = 1048576, refillEveryMs = 10000,
                       tokens = 1048496, lastRefillMs = 1799999940000 \<rparr>,
       lastPongMs = 1799999940000, awaitingPong = False \<rparr>"

definition ctxB3 :: ConnCtx where
  "ctxB3 = \<lparr> connId = connB, ip = ''10.0.0.2'', ws = sock_open, roomId = None, label = None,
       msgBucket = new_TokenBucket 200 200 10000 1799999950000,
       bytesBucket = new_TokenBucket 1048576 1048576 10000 1799999950000,
       lastPongMs = 1799999950000, awaitingPong = False \<rparr>"

definition room0 :: "string list \<Rightarrow> LocalRoom" where
  "room0 cs = \<lparr> lr_roomId = rid0, conns = cs, qrToken = token0, qrExpUnixMs = 1800000000000 \<rparr>"

definition ctxB4 :: "string \<Rightarrow> ConnCtx" where
  "ctxB4 l = \<lparr> connId = connB, ip = ''10.0.0.2'', ws = sock_open, roomId = Some rid0, label = Some l,
       msgBucket = \<lparr> capacity = 200, refillTokens = 200, refillEveryMs = 10000,
                     tokens = 199, lastRefillMs = 1799999950000 \<rparr>,
       bytesBucket = \<lparr> capacity = 1048576, refillTokens = 1048576, refillEveryMs = 10000,
                       tokens = 1048276, lastRefillMs = 1799999950000 \<rparr>,
       lastPongMs = 1799999950000, awaitingPong = False \<rparr>"

definition joined_state :: "string \<Rightarrow> Server" where
  "joined_state l =
     \<lparr> ctxs = [connA \<mapsto> ctxA2, connB \<mapsto> ctxB4 l],
       connections = [connA, connB],
       localRooms = [rid0 \<mapsto> room0 [connA, connB]],
       redis = \<lparr> meta = [rid0 \<mapsto> 1799999940000],
                 members = (\<lambda>_. {})(rid0 := {connB, connA}),
                 count = [rid0 \<mapsto> 2], jtis = (\<lambda>_. {})(rid0 := {jti0}),
                 jti_key = [(rid0, jti0) \<mapsto> 1800000005000] \<rparr>,
       ipLimiter = \<lparr> maxPerIp = 50, counts = [''10.0.0.1'' \<mapsto> 1, ''10.0.0.2'' \<mapsto> 1] \<rparr>,
       globalLimiter = \<lparr> maxTotal = 10000, current = 2 \<rparr>, disconnected = {} \<rparr>"

definition joined_effects :: "string \<Rightarrow> effect list" where
  "joined_effects l =
     [Send connB (''frame-00'',
        JOINED rid0 2 10 (Some l)
          (mintJoinToken node_platform secret0 rid0 1800000550000 jti1) 1800000550000),
      Send connA (''frame-00'',
        SYSTEM_MSG rid0 (''this person has entered the chat with the name '' @ l) ''info''),
      Send connB (''frame-00'',
        SYSTEM_MSG rid0 (''this person has entered the chat with the name '' @ l) ''info''),
      Send connA (''frame-00'', ROOM_STATS rid0 2 10),
      Send connB (''frame-00'', ROOM_STATS rid0 2 10)]"

text \<open>
  A third connection \<open>connC\<close> is admitted after the join; it sends the same
  \<^verbatim>\<open>JOIN_REQUEST\<close> again. \<open>join_body0\<close> is the validated body of that request,
  \<open>payload_rec0\<close> the payload of \<open>token0\<close>, \<open>redis_marked\<close> the store between the
  \<^verbatim>\<open>SET NX\<close> of the marker and the \<^verbatim>\<open>tryJoin\<close> of \<open>connB\<close>, and \<open>config_single\<close> a
  configuration whose rooms hold one participant.
\<close>

definition st5 :: Server where
  "st5 = fst (run ws_types 1799999955000 connC (Connection sock_open ''10.0.0.3'') st4)"

definition ctxC5 :: ConnCtx where
  "ctxC5 = \<lparr> connId = connC, ip = ''10.0.0.3'', ws = sock_open, roomId = None, label = None,
       msgBucket = new_TokenBucket 200 200 10000 1799999955000,
       bytesBucket = new_TokenBucket 1048576 1048576 10000 1799999955000,
       lastPongMs = 1799999955000, awaitingPong = False \<rparr>"

definition join_body0 :: JoinBody where
  "join_body0 = \<lparr> jb_roomId = rid0, jb_token = Some token0, jb_qrToken = None,
                   jb_label = Some ''bob'' \<rparr>"

definition payload_rec0 :: JoinTokenPayload where
  "payload_rec0 = \<lparr> tok_v = 1, tok_rid = rid0, tok_exp = exp0, tok_jti = jti0 \<rparr>"



text \<open>A configuration whose ping timeout exceeds the ping interval.\<close>

definition config_patient :: Config where
  "config_patient = config_default \<lparr> WS_PING_TIMEOUT_MS := 45000 \<rparr>"

text \<open>
  A run in which the socket of \<open>connB\<close> closes while its \<^verbatim>\<open>JOIN_REQUEST\<close> waits for the
  reply of \<^verbatim>\<open>tryJoin\<close>. \<open>race_dispatch\<close> is the state in which the message handler calls
  the \<^verbatim>\<open>JOIN_REQUEST\<close> case, the two buckets of \<open>connB\<close> debited; \<open>race_suspended\<close> is the
  state at the second \<^verbatim>\<open>await\<close>, with the pending reply; \<open>race_closed\<close> is the state after
  the \<^verbatim>\<open>close\<close> event; \<open>race_resumed\<close> is the state after the continuation of the handler.
\<close>

definition race_env :: Env where
  "race_env = env_at 1799999950000 connB"

definition race_ctx :: ConnCtx where
  "race_ctx = charge race_env 300 ctxB3"

definition race_dispatch :: Server where
  "race_dispatch = conn_set connB race_ctx st3"

definition race_suspended :: "Server \<times> JoinResult" where
  "race_suspended =
     projr (join_until_tryJoin node_platform config_default race_env connB race_ctx join_body0
              race_dispatch)"

definition race_closed :: Server where
  "race_closed =
     fst (step node_platform ws_types config_default (env_at 1799999950500 connB)
            (CloseEvent connB) (ws_closed connB (fst race_suspended)))"

definition race_resumed :: Server where
  "race_resumed =
     fst (join_resume node_platform config_default (env_at 1799999951000 connB) connB join_body0
            (snd race_suspended) race_closed)"

text \<open>
  The members of the body of the \<^verbatim>\<open>JOIN_REQUEST\<close> of \<open>connB\<close>, as the schema receives them.
\<close>

definition join_kv0 :: "(string \<times> jval) list" where
  "join_kv0 = [(''roomId'', JStr rid0), (''token'', JStr token0), (''label'', JStr ''bob'')]"



section \<open>Properties of the token bucket\<close>

lemma refill_params [simp]:
  "capacity (refill now b) = capacity b"
  "refillTokens (refill now b) = refillTokens b"
  "refillEveryMs (refill now b) = refillEveryMs b"
  by (simp_all add: refill_def Let_def)

lemma refill_eq:
  assumes "0 < refillEveryMs b" "lastRefillMs b \<le> now" "tokens b \<le> capacity b"
  shows "refill now b =
     b \<lparr> tokens := min (capacity b)
                    (tokens b + ((now - lastRefillMs b) div refillEveryMs b) * refillTokens b),
         lastRefillMs :=
           lastRefillMs b + ((now - lastRefillMs b) div refillEveryMs b) * refillEveryMs b \<rparr>"
proof (cases "(now - lastRefillMs b) div refillEveryMs b \<le> 0")
  case True
  have "0 \<le> (now - lastRefillMs b) div refillEveryMs b"
    using assms by (simp add: pos_imp_zdiv_nonneg_iff)
  with True have z: "(now - lastRefillMs b) div refillEveryMs b = 0" by simp
  show ?thesis using assms z by (simp add: refill_def Let_def min_def)
next
  case False
  then have "\<not> now - lastRefillMs b \<le> 0"
    using assms by (metis div_0 div_by_0 linorder_not_less order_antisym_conv zdiv_mono1 diff_ge_0_iff_ge order.refl)
  with False show ?thesis by (simp add: refill_def Let_def)
qed

lemma take_tokens_eq:
  assumes "bucket_inv b" "lastRefillMs b \<le> now" "0 \<le> n"
  shows "(let periods = (now - lastRefillMs b) div refillEveryMs b;
              avail = min (capacity b) (tokens b + periods * refillTokens b)
          in take_tokens now n b =
               (n \<le> avail,
                b \<lparr> tokens := (if n \<le> avail then avail - n else avail),
                    lastRefillMs := lastRefillMs b + periods * refillEveryMs b \<rparr>))"
proof -
  have p: "0 \<le> (now - lastRefillMs b) div refillEveryMs b"
    using assms by (simp add: bucket_inv_def pos_imp_zdiv_nonneg_iff)
  have "0 \<le> ((now - lastRefillMs b) div refillEveryMs b) * refillTokens b"
    using p assms by (simp add: bucket_inv_def)
  then have a: "0 \<le> min (capacity b)
      (tokens b + ((now - lastRefillMs b) div refillEveryMs b) * refillTokens b)"
    using assms by (simp add: bucket_inv_def)
  show ?thesis
    using assms a
    by (cases "n = 0") (auto simp add: take_tokens_def bucket_inv_def refill_eq Let_def)
qed

lemma refill_idle_full:
  assumes "bucket_inv b" "capacity b \<le> refillTokens b" "1 \<le> k"
      "lastRefillMs b + k * refillEveryMs b \<le> now"
  shows "tokens (refill now b) = capacity b"
    and "lastRefillMs (refill now b) \<le> now"
    and "now - lastRefillMs (refill now b) < refillEveryMs b"
proof -
  let ?e = "refillEveryMs b"
  let ?p = "(now - lastRefillMs b) div ?e"
  have e: "0 < ?e" using assms by (simp add: bucket_inv_def)
  have "k * ?e \<le> now - lastRefillMs b" using assms by simp
  then have "k * ?e div ?e \<le> ?p" by (rule zdiv_mono1) (rule e)
  then have kp: "k \<le> ?p" using e by simp
  then have p1: "1 \<le> ?p" using assms by simp
  have last: "lastRefillMs b \<le> now"
  proof -
    have "0 \<le> k * ?e" using assms e by simp
    then show ?thesis using assms by linarith
  qed
  have "refillTokens b \<le> ?p * refillTokens b"
    using p1 assms by (simp add: bucket_inv_def mult_le_cancel_right1)
  then have "capacity b \<le> tokens b + ?p * refillTokens b"
    using assms by (simp add: bucket_inv_def)
  then show "tokens (refill now b) = capacity b"
    using assms last by (simp add: refill_eq bucket_inv_def)
  have m: "?p * ?e = (now - lastRefillMs b) - (now - lastRefillMs b) mod ?e"
    by (simp add: algebra_simps minus_mod_eq_mult_div)
  have "0 \<le> (now - lastRefillMs b) mod ?e" "(now - lastRefillMs b) mod ?e < ?e"
    using e by simp_all
  then show "lastRefillMs (refill now b) \<le> now"
    "now - lastRefillMs (refill now b) < refillEveryMs b"
    using assms last m by (simp_all add: refill_eq bucket_inv_def)
qed

lemma refill_same_period:
  assumes "0 < refillEveryMs b" "now - lastRefillMs b < refillEveryMs b"
  shows "refill now b = b"
  using assms by (simp add: refill_def Let_def div_pos_pos_trivial)

lemma idle_then_take:
  assumes "bucket_inv b" "capacity b \<le> refillTokens b" "1 \<le> k"
      "lastRefillMs b + k * refillEveryMs b \<le> now"
  shows "fst (take_tokens now (capacity b) b)
       \<and> \<not> fst (take_tokens now 1 (snd (take_tokens now (capacity b) b)))"
proof -
  note r = refill_idle_full [OF assms]
  have e: "0 < refillEveryMs b" using assms by (simp add: bucket_inv_def)
  have c: "0 \<le> capacity b" using assms by (simp add: bucket_inv_def)
  define b2 where "b2 = snd (take_tokens now (capacity b) b)"
  have first: "fst (take_tokens now (capacity b) b)"
    using r by (simp add: take_tokens_def Let_def)
  have t2: "tokens b2 = 0" and l2: "lastRefillMs b2 = lastRefillMs (refill now b)"
    and e2: "refillEveryMs b2 = refillEveryMs b"
    using r c by (auto simp add: b2_def take_tokens_def Let_def)
  have "refill now b2 = b2"
    by (rule refill_same_period) (use e2 l2 e r in simp_all)
  then have "\<not> fst (take_tokens now 1 b2)"
    using t2 by (simp add: take_tokens_def Let_def)
  with first show ?thesis by (simp add: b2_def)
qed

lemma new_TokenBucket_inv:
  "0 \<le> cap \<Longrightarrow> 0 \<le> rt \<Longrightarrow> 0 < every \<Longrightarrow> bucket_inv (new_TokenBucket cap rt every now)"
  by (simp add: bucket_inv_def new_TokenBucket_def)

lemma take_tokens_inv:
  assumes "bucket_inv b" "lastRefillMs b \<le> now"
  shows "bucket_inv (snd (take_tokens now n b))"
proof -
  have p: "0 \<le> (now - lastRefillMs b) div refillEveryMs b"
    using assms by (simp add: bucket_inv_def pos_imp_zdiv_nonneg_iff)
  have "0 \<le> ((now - lastRefillMs b) div refillEveryMs b) * refillTokens b"
    using p assms by (simp add: bucket_inv_def)
  then show ?thesis
    using assms by (auto simp add: take_tokens_def bucket_inv_def refill_eq Let_def)
qed

text \<open>
  Claim C5 (as amended). For a bucket in its invariant, a clock that has not run
  backwards and quantities that are integers of magnitude at most \<open>2^53 - 1\<close>
  (\<open>safe_take\<close>), \<open>take n\<close> with \<open>n \<ge> 0\<close> first refills lazily with
  \<open>periods = floor (elapsed / interval)\<close>, adding \<open>periods \<times> refillTokens\<close> capped at the
  capacity and advancing the last-refill marker by \<open>periods \<times> interval\<close>; it then returns
  true iff the available tokens are at least \<open>n\<close> and deducts \<open>n\<close> exactly in that case.
  If moreover the refill amount is at least the capacity (both per-connection buckets are
  built with \<open>refillTokens = capacity\<close>), then for every \<open>k \<ge> 1\<close>, after \<open>k\<close> intervals
  without a call, \<open>take capacity\<close> succeeds and the \<open>take 1\<close> that follows at once fails.
\<close>

theorem TokenBucket_take_lazy_refill:
  assumes "bucket_inv b" "lastRefillMs b \<le> now" "0 \<le> n" "safe_take now n b"
  shows "(let periods = (now - lastRefillMs b) div refillEveryMs b;
              avail = min (capacity b) (tokens b + periods * refillTokens b)
          in take_tokens now n b =
               (n \<le> avail,
                b \<lparr> tokens := (if n \<le> avail then avail - n else avail),
                    lastRefillMs := lastRefillMs b + periods * refillEveryMs b \<rparr>))
       \<and> (\<forall>k. capacity b \<le> refillTokens b \<and> 1 \<le> k
               \<and> lastRefillMs b + k * refillEveryMs b \<le> now
            \<longrightarrow> fst (take_tokens now (capacity b) b)
              \<and> \<not> fst (take_tokens now 1 (snd (take_tokens now (capacity b) b))))"
  using take_tokens_eq [OF assms(1-3)] idle_then_take [OF assms(1)] by blast

theorem TokenBucket_take_lazy_refill_witness:
  "bucket_inv (new_TokenBucket 200 200 10000 0)
   \<and> lastRefillMs (new_TokenBucket 200 200 10000 0) \<le> 30000
   \<and> safe_take 30000 200 (new_TokenBucket 200 200 10000 0)
   \<and> take_tokens 30000 200 (new_TokenBucket 200 200 10000 0)
       = (True, \<lparr> capacity = 200, refillTokens = 200, refillEveryMs = 10000,
                  tokens = 0, lastRefillMs = 30000 \<rparr>)
   \<and> \<not> fst (take_tokens 30000 1 (snd (take_tokens 30000 200 (new_TokenBucket 200 200 10000 0))))"
proof -
  have i: "bucket_inv (new_TokenBucket 200 200 10000 0)"
    by (simp add: new_TokenBucket_inv)
  have l: "lastRefillMs (new_TokenBucket 200 200 10000 0) \<le> 30000"
    by (simp add: new_TokenBucket_def)
  have n: "(0::int) \<le> 200" by simp
  have f: "safe_take 30000 200 (new_TokenBucket 200 200 10000 0)"
    by (simp add: safe_take_def new_TokenBucket_def MAX_SAFE_INTEGER_def)
  have k: "capacity (new_TokenBucket 200 200 10000 0) \<le> refillTokens (new_TokenBucket 200 200 10000 0)
      \<and> (1::int) \<le> 3
      \<and> lastRefillMs (new_TokenBucket 200 200 10000 0)
          + 3 * refillEveryMs (new_TokenBucket 200 200 10000 0) \<le> 30000"
    by (simp add: new_TokenBucket_def)
  note t = TokenBucket_take_lazy_refill [OF i l n f]
  have a: "take_tokens 30000 200 (new_TokenBucket 200 200 10000 0)
       = (True, \<lparr> capacity = 200, refillTokens = 200, refillEveryMs = 10000,
                  tokens = 0, lastRefillMs = 30000 \<rparr>)"
    using conjunct1 [OF t] by (simp add: new_TokenBucket_def Let_def)
  have "\<not> fst (take_tokens 30000 1
            (snd (take_tokens 30000 (capacity (new_TokenBucket 200 200 10000 0))
               (new_TokenBucket 200 200 10000 0))))"
    using conjunct2 [OF t, THEN spec, of 3, THEN mp, OF k] by simp
  then have "\<not> fst (take_tokens 30000 1
            (snd (take_tokens 30000 200 (new_TokenBucket 200 200 10000 0))))"
    by (simp add: new_TokenBucket_def)
  with a i l f show ?thesis by simp
qed

text \<open>
  The consequence does not hold for every bucket the class can build: with capacity \<open>10\<close>
  and one token per interval, a drained bucket left alone for one interval holds one token.
\<close>

theorem TokenBucket_idle_take_counterexample:
  "lastRefillMs (snd (take_tokens 0 10 (new_TokenBucket 10 1 10000 0))) + 1 * 10000 \<le> 10000
   \<and> \<not> fst (take_tokens 10000 10 (snd (take_tokens 0 10 (new_TokenBucket 10 1 10000 0))))"
  by (simp add: take_tokens_def refill_def new_TokenBucket_def Let_def)


section \<open>Properties of the room store\<close>

lemma store_inv_empty: "0 \<le> mx \<Longrightarrow> store_inv mx redis_empty"
  by (simp add: store_inv_def room_inv_def redis_empty_def get_count_def)

lemma createRoom_room_inv:
  assumes "room_inv mx s x" "1 \<le> mx" "members s r \<subseteq> {c}"
  shows "room_inv mx (snd (createRoom rs r c now s)) x"
proof -
  have e: "insert c (members s r) = {c}" using assms(3) by auto
  have "card (insert c (members s r)) = 1" "finite (insert c (members s r))"
    unfolding e by simp_all
  then show ?thesis
    using assms(1,2) by (cases "x = r") (simp_all add: room_inv_def createRoom_def get_count_def)
qed

lemma createRoomEmpty_room_inv:
  assumes "room_inv mx s x" "0 \<le> mx" "members s r = {}"
  shows "room_inv mx (createRoomEmpty rs r now s) x"
  using assms by (cases "x = r") (simp_all add: room_inv_def createRoomEmpty_def get_count_def)

lemma tryJoin_room_inv:
  assumes "room_inv mx s x" "maxParticipants rs \<le> mx"
  shows "room_inv mx (snd (tryJoin rs r c s)) x"
  using assms
  by (cases "x = r") (auto simp add: room_inv_def tryJoin_def get_count_def Let_def)

lemma leave_room_inv:
  assumes "room_inv mx s x" "0 \<le> mx"
  shows "room_inv mx (snd (leave rs r c s)) x"
proof (cases "x = r")
  case False
  then show ?thesis using assms
    by (auto simp add: room_inv_def leave_def get_count_def Let_def)
next
  case True
  have f: "finite (members s r)" and c: "get_count s r = int (card (members s r))"
    and m: "get_count s r \<le> mx"
    using assms True by (simp_all add: room_inv_def)
  show ?thesis
  proof (cases "c \<in> members s r")
    case in_m: True
    then have "card (members s r) > 0" using f by (auto simp add: card_gt_0_iff)
    moreover have "card (members s r - {c}) = card (members s r) - 1"
      using in_m f by simp
    ultimately show ?thesis using True f c m in_m assms(2)
      by (auto simp add: room_inv_def leave_def get_count_def Let_def split: option.splits)
  next
    case not_m: False
    then have "members s r - {c} = members s r" by auto
    then show ?thesis using True f c m not_m assms(2)
      by (auto simp add: room_inv_def leave_def get_count_def Let_def split: option.splits)
  qed
qed

lemma mark_room_inv:
  assumes "room_inv mx s x"
  shows "room_inv mx (snd (markTokenJtiUsed rs r j ttl now s)) x"
  using assms by (simp add: room_inv_def markTokenJtiUsed_def get_count_def)

lemma apply_op_store_inv:
  assumes "store_inv mx s" "1 \<le> mx" "maxParticipants rs \<le> mx" "creates_fresh rs (op # ops) s"
  shows "store_inv mx (apply_op rs op s)"
  using assms
  by (cases op)
     (simp_all add: store_inv_def createRoom_room_inv createRoomEmpty_room_inv
        tryJoin_room_inv leave_room_inv mark_room_inv touch_def)

lemma creates_fresh_tail:
  "creates_fresh rs (op # ops) s \<Longrightarrow> creates_fresh rs ops (apply_op rs op s)"
  by (cases op) simp_all

lemma run_ops_store_inv:
  assumes "1 \<le> mx" "maxParticipants rs \<le> mx"
  shows "store_inv mx s \<Longrightarrow> creates_fresh rs ops s \<Longrightarrow> store_inv mx (run_ops rs ops s)"
proof (induction ops arbitrary: s)
  case Nil
  then show ?case by simp
next
  case (Cons op ops)
  have "store_inv mx (apply_op rs op s)"
    using Cons.prems assms by (rule_tac apply_op_store_inv) 
  moreover have "creates_fresh rs ops (apply_op rs op s)"
    using Cons.prems by (simp add: creates_fresh_tail)
  ultimately show ?case using Cons.IH by simp
qed

lemma creates_fresh_take:
  "creates_fresh rs ops s \<Longrightarrow> creates_fresh rs (take n ops) s"
proof (induction ops arbitrary: s n)
  case Nil
  then show ?case by simp
next
  case (Cons op ops)
  show ?case
  proof (cases n)
    case 0
    then show ?thesis by simp
  next
    case (Suc m)
    have "creates_fresh rs (take m ops) (apply_op rs op s)"
      using Cons by (simp add: creates_fresh_tail)
    then show ?thesis using Cons.prems Suc by (cases op) simp_all
  qed
qed


text \<open>
  Claim C2 (as amended). Starting from the empty store, let any sequence of store
  operations run in which every create is applied to a room id that has no stored member
  other than the creator (the engine passes a fresh random id), with a maximum of at
  least one participant. Then after every operation of the sequence, for every room, the
  stored count equals the cardinality of the stored members set and does not exceed the
  configured maximum.
\<close>

theorem RoomStore_count_is_card_members:
  assumes "1 \<le> maxParticipants rs" "creates_fresh rs ops redis_empty"
  shows "store_inv (maxParticipants rs) (run_ops rs (take n ops) redis_empty)"
proof -
  have "store_inv (maxParticipants rs) redis_empty"
    using assms(1) by (simp add: store_inv_empty)
  moreover have "creates_fresh rs (take n ops) redis_empty"
    using assms(2) by (rule creates_fresh_take)
  ultimately show ?thesis
    using assms(1) run_ops_store_inv [of "maxParticipants rs" rs redis_empty "take n ops"] by simp
qed

theorem RoomStore_count_is_card_members_witness:
  "1 \<le> maxParticipants rs_default
   \<and> creates_fresh rs_default
       [Create ''room0001'' ''a'' 0, Join ''room0001'' ''b'', Leave ''room0001'' ''a'']
       redis_empty
   \<and> store_inv (maxParticipants rs_default)
       (run_ops rs_default
          (take 2 [Create ''room0001'' ''a'' 0, Join ''room0001'' ''b'', Leave ''room0001'' ''a''])
          redis_empty)"
proof -
  have a: "1 \<le> maxParticipants rs_default" by (simp add: rs_default_def)
  have b: "creates_fresh rs_default
       [Create ''room0001'' ''a'' 0, Join ''room0001'' ''b'', Leave ''room0001'' ''a'']
       redis_empty"
    by (simp add: redis_empty_def createRoom_def)
  from RoomStore_count_is_card_members [OF a b, of 2] a b show ?thesis by blast
qed

text \<open>
  Without the freshness of the id the invariant is lost: \<^verbatim>\<open>createRoom\<close> on a room that
  already holds two members adds the creator to the set and stores the count \<open>1\<close>.
\<close>

theorem RoomStore_createRoom_counterexample:
  "count (run_ops rs_default
            [Create ''room0001'' ''a'' 0, Join ''room0001'' ''b'', Create ''room0001'' ''c'' 5]
            redis_empty) ''room0001'' = Some 1
   \<and> members (run_ops rs_default
            [Create ''room0001'' ''a'' 0, Join ''room0001'' ''b'', Create ''room0001'' ''c'' 5]
            redis_empty) ''room0001'' = {''a'', ''b'', ''c''}
   \<and> \<not> store_inv (maxParticipants rs_default)
        (run_ops rs_default
            [Create ''room0001'' ''a'' 0, Join ''room0001'' ''b'', Create ''room0001'' ''c'' 5]
            redis_empty)"
proof -
  let ?s = "run_ops rs_default
            [Create ''room0001'' ''a'' 0, Join ''room0001'' ''b'', Create ''room0001'' ''c'' 5]
            redis_empty"
  have c: "count ?s ''room0001'' = Some 1"
    and m: "members ?s ''room0001'' = {''a'', ''b'', ''c''}"
    by (auto simp add: rs_default_def createRoom_def tryJoin_def redis_empty_def
          get_count_def Let_def)
  have "\<not> room_inv (maxParticipants rs_default) ?s ''room0001''"
    unfolding room_inv_def get_count_def c m by simp
  then have "\<not> store_inv (maxParticipants rs_default) ?s"
    unfolding store_inv_def by blast
  with c m show ?thesis by blast
qed


section \<open>Properties of the base64url codec\<close>

lemma replaceAll_single: "replaceAll a [b] s = map (\<lambda>c. if c = a then b else c) s"
  by (induction s) (simp_all add: replaceAll_def)

lemma replaceAll_empty: "replaceAll a [] s = filter (\<lambda>c. c \<noteq> a) s"
  by (induction s) (simp_all add: replaceAll_def)

lemma b64urlEncode_alt:
  "b64urlEncode buf = filter (\<lambda>c. c \<noteq> CHR ''='') (map url_char (base64_encode buf))"
proof -
  have "(\<lambda>c. if c = CHR ''/'' then CHR ''_'' else c) \<circ> (\<lambda>c. if c = CHR ''+'' then CHR ''-'' else c)
        = url_char"
    by (rule ext) (simp add: url_char_def)
  then show ?thesis
    by (simp add: b64urlEncode_def replaceAll_single replaceAll_empty)
qed

lemma std_alt:
  "replaceAll (CHR ''_'') ''/'' (replaceAll (CHR ''-'') ''+'' s) = map std_char s"
proof -
  have "(\<lambda>c. if c = CHR ''_'' then CHR ''/'' else c) \<circ> (\<lambda>c. if c = CHR ''-'' then CHR ''+'' else c)
        = std_char"
    by (rule ext) (simp add: std_char_def)
  then show ?thesis by (simp add: replaceAll_single)
qed

lemma b64_char_table:
  "\<forall>n\<in>set [0..<64].
      url_char (b64_char n) \<noteq> CHR ''='' \<and> url_char (b64_char n) \<noteq> CHR ''.''
    \<and> std_char (url_char (b64_char n)) \<noteq> CHR ''=''
    \<and> unbase64 (std_char (url_char (b64_char n))) = Some n"
  by code_simp

lemma b64_char_url:
  assumes "n < 64"
  shows "url_char (b64_char n) \<noteq> CHR ''=''" "url_char (b64_char n) \<noteq> CHR ''.''"
    "std_char (url_char (b64_char n)) \<noteq> CHR ''=''"
    "unbase64 (std_char (url_char (b64_char n))) = Some n"
proof -
  have "n \<in> set [0..<64]" using assms by simp
  then have "url_char (b64_char n) \<noteq> CHR ''='' \<and> url_char (b64_char n) \<noteq> CHR ''.''
    \<and> std_char (url_char (b64_char n)) \<noteq> CHR ''=''
    \<and> unbase64 (std_char (url_char (b64_char n))) = Some n"
    by (rule b64_char_table [THEN bspec])
  then show "url_char (b64_char n) \<noteq> CHR ''=''" "url_char (b64_char n) \<noteq> CHR ''.''"
    "std_char (url_char (b64_char n)) \<noteq> CHR ''=''"
    "unbase64 (std_char (url_char (b64_char n))) = Some n"
    by blast+
qed

lemma sextets_pad [simp]: "sextets (replicate k (CHR ''='')) = []"
  by (cases k) simp_all

lemma url_char_eq [simp]: "url_char (CHR ''='') = CHR ''=''"
  by (simp add: url_char_def)

lemma byte_sextet_bounds:
  fixes a b c :: nat
  assumes "a < 256" "b < 256" "c < 256"
  shows "a div 4 < 64" "(a mod 4) * 16 < 64" "(a mod 4) * 16 + b div 16 < 64"
    "(b mod 16) * 4 < 64" "(b mod 16) * 4 + c div 64 < 64" "c mod 64 < 64"
  using assms by linarith+

lemma of_char_lt: "(of_char x :: nat) < 256" by simp


lemma sextets_encode:
  "sextets (map std_char (filter (\<lambda>c. c \<noteq> CHR ''='') (map url_char (base64_encode bs)))
            @ replicate k (CHR ''='')) = enc_sextets bs"
proof (induction bs rule: base64_encode.induct)
  case 1
  then show ?case by simp
next
  case (2 x)
  note b = byte_sextet_bounds [OF of_char_lt [of x] of_char_lt [of x] of_char_lt [of x]]
  show ?case by (simp add: Let_def b64_char_url b)
next
  case (3 x y)
  note b = byte_sextet_bounds [OF of_char_lt [of x] of_char_lt [of y] of_char_lt [of y]]
  show ?case by (simp add: Let_def b64_char_url b)
next
  case (4 x y z rest)
  note b = byte_sextet_bounds [OF of_char_lt [of x] of_char_lt [of y] of_char_lt [of z]]
  show ?case using 4 by (simp add: Let_def b64_char_url b)
qed


lemma div_mod_pack:
  fixes m q k :: nat
  assumes "q < k"
  shows "(m * k + q) div k = m" "(m * k + q) mod k = q"
  using assms by simp_all

lemma byte_parts:
  "(of_char x :: nat) div 16 < 16" "(of_char x :: nat) div 64 < 4"
  using of_char_lt [of x] by linarith+

lemma regroup_1:
  "char_of ((of_char x :: nat) div 4 * 4
      + ((of_char x :: nat) mod 4 * 16 + (of_char y :: nat) div 16) div 16) = x"
  by (simp only: div_mod_pack [OF byte_parts(1)] div_mult_mod_eq char_of_char)

lemma regroup_2:
  "char_of (((of_char x :: nat) mod 4 * 16 + (of_char y :: nat) div 16) mod 16 * 16
      + ((of_char y :: nat) mod 16 * 4 + (of_char z :: nat) div 64) div 4) = y"
  by (simp only: div_mod_pack [OF byte_parts(1)] div_mod_pack [OF byte_parts(2)]
        div_mult_mod_eq char_of_char)

lemma regroup_3:
  "char_of (((of_char y :: nat) mod 16 * 4 + (of_char z :: nat) div 64) mod 4 * 64
      + (of_char z :: nat) mod 64) = z"
  by (simp only: div_mod_pack [OF byte_parts(2)] div_mult_mod_eq char_of_char)

lemma regroup_1_last:
  "char_of ((of_char x :: nat) div 4 * 4 + ((of_char x :: nat) mod 4 * 16) div 16) = x"
  using div_mod_pack(1) [of 0 16 "(of_char x :: nat) mod 4"]
  by (simp only: add_0_right div_mult_mod_eq char_of_char)

lemma regroup_2_last:
  "char_of (((of_char x :: nat) mod 4 * 16 + (of_char y :: nat) div 16) mod 16 * 16
      + ((of_char y :: nat) mod 16 * 4) div 4) = y"
  using div_mod_pack(1) [of 0 4 "(of_char y :: nat) mod 16"]
  by (simp only: div_mod_pack [OF byte_parts(1)] add_0_right div_mult_mod_eq char_of_char)

lemma sextets_bytes_encode: "sextets_bytes (enc_sextets bs) = bs"
proof (induction bs rule: enc_sextets.induct)
  case 1
  show ?case by simp
next
  case (2 x)
  show ?case
    by (simp only: enc_sextets.simps sextets_bytes.simps Let_def regroup_1_last)
next
  case (3 x y)
  show ?case
    by (simp only: enc_sextets.simps sextets_bytes.simps Let_def regroup_1 regroup_2_last)
next
  case (4 x y z rest)
  show ?case
    by (simp only: enc_sextets.simps sextets_bytes.simps Let_def regroup_1 regroup_2 regroup_3
          append_Cons append_Nil 4)
qed

lemma b64url_roundtrip: "b64urlDecode (b64urlEncode bs) = bs"
  by (simp add: b64urlDecode_def Let_def std_alt base64_decode_def b64urlEncode_alt
        sextets_encode sextets_bytes_encode)



section \<open>Properties of the join token codec\<close>

lemma b64_char_in: "n < 64 \<Longrightarrow> b64_char n \<in> b64_char ` {..<64}"
  by simp

lemma base64_encode_set:
  "set (base64_encode bs) \<subseteq> insert (CHR ''='') (b64_char ` {..<64})"
proof (induction bs rule: base64_encode.induct)
  case 1
  then show ?case by simp
next
  case (2 x)
  note b = byte_sextet_bounds [OF of_char_lt [of x] of_char_lt [of x] of_char_lt [of x]]
  show ?case by (simp add: Let_def b64_char_in b del: lessThan_iff image_eqI)
next
  case (3 x y)
  note b = byte_sextet_bounds [OF of_char_lt [of x] of_char_lt [of y] of_char_lt [of y]]
  show ?case by (simp add: Let_def b64_char_in b del: lessThan_iff)
next
  case (4 x y z rest)
  note b = byte_sextet_bounds [OF of_char_lt [of x] of_char_lt [of y] of_char_lt [of z]]
  show ?case using 4 by (simp add: Let_def b64_char_in b del: lessThan_iff)
qed

lemma base64_encode_chars:
  "c \<in> set (base64_encode bs) \<Longrightarrow> c = CHR ''='' \<or> (\<exists>n<64. c = b64_char n)"
  using base64_encode_set [of bs] by auto

lemma b64urlEncode_no_dot: "CHR ''.'' \<notin> set (b64urlEncode bs)"
proof
  assume "CHR ''.'' \<in> set (b64urlEncode bs)"
  then obtain c where c: "c \<in> set (base64_encode bs)" "url_char c = CHR ''.''"
    by (auto simp add: b64urlEncode_alt)
  from base64_encode_chars [OF c(1)] show False
  proof
    assume "c = CHR ''=''"
    with c(2) show False by (simp add: url_char_def)
  next
    assume "\<exists>n<64. c = b64_char n"
    then obtain n where "n < 64" "c = b64_char n" by blast
    with b64_char_url(2) [of n] c(2) show False by simp
  qed
qed

lemma b64urlEncode_nonempty: "bs \<noteq> [] \<Longrightarrow> b64urlEncode bs \<noteq> []"
proof
  assume "bs \<noteq> []" "b64urlEncode bs = []"
  then have "b64urlDecode [] = bs" using b64url_roundtrip [of bs] by simp
  then show False using \<open>bs \<noteq> []\<close>
    by (simp add: b64urlDecode_def base64_decode_def replaceAll_def)
qed

lemma split_on_no_sep: "c \<notin> set xs \<Longrightarrow> split_on c xs = [xs]"
  by (induction xs) auto

lemma split_on_two:
  "c \<notin> set a \<Longrightarrow> c \<notin> set m \<Longrightarrow> split_on c (a @ c # m) = [a, m]"
  by (induction a) (auto simp add: split_on_no_sep)

lemma verify_two_parts:
  assumes "CHR ''.'' \<notin> set a" "CHR ''.'' \<notin> set m" "a \<noteq> []" "m \<noteq> []"
  shows "verifyJoinToken P secret (a @ ''.'' @ m) =
     (if b64urlDecode m \<noteq> createHmac_sha256 P secret (b64urlDecode a) then Inl ''ERR_TOKEN_MAC''
      else case JSON_parse P (b64urlDecode a) of
             None \<Rightarrow> Inl ''ERR_TOKEN_FORMAT''
           | Some payload \<Rightarrow> payload_of_json payload)"
  using assms
  by (auto simp add: verifyJoinToken_def split_on_two Let_def timingSafeEqualB64Url_def
        hmacSha256B64Url_def b64url_roundtrip)


lemma payload_bytes_nonempty: "payload_bytes r e j \<noteq> []"
  by (simp add: payload_bytes_def JSON_stringify_payload_def Buffer_from_utf8_def)

lemma mint_verify:
  assumes "createHmac_sha256 P secret (payload_bytes r e j) \<noteq> []" "json_roundtrip P r e j"
  shows "verifyJoinToken P secret (mintJoinToken P secret r e j)
         = Inr \<lparr> tok_v = 1, tok_rid = r, tok_exp = e, tok_jti = j \<rparr>"
proof -
  let ?a = "b64urlEncode (payload_bytes r e j)"
  let ?m = "b64urlEncode (createHmac_sha256 P secret (payload_bytes r e j))"
  have t: "mintJoinToken P secret r e j = ?a @ ''.'' @ ?m"
    by (simp add: mintJoinToken_def Let_def hmacSha256B64Url_def)
  have "verifyJoinToken P secret (?a @ ''.'' @ ?m) =
     (if b64urlDecode ?m \<noteq> createHmac_sha256 P secret (b64urlDecode ?a) then Inl ''ERR_TOKEN_MAC''
      else case JSON_parse P (b64urlDecode ?a) of
             None \<Rightarrow> Inl ''ERR_TOKEN_FORMAT''
           | Some payload \<Rightarrow> payload_of_json payload)"
    by (rule verify_two_parts)
       (simp_all add: b64urlEncode_no_dot b64urlEncode_nonempty payload_bytes_nonempty assms(1))
  then show ?thesis
    using assms(2) unfolding t
    by (simp add: b64url_roundtrip json_roundtrip_def split: option.splits)
qed


lemma payload_bytes0: "payload_bytes rid0 exp0 jti0 = payload0"
  by code_simp

lemma mac0_eq: "createHmac_sha256 node_platform secret0 payload0 = mac0"
  by code_simp

lemma enc_payload0: "b64urlEncode payload0 = token0_payload"
  by code_simp

lemma enc_mac0: "b64urlEncode mac0 = token0_mac"
  by code_simp

lemma mint0: "mintJoinToken node_platform secret0 rid0 exp0 jti0 = token0"
  by (simp add: mintJoinToken_def Let_def hmacSha256B64Url_def payload_bytes0 mac0_eq
        enc_payload0 enc_mac0 token0_def)

lemma json0: "json_roundtrip node_platform rid0 exp0 jti0"
  unfolding json_roundtrip_def payload_bytes0 by code_simp

lemma mac0_nonempty: "createHmac_sha256 node_platform secret0 (payload_bytes rid0 exp0 jti0) \<noteq> []"
  by (simp add: payload_bytes0 mac0_eq mac0_def)

lemma verify0: "verifyJoinToken node_platform secret0 token0
    = Inr \<lparr> tok_v = 1, tok_rid = rid0, tok_exp = exp0, tok_jti = jti0 \<rparr>"
  using mint_verify [OF mac0_nonempty json0] by (simp add: mint0)

subsection \<open>The serialised payload is read back\<close>



lemma from_utf8_append:
  "Buffer_from_utf8 (a @ b) = Buffer_from_utf8 a @ Buffer_from_utf8 b"
  by (simp add: Buffer_from_utf8_def)
















































subsection \<open>Minting, verifying, altering\<close>
















section \<open>The error frames of the engine\<close>

lemma error_frames_Nil [simp]: "error_frames [] = []"
  by (simp add: error_frames_def List.map_filter_simps)

lemma error_frames_append [simp]: "error_frames (a @ b) = error_frames a @ error_frames b"
  by (simp add: error_frames_def List.map_filter_def)

lemma error_frames_Cons:
  "error_frames (e # es) = (case effect_error e of None \<Rightarrow> error_frames es | Some x \<Rightarrow> x # error_frames es)"
  unfolding error_frames_def by (simp add: List.map_filter_simps)

lemma not_error_effect:
  "(\<And>c r. m \<noteq> ERROR c r) \<Longrightarrow> effect_error (Send a (i, m)) = None"
  by (cases m) auto

lemma ef_wsSend:
  "(\<And>c r. m \<noteq> ERROR c r) \<Longrightarrow> error_frames (wsSend cfg cid ctx (i, m)) = []"
  by (simp add: wsSend_def error_frames_Cons not_error_effect)

lemma ef_error_frame:
  "set (error_frames (error_frame cfg env cid ctx code r)) \<subseteq> {(code, r)}"
  by (simp add: error_frame_def wsSend_def error_frames_Cons)

lemma ef_broadcast_loop:
  "(\<And>c r. m \<noteq> ERROR c r) \<Longrightarrow> error_frames (snd (broadcast_loop cfg (i, m) ids s)) = []"
proof (induction ids arbitrary: s)
  case Nil
  then show ?case by simp
next
  case (Cons a ids)
  have nm: "effect_error (Send a (i, m)) = None" using Cons.prems by (rule not_error_effect)
  show ?case
    using Cons.IH [OF Cons.prems] nm
    by (simp add: error_frames_Cons case_prod_beta Let_def split: option.splits)
qed

lemma ef_broadcast:
  "(\<And>c r. m \<noteq> ERROR c r) \<Longrightarrow> error_frames (snd (broadcast cfg rid (i, m) s)) = []"
  by (simp add: broadcast_def ef_broadcast_loop split: option.splits)

lemma payload_of_json_code: "payload_of_json j = Inl c \<Longrightarrow> c = ''ERR_TOKEN_FORMAT''"
  by (auto simp add: payload_of_json_def split: jval.splits option.splits if_splits)

lemma verify_codes:
  "verifyJoinToken P secret t = Inl c \<Longrightarrow> c = ''ERR_TOKEN_FORMAT'' \<or> c = ''ERR_TOKEN_MAC''"
  by (auto simp add: verifyJoinToken_def Let_def split: if_splits option.splits
        dest: payload_of_json_code)

lemma tryJoin_codes:
  "tryJoin rs rid c rd = (JoinFailed code, rd') \<Longrightarrow> code = ''ERR_NO_ROOM'' \<or> code = ''ERR_ROOM_FULL''"
  by (auto simp add: tryJoin_def Let_def split: if_splits)

lemma ef_err_ok:
  "(code, r) \<in> ok_errors \<Longrightarrow> set (error_frames (error_frame cfg env cid ctx code r)) \<subseteq> ok_errors"
  using ef_error_frame [of cfg env cid ctx code r] by auto

lemma ok_errors_simps [simp]:
  "(''ERR_ALREADY_IN_ROOM'', r) \<in> ok_errors"
  "(''ERR_NOT_IN_ROOM'', r) \<in> ok_errors"
  "(''ERR_NO_ROOM'', r) \<in> ok_errors"
  "(''ERR_ROOM_FULL'', r) \<in> ok_errors"
  "(''ERR_TOKEN_FORMAT'', r) \<in> ok_errors"
  "(''ERR_TOKEN_MAC'', r) \<in> ok_errors"
  "(''ERR_TOKEN_EXPIRED'', r) \<in> ok_errors"
  "(''ERR_TOKEN_REPLAY'', True) \<in> ok_errors"
  "(''ERR_TOKEN_ROOM_MISMATCH'', r) \<in> ok_errors"
  "(''ERR_CIPHERTEXT_TOO_LARGE'', r) \<in> ok_errors"
  "(''ERR_MEDIA_TOO_LARGE'', r) \<in> ok_errors"
  by (simp_all add: ok_errors_def wire_error_codes_def)

lemma ef_handle_PING: "error_frames (snd (handle_PING cfg env cid ctx s)) = []"
  by (simp add: handle_PING_def ef_wsSend)

lemma ef_handle_ROOM_CREATE:
  "set (error_frames (snd (handle_ROOM_CREATE P cfg env cid ctx s))) \<subseteq> ok_errors"
  by (simp add: handle_ROOM_CREATE_def case_prod_beta Let_def ef_wsSend ef_broadcast ef_err_ok)

lemma ef_join_success:
  "error_frames (snd (join_success P cfg env cid ctx body cnt lbl s)) = []"
  by (simp add: join_success_def case_prod_beta Let_def ef_wsSend ef_broadcast)

lemma ef_handle_JOIN_REQUEST:
  "set (error_frames (snd (handle_JOIN_REQUEST P cfg env cid ctx body s))) \<subseteq> ok_errors"
proof -
  have v: "\<And>t c. verifyJoinToken P (JOIN_TOKEN_SECRET cfg) t = Inl c \<Longrightarrow> (c, True) \<in> ok_errors"
    using verify_codes by fastforce
  have j: "\<And>rid c rd code. fst (tryJoin (roomStore cfg) rid c rd) = JoinFailed code
      \<Longrightarrow> (code, code \<noteq> ''ERR_NO_ROOM'') \<in> ok_errors"
    using tryJoin_codes by (metis ok_errors_simps(3,4) prod.collapse)
  show ?thesis
    by (auto simp add: handle_JOIN_REQUEST_def case_prod_beta Let_def ef_err_ok ef_join_success v j
          split: option.splits sum.splits JoinResult.splits
          intro!: ef_err_ok [THEN subsetD])
qed

lemma ef_leaveRoom: "error_frames (snd (leaveRoom cfg env cid rid s)) = []"
  by (simp add: leaveRoom_def case_prod_beta Let_def ef_broadcast split: option.splits)

lemma ef_handle_LEAVE: "error_frames (snd (handle_LEAVE cfg env cid ctx rid s)) = []"
  by (simp add: handle_LEAVE_def case_prod_beta Let_def ef_leaveRoom ef_wsSend)

lemma ef_handle_APP_MSG:
  "set (error_frames (snd (handle_APP_MSG cfg env cid ctx rid ct s))) \<subseteq> ok_errors"
  by (simp add: handle_APP_MSG_def Let_def ef_broadcast ef_err_ok)

lemma ef_handle_MEDIA_MSG:
  "set (error_frames (snd (handle_MEDIA_MSG cfg env cid ctx body s))) \<subseteq> ok_errors"
  by (simp add: handle_MEDIA_MSG_def Let_def ef_broadcast ef_err_ok)

lemma ef_dispatch:
  "set (error_frames (snd (dispatch P cfg env cid ctx msg s))) \<subseteq> ok_errors"
  by (cases msg)
     (simp_all add: dispatch_def ef_handle_PING ef_handle_ROOM_CREATE ef_handle_JOIN_REQUEST
        ef_handle_LEAVE ef_handle_APP_MSG ef_handle_MEDIA_MSG)

lemma ef_onMessage:
  "set (error_frames (snd (onMessage P T cfg env cid bytes parsed s))) \<subseteq> ok_errors"
  by (simp add: onMessage_def case_prod_beta Let_def error_frames_Cons ef_dispatch
        split: option.splits)

lemma ef_onConnection: "error_frames (snd (onConnection cfg env sock addr s)) = []"
  by (simp add: onConnection_def case_prod_beta Let_def error_frames_Cons ef_wsSend)

lemma ef_onDisconnect: "error_frames (snd (onDisconnect cfg env cid s)) = []"
  by (simp add: onDisconnect_def case_prod_beta Let_def ef_leaveRoom split: option.splits)

lemma ef_pingSweep_loop: "error_frames (snd (pingSweep_loop cfg t ids s)) = []"
  by (induction ids arbitrary: s)
     (simp_all add: case_prod_beta Let_def pingStep_def error_frames_Cons split: option.splits)

lemma ef_rotateQr: "error_frames (snd (rotateQr P cfg env rid s)) = []"
  by (simp add: rotateQr_def Let_def ef_broadcast split: option.splits)

lemma ef_step: "set (error_frames (snd (step P T cfg env ev s))) \<subseteq> ok_errors"
  by (cases ev)
     (simp_all add: step_def ef_onMessage ef_onConnection onClose_def onError_def ef_onDisconnect
        pingSweep_def ef_pingSweep_loop ef_rotateQr)

section \<open>The reference scenario\<close>

lemmas scen_defs = run_def step_def env_at_def config_default_def server_init_def sock_open_def
  connA_def connB_def connC_def

lemmas engine_defs = onMessage_def take_tokens_def refill_def new_TokenBucket_def Let_def
  conn_set_def parseClientMsg_def WsEnvelopeSchema_def z_string_def z_string_optional_def
  dispatch_def truthy_def roomStore_def wsSend_def broadcast_def conn_get_def touch_def
  Set_add_def error_frame_def

lemma token0_len [simp]: "length token0 = 163"
  by (simp add: token0_def token0_payload_def token0_mac_def)

lemma rid0_len [simp]: "length rid0 = 22"
  by (simp add: rid0_def)

lemma token0_nonempty [simp]: "token0 \<noteq> []"
  using token0_len by force

lemma st1_eq:
  "st1 = \<lparr> ctxs = [connA \<mapsto>
                \<lparr> connId = connA, ip = ''10.0.0.1'', ws = sock_open, roomId = None, label = None,
                  msgBucket = new_TokenBucket 200 200 10000 1799999940000,
                  bytesBucket = new_TokenBucket 1048576 1048576 10000 1799999940000,
                  lastPongMs = 1799999940000, awaitingPong = False \<rparr>],
           connections = [connA], localRooms = Map.empty,
           redis = redis_empty,
           ipLimiter = \<lparr> maxPerIp = 50, counts = [''10.0.0.1'' \<mapsto> 1] \<rparr>,
           globalLimiter = \<lparr> maxTotal = 10000, current = 1 \<rparr>, disconnected = {} \<rparr>"
  by (simp add: st1_def scen_defs onConnection_def global_tryInc_def ip_tryInc_def getCount_def
     Let_def Set_add_def wsSend_def)

lemma st2_eq:
  "st2 = \<lparr> ctxs = [connA \<mapsto> ctxA2],
           connections = [connA],
           localRooms = [rid0 \<mapsto> \<lparr> lr_roomId = rid0, conns = [connA], qrToken = token0,
                                     qrExpUnixMs = 1800000000000 \<rparr>],
           redis = \<lparr> meta = [rid0 \<mapsto> 1799999940000],
                     members = (\<lambda>_. {})(rid0 := {connA}),
                     count = [rid0 \<mapsto> 1], jtis = (\<lambda>_. {})(rid0 := {}),
                     jti_key = Map.empty \<rparr>,
           ipLimiter = \<lparr> maxPerIp = 50, counts = [''10.0.0.1'' \<mapsto> 1] \<rparr>,
           globalLimiter = \<lparr> maxTotal = 10000, current = 1 \<rparr>, disconnected = {} \<rparr>"
  by (simp add: st2_def st1_eq scen_defs engine_defs ctxA2_def msg_room_create_def
       handle_ROOM_CREATE_def createRoom_def ensureLocalRoom_def local_conns_add_def
       redis_empty_def mint0 [unfolded exp0_def])

lemma st3_eq:
  "st3 = \<lparr> ctxs = [connA \<mapsto> ctxA2, connB \<mapsto> ctxB3],
           connections = [connA, connB],
           localRooms = [rid0 \<mapsto> room0 [connA]],
           redis = \<lparr> meta = [rid0 \<mapsto> 1799999940000],
                     members = (\<lambda>_. {})(rid0 := {connA}),
                     count = [rid0 \<mapsto> 1], jtis = (\<lambda>_. {})(rid0 := {}),
                     jti_key = Map.empty \<rparr>,
           ipLimiter = \<lparr> maxPerIp = 50, counts = [''10.0.0.1'' \<mapsto> 1, ''10.0.0.2'' \<mapsto> 1] \<rparr>,
           globalLimiter = \<lparr> maxTotal = 10000, current = 2 \<rparr>, disconnected = {} \<rparr>"
  by (simp add: st3_def st2_eq scen_defs onConnection_def global_tryInc_def ip_tryInc_def getCount_def
     Let_def Set_add_def wsSend_def ctxB3_def room0_def)

lemmas join_defs = handle_JOIN_REQUEST_def effectiveToken_def markTokenJtiUsed_def jti_live_def
  tryJoin_def get_count_def join_success_def ensureLocalRoom_def local_conns_add_def
  show_int_def digit_char_def ws_types_def JoinRequestSchema_def msg_join_def

lemma join_ws_types:
  "run ws_types 1799999950000 connB (Message connB 300 (Some (msg_join rid0))) st3
     = (joined_state ''bob'', joined_effects ''bob'')"
  by (simp add: st3_eq scen_defs engine_defs ctxA2_def ctxB3_def ctxB4_def room0_def join_defs
       verify0 exp0_def joined_state_def joined_effects_def)

lemma st4_eq: "st4 = joined_state ''bob''"
  by (simp add: st4_def join_ws_types)

lemma parse_join:
  "parseClientMsg ws_types (msg_join rid0) =
     Some (JOIN_REQUEST \<lparr> jb_roomId = rid0, jb_token = Some token0, jb_qrToken = None,
                          jb_label = Some ''bob'' \<rparr>)"
  by (simp add: parseClientMsg_def WsEnvelopeSchema_def z_string_def z_string_optional_def
       ws_types_def JoinRequestSchema_def msg_join_def truthy_def)

section \<open>Fan-out of application messages\<close>

lemma sends_Nil [simp]: "sends [] = []"
  by (simp add: sends_def map_filter_simps)

lemma sends_Send [simp]: "sends (Send c f # es) = (c, f) # sends es"
  by (simp add: sends_def map_filter_simps)

lemma sends_Close [simp]: "sends (Close c n r # es) = sends es"
  by (simp add: sends_def map_filter_simps)

lemma deliverable_closing:
  assumes "conn_get s i = Some c" and "\<not> deliverable cfg s i"
  shows "deliverable cfg (conn_set i (ws_closing c) s) j = deliverable cfg s j"
  using assms
  by (auto simp add: deliverable_def conn_get_def conn_set_def ws_closing_def split: option.splits if_splits)

lemma broadcast_loop_sends:
  "sends (snd (broadcast_loop cfg data js s)) =
     map (\<lambda>i. (i, data)) (filter (deliverable cfg s) js)"
proof (induction js arbitrary: s)
  case Nil
  show ?case by simp
next
  case (Cons i rest)
  show ?case
  proof (cases "conn_get s i")
    case None
    then show ?thesis using Cons.IH [of s] by (simp add: deliverable_def)
  next
    case (Some c)
    show ?thesis
    proof (cases "readyState (ws c) \<noteq> 1")
      case True
      then show ?thesis using Some Cons.IH [of s] by (simp add: deliverable_def)
    next
      case isopen: False
      show ?thesis
      proof (cases "bufferedAmount (ws c) > MAX_WS_MSG_BYTES cfg * 4")
        case True
        have nd: "\<not> deliverable cfg s i" using Some True by (simp add: deliverable_def)
        have "deliverable cfg (conn_set i (ws_closing c) s) = deliverable cfg s"
          by (rule ext) (rule deliverable_closing [OF Some nd])
        then show ?thesis
          using Some isopen True nd Cons.IH [of "conn_set i (ws_closing c) s"]
          by (simp add: case_prod_beta Let_def)
      next
        case False
        have d: "deliverable cfg s i" using Some isopen False by (simp add: deliverable_def)
        show ?thesis using Some isopen False d Cons.IH [of s]
          by (simp add: case_prod_beta Let_def)
      qed
    qed
  qed
qed

lemma broadcast_sends:
  "sends (snd (broadcast cfg rid data s)) =
     map (\<lambda>i. (i, data)) (filter (deliverable cfg s) (room_conns s rid))"
  by (simp add: broadcast_def room_conns_def broadcast_loop_sends split: option.splits)

lemma onMessage_accepted:
  assumes "ctxs s cid = Some ctx"
    and "bytes \<le> MAX_WS_MSG_BYTES cfg"
    and "rate_ok env bytes ctx"
    and "parseClientMsg T raw = Some msg"
  shows "onMessage P T cfg env cid bytes (Some raw) s =
           dispatch P cfg env cid (charge env bytes ctx) msg (conn_set cid (charge env bytes ctx) s)"
  using assms
  by (simp add: onMessage_def rate_ok_def charge_def case_prod_beta Let_def touch_def conn_set_def
       split: option.splits)

lemma deliverable_charge:
  "ctxs s cid = Some ctx \<Longrightarrow>
     deliverable cfg (conn_set cid (charge env bytes ctx) s) = deliverable cfg s"
  by (rule ext) (auto simp add: deliverable_def conn_get_def conn_set_def charge_def split: option.splits)

lemma room_conns_conn_set [simp]: "room_conns (conn_set cid c s) rid = room_conns s rid"
  by (simp add: room_conns_def conn_set_def)

text \<open>
  Claim C1 (as amended). When the engine accepts an \<^verbatim>\<open>APP_MSG\<close> frame from a connection
  whose current room is \<open>rid\<close>, with a ciphertext within the size limit, the frames it
  sends are exactly one \<^verbatim>\<open>APP_MSG\<close> with the same room id and the unchanged ciphertext to
  every connection of the router's snapshot of \<open>rid\<close> whose socket is open and below
  the slow-consumer threshold, in snapshot order, the sender included, and nothing to
  anyone else.
\<close>

theorem APP_MSG_fanout:
  assumes "ctxs s cid = Some ctx"
    and "bytes \<le> MAX_WS_MSG_BYTES cfg"
    and "rate_ok env bytes ctx"
    and "parseClientMsg T raw = Some (APP_MSG_in rid ct)"
    and "roomId ctx = Some rid"
    and "byteLength ct \<le> MAX_APP_CIPHERTEXT_BYTES cfg"
  shows "sends (snd (onMessage P T cfg env cid bytes (Some raw) s)) =
           map (\<lambda>i. (i, (frameId env 0, APP_MSG rid ct)))
               (filter (deliverable cfg s) (room_conns s rid))"
proof -
  have r: "roomId (charge env bytes ctx) = Some rid"
    using assms(5) by (simp add: charge_def)
  show ?thesis
    unfolding onMessage_accepted [OF assms(1-4)]
    using r assms(6)
    by (simp add: dispatch_def handle_APP_MSG_def Let_def broadcast_sends
         deliverable_charge [OF assms(1)])
qed

lemma msg_app_parse:
  "parseClientMsg T msg_app = Some (APP_MSG_in rid0 ''AAA'')"
  by (simp add: parseClientMsg_def WsEnvelopeSchema_def z_string_def msg_app_def)

lemma st4_ctxA: "ctxs st4 connA = Some ctxA2"
  by (simp add: st4_eq joined_state_def connA_def connB_def)

lemma rate_ok_A: "rate_ok (env_at 1799999960000 connA) 120 ctxA2"
  by (simp add: rate_ok_def env_at_def ctxA2_def take_tokens_def refill_def Let_def)

lemma st4_room: "room_conns st4 rid0 = [connA, connB]"
  by (simp add: room_conns_def st4_eq joined_state_def room0_def)

lemma st4_deliverable:
  "deliverable config_default st4 connA" "deliverable config_default st4 connB"
  by (simp_all add: deliverable_def conn_get_def st4_eq joined_state_def ctxA2_def ctxB4_def
       sock_open_def config_default_def connA_def connB_def)

theorem APP_MSG_fanout_witness:
  "ctxs st4 connA = Some ctxA2
   \<and> 120 \<le> MAX_WS_MSG_BYTES config_default
   \<and> rate_ok (env_at 1799999960000 connA) 120 ctxA2
   \<and> parseClientMsg ws_types msg_app = Some (APP_MSG_in rid0 ''AAA'')
   \<and> roomId ctxA2 = Some rid0
   \<and> byteLength ''AAA'' \<le> MAX_APP_CIPHERTEXT_BYTES config_default
   \<and> sends (snd (onMessage node_platform ws_types config_default (env_at 1799999960000 connA)
                    connA 120 (Some msg_app) st4))
       = [(connA, (''frame-00'', APP_MSG rid0 ''AAA'')),
          (connB, (''frame-00'', APP_MSG rid0 ''AAA''))]"
proof -
  have a: "120 \<le> MAX_WS_MSG_BYTES config_default" by (simp add: config_default_def)
  have b: "roomId ctxA2 = Some rid0" by (simp add: ctxA2_def)
  have c: "byteLength ''AAA'' \<le> MAX_APP_CIPHERTEXT_BYTES config_default"
    by (simp add: byteLength_def Buffer_from_utf8_def config_default_def)
  have d: "frameId (env_at 1799999960000 connA) 0 = ''frame-00''" by (simp add: env_at_def)
  from APP_MSG_fanout [OF st4_ctxA a rate_ok_A msg_app_parse b c, of node_platform]
  have "sends (snd (onMessage node_platform ws_types config_default (env_at 1799999960000 connA)
                    connA 120 (Some msg_app) st4))
       = [(connA, (''frame-00'', APP_MSG rid0 ''AAA'')),
          (connB, (''frame-00'', APP_MSG rid0 ''AAA''))]"
    by (simp add: st4_room st4_deliverable d)
  with st4_ctxA a rate_ok_A msg_app_parse b c show ?thesis by blast
qed

text \<open>
  The sender is in the snapshot: in the reference scenario the \<^verbatim>\<open>APP_MSG\<close> of \<open>connA\<close>
  is sent to \<open>connA\<close> and to \<open>connB\<close>.
\<close>

theorem APP_MSG_sender_echo_counterexample:
  "roomId ctxA2 = Some rid0
   \<and> ctxs st4 connA = Some ctxA2
   \<and> room_conns st4 rid0 = [connA, connB]
   \<and> sends (snd (run ws_types 1799999960000 connA (Message connA 120 (Some msg_app)) st4))
       = [(connA, (''frame-00'', APP_MSG rid0 ''AAA'')),
          (connB, (''frame-00'', APP_MSG rid0 ''AAA''))]"
proof -
  have "snd (run ws_types 1799999960000 connA (Message connA 120 (Some msg_app)) st4)
          = [Send connA (''frame-00'', APP_MSG rid0 ''AAA''),
             Send connB (''frame-00'', APP_MSG rid0 ''AAA'')]"
    by (simp add: st4_eq joined_state_def scen_defs engine_defs ctxA2_def ctxB4_def room0_def
         msg_app_def handle_APP_MSG_def byteLength_def Buffer_from_utf8_def)
  then show ?thesis
    by (simp add: st4_ctxA st4_room ctxA2_def)
qed

section \<open>Replay of a consumed token\<close>





lemma mark_live:
  "jti_live s rid jti t \<Longrightarrow> markTokenJtiUsed rs rid jti ttl t s = (False, s)"
  by (simp add: markTokenJtiUsed_def)

lemma join_replay:
  assumes "\<not> truthy (roomId ctx)"
    and "effectiveToken body = Some tk" and "tk \<noteq> []"
    and "verifyJoinToken P (JOIN_TOKEN_SECRET cfg) tk = Inr payload"
    and "tok_rid payload = jb_roomId body"
    and "nowMs env \<le> tok_exp payload"
    and "jti_live (redis s) (jb_roomId body) (tok_jti payload) (nowMs env)"
  shows "handle_JOIN_REQUEST P cfg env cid ctx body s =
           (s, error_frame cfg env cid ctx ''ERR_TOKEN_REPLAY'' True)"
  using assms
  by (simp add: handle_JOIN_REQUEST_def Let_def mark_live)

lemma error_frame_open:
  "readyState (ws ctx) = 1 \<Longrightarrow> bufferedAmount (ws ctx) \<le> MAX_WS_MSG_BYTES cfg * 4
     \<Longrightarrow> error_frame cfg env cid ctx code r = [Send cid (frameId env 0, ERROR code r)]"
  by (simp add: error_frame_def wsSend_def)

lemma st5_eq:
  "st5 = (joined_state ''bob'')
           \<lparr> ctxs := [connA \<mapsto> ctxA2, connB \<mapsto> ctxB4 ''bob'', connC \<mapsto> ctxC5],
             connections := [connA, connB, connC],
             ipLimiter := \<lparr> maxPerIp = 50,
                counts = [''10.0.0.1'' \<mapsto> 1, ''10.0.0.2'' \<mapsto> 1, ''10.0.0.3'' \<mapsto> 1] \<rparr>,
             globalLimiter := \<lparr> maxTotal = 10000, current = 3 \<rparr> \<rparr>"
  by (simp add: st5_def st4_eq joined_state_def scen_defs onConnection_def global_tryInc_def
       ip_tryInc_def getCount_def Let_def Set_add_def wsSend_def ctxC5_def)

lemma st3_redis:
  "redis st3 = \<lparr> meta = [rid0 \<mapsto> 1799999940000],
                     members = (\<lambda>_. {})(rid0 := {connA}),
                     count = [rid0 \<mapsto> 1], jtis = (\<lambda>_. {})(rid0 := {}),
                     jti_key = Map.empty \<rparr>"
  by (simp add: st3_eq)

lemma st5_redis:
  "redis st5 = \<lparr> meta = [rid0 \<mapsto> 1799999940000],
                 members = (\<lambda>_. {})(rid0 := {connB, connA}),
                 count = [rid0 \<mapsto> 2], jtis = (\<lambda>_. {})(rid0 := {jti0}),
                 jti_key = [(rid0, jti0) \<mapsto> 1800000005000] \<rparr>"
  by (simp add: st5_eq joined_state_def)


section \<open>A failed join keeps the marker\<close>


lemma tryJoin_marked:
  "fst (tryJoin rs r c (s \<lparr> jti_key := k, jtis := j \<rparr>)) = fst (tryJoin rs r c s)"
  by (simp add: tryJoin_def Let_def get_count_def)

lemma mark_fresh:
  "\<not> jti_live s r j t \<Longrightarrow>
     markTokenJtiUsed rs r j ttl t s =
       (True, s \<lparr> jti_key := (jti_key s)((r, j) \<mapsto> t + ttl),
                  jtis := (jtis s)(r := insert j (jtis s r)) \<rparr>)"
  by (simp add: markTokenJtiUsed_def)




section \<open>The codes of \<^verbatim>\<open>ERROR\<close> frames\<close>

lemma replay_run:
  "snd (run ws_types 1799999960000 connC (Message connC 300 (Some (msg_join rid0))) st5)
     = [Send connC (''frame-00'', ERROR ''ERR_TOKEN_REPLAY'' True)]"
  by (simp add: st5_eq joined_state_def scen_defs engine_defs ctxC5_def join_defs verify0 exp0_def
       connA_def connB_def)

lemma error_frames_single:
  "error_frames [Send c (i, ERROR code r)] = [(code, r)]"
  by (simp add: error_frames_def map_filter_simps)

text \<open>
  Claim C8 (as amended). Every \<^verbatim>\<open>ERROR\<close> frame that a step of the engine sends carries one
  of the eleven codes \<^verbatim>\<open>ERR_ALREADY_IN_ROOM\<close>, \<^verbatim>\<open>ERR_NOT_IN_ROOM\<close>, \<^verbatim>\<open>ERR_NO_ROOM\<close>,
  \<^verbatim>\<open>ERR_ROOM_FULL\<close>, \<^verbatim>\<open>ERR_TOKEN_FORMAT\<close>, \<^verbatim>\<open>ERR_TOKEN_MAC\<close>, \<^verbatim>\<open>ERR_TOKEN_EXPIRED\<close>,
  \<^verbatim>\<open>ERR_TOKEN_REPLAY\<close>, \<^verbatim>\<open>ERR_TOKEN_ROOM_MISMATCH\<close>, \<^verbatim>\<open>ERR_CIPHERTEXT_TOO_LARGE\<close>,
  \<^verbatim>\<open>ERR_MEDIA_TOO_LARGE\<close>, and \<^verbatim>\<open>ERR_TOKEN_REPLAY\<close> only with \<^verbatim>\<open>retryable: true\<close>. In
  particular a \<^verbatim>\<open>JOIN_REQUEST\<close> whose token verifies, has not expired and has a consumed
  \<open>jti\<close> yields exactly \<^verbatim>\<open>ERROR{code: "ERR_TOKEN_REPLAY", retryable: true}\<close>.
\<close>

theorem ERROR_frame_codes:
  "(\<forall>(code, r) \<in> set (error_frames (snd (step P T cfg env ev s))).
      code \<in> wire_error_codes \<and> (code = ''ERR_TOKEN_REPLAY'' \<longrightarrow> r))
   \<and> (\<not> truthy (roomId ctx) \<and> effectiveToken body = Some tk \<and> tk \<noteq> []
        \<and> verifyJoinToken P (JOIN_TOKEN_SECRET cfg) tk = Inr payload
        \<and> tok_rid payload = jb_roomId body \<and> nowMs env \<le> tok_exp payload
        \<and> jti_live (redis s) (jb_roomId body) (tok_jti payload) (nowMs env)
        \<and> readyState (ws ctx) = 1 \<and> bufferedAmount (ws ctx) \<le> MAX_WS_MSG_BYTES cfg * 4
      \<longrightarrow> error_frames (snd (handle_JOIN_REQUEST P cfg env cid ctx body s))
            = [(''ERR_TOKEN_REPLAY'', True)])"
proof -
  have a: "\<forall>(code, r) \<in> set (error_frames (snd (step P T cfg env ev s))).
      code \<in> wire_error_codes \<and> (code = ''ERR_TOKEN_REPLAY'' \<longrightarrow> r)"
    using ef_step [of P T cfg env ev s] by (auto simp add: ok_errors_def)
  have b: "error_frames (snd (handle_JOIN_REQUEST P cfg env cid ctx body s))
            = [(''ERR_TOKEN_REPLAY'', True)]"
    if "\<not> truthy (roomId ctx)" "effectiveToken body = Some tk" "tk \<noteq> []"
       "verifyJoinToken P (JOIN_TOKEN_SECRET cfg) tk = Inr payload"
       "tok_rid payload = jb_roomId body" "nowMs env \<le> tok_exp payload"
       "jti_live (redis s) (jb_roomId body) (tok_jti payload) (nowMs env)"
       "readyState (ws ctx) = 1" "bufferedAmount (ws ctx) \<le> MAX_WS_MSG_BYTES cfg * 4"
    using join_replay [OF that(1-7)] error_frame_open [OF that(8,9)]
    by (simp add: error_frames_single)
  from a b show ?thesis by blast
qed

theorem ERROR_frame_codes_witness:
  "(''ERR_TOKEN_REPLAY'', True)
     \<in> set (error_frames (snd (step node_platform ws_types config_default
                                  (env_at 1799999960000 connC)
                                  (Message connC 300 (Some (msg_join rid0))) st5)))
   \<and> ''ERR_TOKEN_REPLAY'' \<in> wire_error_codes
   \<and> \<not> truthy (roomId ctxC5) \<and> effectiveToken join_body0 = Some token0 \<and> token0 \<noteq> []
   \<and> verifyJoinToken node_platform (JOIN_TOKEN_SECRET config_default) token0 = Inr payload_rec0
   \<and> tok_rid payload_rec0 = jb_roomId join_body0
   \<and> nowMs (env_at 1799999960000 connC) \<le> tok_exp payload_rec0
   \<and> jti_live (redis st5) (jb_roomId join_body0) (tok_jti payload_rec0)
        (nowMs (env_at 1799999960000 connC))
   \<and> readyState (ws ctxC5) = 1 \<and> bufferedAmount (ws ctxC5) \<le> MAX_WS_MSG_BYTES config_default * 4
   \<and> error_frames (snd (handle_JOIN_REQUEST node_platform config_default
                           (env_at 1799999960000 connC) connC ctxC5 join_body0 st5))
       = [(''ERR_TOKEN_REPLAY'', True)]"
proof -
  note t = ERROR_frame_codes [of node_platform ws_types config_default
             "env_at 1799999960000 connC" "Message connC 300 (Some (msg_join rid0))" st5
             ctxC5 join_body0 token0 payload_rec0 connC]
  have m: "(''ERR_TOKEN_REPLAY'', True)
     \<in> set (error_frames (snd (step node_platform ws_types config_default
                                  (env_at 1799999960000 connC)
                                  (Message connC 300 (Some (msg_join rid0))) st5)))"
    using replay_run by (simp add: run_def error_frames_single)
  have w: "''ERR_TOKEN_REPLAY'' \<in> wire_error_codes"
    using conjunct1 [OF t] m by blast
  have h: "\<not> truthy (roomId ctxC5) \<and> effectiveToken join_body0 = Some token0 \<and> token0 \<noteq> []
   \<and> verifyJoinToken node_platform (JOIN_TOKEN_SECRET config_default) token0 = Inr payload_rec0
   \<and> tok_rid payload_rec0 = jb_roomId join_body0
   \<and> nowMs (env_at 1799999960000 connC) \<le> tok_exp payload_rec0
   \<and> jti_live (redis st5) (jb_roomId join_body0) (tok_jti payload_rec0)
        (nowMs (env_at 1799999960000 connC))
   \<and> readyState (ws ctxC5) = 1 \<and> bufferedAmount (ws ctxC5) \<le> MAX_WS_MSG_BYTES config_default * 4"
    using verify0
    by (simp add: st5_redis jti_live_def env_at_def join_body0_def ctxC5_def truthy_def
         effectiveToken_def sock_open_def exp0_def config_default_def payload_rec0_def)
  from conjunct2 [OF t, rule_format, OF h] m w h show ?thesis by blast
qed

text \<open>
  The codes on the wire carry the prefix \<^verbatim>\<open>ERR_\<close>: the frame that answers the replay of
  the reference scenario has the code \<^verbatim>\<open>ERR_TOKEN_REPLAY\<close>, which is none of the eleven
  strings of the specification.
\<close>

theorem ERROR_code_spelling_counterexample:
  "error_frames (snd (run ws_types 1799999960000 connC (Message connC 300 (Some (msg_join rid0)))
                        st5))
     = [(''ERR_TOKEN_REPLAY'', True)]
   \<and> ''ERR_TOKEN_REPLAY'' \<notin> spec_error_codes"
  by (simp add: replay_run error_frames_single spec_error_codes_def)

section \<open>Keep-alive\<close>

lemma sweep_awaiting:
  assumes "readyState (ws ctx) = 1" and "awaitingPong ctx"
  shows "sweeps_until_dead cfg cid (Suc n) t ctx =
           (if t - lastPongMs ctx > WS_PING_TIMEOUT_MS cfg then Some t
            else sweeps_until_dead cfg cid n (t + WS_PING_INTERVAL_MS cfg) ctx)"
proof -
  have eq: "ctx \<lparr> awaitingPong := True \<rparr> = ctx" using assms(2) by simp
  show ?thesis using assms by (simp add: pingStep_def eq)
qed

lemma sweeps_terminate:
  assumes "readyState (ws ctx) = 1" and "awaitingPong ctx" and "0 < WS_PING_INTERVAL_MS cfg"
  shows "\<exists>m. sweeps_until_dead cfg cid (Suc m) t ctx = Some (t + int m * WS_PING_INTERVAL_MS cfg)
             \<and> WS_PING_TIMEOUT_MS cfg < t + int m * WS_PING_INTERVAL_MS cfg - lastPongMs ctx
             \<and> (m = 0 \<or> t + int m * WS_PING_INTERVAL_MS cfg - WS_PING_INTERVAL_MS cfg - lastPongMs ctx
                          \<le> WS_PING_TIMEOUT_MS cfg)"
proof (induction k \<equiv> "nat (WS_PING_TIMEOUT_MS cfg - (t - lastPongMs ctx) + 1)" arbitrary: t
       rule: less_induct)
  case less
  show ?case
  proof (cases "t - lastPongMs ctx > WS_PING_TIMEOUT_MS cfg")
    case True
    have "sweeps_until_dead cfg cid (Suc 0) t ctx = Some t"
      using True by (simp only: sweep_awaiting [OF assms(1,2)] if_True)
    then show ?thesis using True by (intro exI [of _ 0]) simp
  next
    case False
    have d: "nat (WS_PING_TIMEOUT_MS cfg - (t + WS_PING_INTERVAL_MS cfg - lastPongMs ctx) + 1)
               < nat (WS_PING_TIMEOUT_MS cfg - (t - lastPongMs ctx) + 1)"
      using False assms(3) by linarith
    from less [OF d] obtain m where
      m: "sweeps_until_dead cfg cid (Suc m) (t + WS_PING_INTERVAL_MS cfg) ctx
            = Some (t + WS_PING_INTERVAL_MS cfg + int m * WS_PING_INTERVAL_MS cfg)"
         "WS_PING_TIMEOUT_MS cfg
            < t + WS_PING_INTERVAL_MS cfg + int m * WS_PING_INTERVAL_MS cfg - lastPongMs ctx"
         "m = 0 \<or> t + WS_PING_INTERVAL_MS cfg + int m * WS_PING_INTERVAL_MS cfg
                     - WS_PING_INTERVAL_MS cfg - lastPongMs ctx \<le> WS_PING_TIMEOUT_MS cfg"
      by blast
    have e: "t + WS_PING_INTERVAL_MS cfg + int m * WS_PING_INTERVAL_MS cfg
               = t + int (Suc m) * WS_PING_INTERVAL_MS cfg"
      by (simp add: algebra_simps)
    have s: "sweeps_until_dead cfg cid (Suc (Suc m)) t ctx
               = Some (t + int (Suc m) * WS_PING_INTERVAL_MS cfg)"
      using False m(1) by (simp only: sweep_awaiting [OF assms(1,2)] e if_False)
    have b: "t + int (Suc m) * WS_PING_INTERVAL_MS cfg - WS_PING_INTERVAL_MS cfg - lastPongMs ctx
               \<le> WS_PING_TIMEOUT_MS cfg"
    proof (cases "m = 0")
      case True
      then show ?thesis using False by simp
    next
      case nz: False
      then show ?thesis using m(3) by (simp only: e) simp
    qed
    show ?thesis
      using s m(2) b by (intro exI [of _ "Suc m"]) (simp only: e, simp)
  qed
qed

text \<open>
  A connection whose socket stays open and whose client never answers: when the sweep at
  \<open>t0\<close> dispatches a ping, one of the following sweeps, spaced by the ping interval,
  terminates the connection, at the latest at \<open>t0 + interval + timeout\<close>. It is the first
  sweep after \<open>t0\<close> at which more than the timeout has passed since \<^verbatim>\<open>lastPongMs\<close>.
\<close>

lemma ping_timeout_bound:
  assumes "readyState (ws ctx) = 1"
    and "lastPongMs ctx \<le> t0"
    and "0 < WS_PING_INTERVAL_MS cfg" and "0 \<le> WS_PING_TIMEOUT_MS cfg"
    and "snd (pingStep cfg t0 cid ctx) = [Ping cid]"
  shows "\<exists>m. sweeps_until_dead cfg cid (Suc m) (t0 + WS_PING_INTERVAL_MS cfg)
               (fst (pingStep cfg t0 cid ctx))
               = Some (t0 + WS_PING_INTERVAL_MS cfg + int m * WS_PING_INTERVAL_MS cfg)
           \<and> t0 + WS_PING_INTERVAL_MS cfg + int m * WS_PING_INTERVAL_MS cfg
               \<le> t0 + WS_PING_INTERVAL_MS cfg + WS_PING_TIMEOUT_MS cfg
           \<and> WS_PING_TIMEOUT_MS cfg
               < t0 + WS_PING_INTERVAL_MS cfg + int m * WS_PING_INTERVAL_MS cfg - lastPongMs ctx
           \<and> (m = 0 \<or> t0 + int m * WS_PING_INTERVAL_MS cfg - lastPongMs ctx
                          \<le> WS_PING_TIMEOUT_MS cfg)"
proof -
  let ?c = "fst (pingStep cfg t0 cid ctx)"
  have c: "?c = ctx \<lparr> awaitingPong := True \<rparr>"
    using assms(1,5) by (auto simp add: pingStep_def split: if_splits)
  have o: "readyState (ws ?c) = 1" and a: "awaitingPong ?c" and l: "lastPongMs ?c = lastPongMs ctx"
    using assms(1) by (simp_all add: c)
  from sweeps_terminate [OF o a assms(3), of cid "t0 + WS_PING_INTERVAL_MS cfg"]
  obtain m where
    m: "sweeps_until_dead cfg cid (Suc m) (t0 + WS_PING_INTERVAL_MS cfg) ?c
          = Some (t0 + WS_PING_INTERVAL_MS cfg + int m * WS_PING_INTERVAL_MS cfg)"
       "WS_PING_TIMEOUT_MS cfg
          < t0 + WS_PING_INTERVAL_MS cfg + int m * WS_PING_INTERVAL_MS cfg - lastPongMs ctx"
       "m = 0 \<or> t0 + WS_PING_INTERVAL_MS cfg + int m * WS_PING_INTERVAL_MS cfg
                   - WS_PING_INTERVAL_MS cfg - lastPongMs ctx \<le> WS_PING_TIMEOUT_MS cfg"
    unfolding l by blast
  have p: "m = 0 \<or> t0 + int m * WS_PING_INTERVAL_MS cfg - lastPongMs ctx \<le> WS_PING_TIMEOUT_MS cfg"
    using m(3) by auto
  have b: "t0 + WS_PING_INTERVAL_MS cfg + int m * WS_PING_INTERVAL_MS cfg
               \<le> t0 + WS_PING_INTERVAL_MS cfg + WS_PING_TIMEOUT_MS cfg"
  proof (cases "m = 0")
    case True
    then show ?thesis using assms(4) by simp
  next
    case False
    then have "t0 + int m * WS_PING_INTERVAL_MS cfg - lastPongMs ctx \<le> WS_PING_TIMEOUT_MS cfg"
      using p by blast
    then show ?thesis using assms(2) by linarith
  qed
  from m(1) b m(2) p show ?thesis by blast
qed

text \<open>
  Claim C7, at an interval of 30 seconds and a timeout of 45 seconds. The connection
  \<open>connB\<close>, admitted at 1799999950000, gets its first ping from the sweep at
  1799999980000 and never answers. The sweep at 1800000010000 terminates it, 30 seconds
  after the dispatch of the ping, when the 45 seconds of the timeout have not passed
  since the dispatch: the timer compares the clock with \<^verbatim>\<open>lastPongMs\<close>, which holds the
  instant of the admission.
\<close>

theorem ping_timeout_measured_from_last_pong:
  "lastPongMs ctxB3 = 1799999950000
   \<and> pingStep config_patient 1799999980000 connB ctxB3
       = (ctxB3 \<lparr> awaitingPong := True \<rparr>, [Ping connB])
   \<and> snd (pingStep config_patient (1799999980000 + WS_PING_INTERVAL_MS config_patient) connB
             (ctxB3 \<lparr> awaitingPong := True \<rparr>))
       = [Terminate connB]
   \<and> sweeps_until_dead config_patient connB (Suc 0)
        (1799999980000 + WS_PING_INTERVAL_MS config_patient)
        (fst (pingStep config_patient 1799999980000 connB ctxB3))
       = Some 1800000010000
   \<and> 1800000010000 - 1799999980000 \<le> WS_PING_TIMEOUT_MS config_patient"
  by (simp add: pingStep_def ctxB3_def sock_open_def config_patient_def config_default_def
       ws_closing_def)

section \<open>Admission and disconnect\<close>

lemma self_ctxs: "\<exists>c. s = s \<lparr> ctxs := c \<rparr>"
  by (rule exI [of _ "ctxs s"]) simp

lemma broadcast_loop_ctxs_only:
  "\<exists>c. fst (broadcast_loop cfg d js s) = s \<lparr> ctxs := c \<rparr>"
proof (induction js arbitrary: s)
  case Nil
  show ?case using self_ctxs [of s] by simp
next
  case (Cons i rest)
  show ?case
  proof (cases "conn_get s i")
    case None
    then show ?thesis using Cons.IH [of s] by simp
  next
    case (Some c)
    obtain c1 where c1: "fst (broadcast_loop cfg d rest s) = s \<lparr> ctxs := c1 \<rparr>"
      using Cons.IH [of s] by blast
    obtain c2 where c2: "fst (broadcast_loop cfg d rest (conn_set i (ws_closing c) s))
                           = (conn_set i (ws_closing c) s) \<lparr> ctxs := c2 \<rparr>"
      using Cons.IH [of "conn_set i (ws_closing c) s"] by blast
    have c2': "fst (broadcast_loop cfg d rest (conn_set i (ws_closing c) s)) = s \<lparr> ctxs := c2 \<rparr>"
      using c2 by (simp add: conn_set_def)
    show ?thesis
      using Some c1 c2' by (auto simp add: case_prod_beta Let_def)
  qed
qed

lemma broadcast_ctxs_only:
  "\<exists>c. fst (broadcast cfg rid d s) = s \<lparr> ctxs := c \<rparr>"
  using self_ctxs [of s] broadcast_loop_ctxs_only [of cfg d _ s]
  by (simp add: broadcast_def split: option.splits)

lemma local_conns_delete_ctxs:
  "local_conns_delete rid c (s \<lparr> ctxs := x \<rparr>) = (local_conns_delete rid c s) \<lparr> ctxs := x \<rparr>"
  by (simp add: local_conns_delete_def split: option.splits)

lemma local_conns_delete_redis:
  "redis (local_conns_delete rid c s) = redis s"
  by (simp add: local_conns_delete_def split: option.splits)

lemma cleanupIfEmpty_ctxs:
  "cleanupIfEmpty rid (s \<lparr> ctxs := x \<rparr>) = (cleanupIfEmpty rid s) \<lparr> ctxs := x \<rparr>"
  by (simp add: cleanupIfEmpty_def split: option.splits)

lemma leaveRoom_shape:
  assumes "ctxs s cid = Some ctx" and "roomId ctx = Some rid"
  shows "\<exists>c. fst (leaveRoom cfg env cid rid s) =
           (if fst (leave (roomStore cfg) rid (connId ctx) (redis s)) \<le> 0
            then cleanupIfEmpty rid
                   ((local_conns_delete rid (connId ctx) s)
                      \<lparr> redis := snd (leave (roomStore cfg) rid (connId ctx) (redis s)) \<rparr>)
            else (local_conns_delete rid (connId ctx) s)
                   \<lparr> redis := snd (leave (roomStore cfg) rid (connId ctx) (redis s)) \<rparr>)
           \<lparr> ctxs := c \<rparr>"
proof -
  let ?rd = "snd (leave (roomStore cfg) rid (connId ctx) (redis s))"
  let ?x = "(ctxs s)(cid \<mapsto> ctx \<lparr> roomId := None \<rparr>)"
  let ?s3 = "(local_conns_delete rid (connId ctx) s) \<lparr> redis := ?rd \<rparr>"
  let ?s3x = "(local_conns_delete rid (connId ctx) (conn_set cid (ctx \<lparr> roomId := None \<rparr>) s))
                \<lparr> redis := snd (leave (roomStore cfg) rid (connId ctx)
                     (redis (local_conns_delete rid (connId ctx)
                        (conn_set cid (ctx \<lparr> roomId := None \<rparr>) s)))) \<rparr>"
  have r: "redis (local_conns_delete rid (connId ctx) (conn_set cid (ctx \<lparr> roomId := None \<rparr>) s))
             = redis s"
    by (simp add: local_conns_delete_def conn_set_def split: option.splits)
  have e: "?s3x = ?s3 \<lparr> ctxs := ?x \<rparr>"
    by (simp add: conn_set_def local_conns_delete_ctxs local_conns_delete_redis)
  show ?thesis
  proof (cases "fst (leave (roomStore cfg) rid (connId ctx) (redis s)) \<le> 0")
    case True
    have "fst (leaveRoom cfg env cid rid s) = cleanupIfEmpty rid ?s3x"
      using assms True by (simp add: leaveRoom_def case_prod_beta Let_def r)
    then show ?thesis using True by (simp add: e cleanupIfEmpty_ctxs) blast
  next
    case False
    obtain s4 where s4: "s4 = fst (case label ctx of
                         None \<Rightarrow> (?s3x, [])
                       | Some l \<Rightarrow>
                           if l = [] then (?s3x, [])
                           else broadcast cfg rid
                                  (frameId env 0, SYSTEM_MSG rid (l @ '' has left the chat'') ''info'')
                                  ?s3x)"
      by blast
    have "\<exists>c. s4 = ?s3x \<lparr> ctxs := c \<rparr>"
      unfolding s4 using self_ctxs [of ?s3x] broadcast_ctxs_only [of cfg rid _ ?s3x]
      by (simp split: option.splits)
    then obtain c4 where c4: "s4 = ?s3 \<lparr> ctxs := c4 \<rparr>" by (auto simp add: e)
    obtain c5 where c5: "fst (broadcast cfg rid (frameId env 1,
                 ROOM_STATS rid (fst (leave (roomStore cfg) rid (connId ctx) (redis s)))
                   (ROOM_MAX_PARTICIPANTS cfg)) s4) = s4 \<lparr> ctxs := c5 \<rparr>"
      using broadcast_ctxs_only by blast
    have "fst (leaveRoom cfg env cid rid s) = fst (broadcast cfg rid (frameId env 1,
                 ROOM_STATS rid (fst (leave (roomStore cfg) rid (connId ctx) (redis s)))
                   (ROOM_MAX_PARTICIPANTS cfg)) s4)"
      using assms False unfolding s4 by (simp add: leaveRoom_def case_prod_beta Let_def r)
    also have "\<dots> = s4 \<lparr> ctxs := c5 \<rparr>" by (rule c5)
    also have "\<dots> = ?s3 \<lparr> ctxs := c5 \<rparr>" unfolding c4 by simp
    finally have "fst (leaveRoom cfg env cid rid s) = ?s3 \<lparr> ctxs := c5 \<rparr>" .
    then show ?thesis using False by simp blast
  qed
qed

lemma local_conns_delete_fields:
  "connections (local_conns_delete rid c s) = connections s"
  "ipLimiter (local_conns_delete rid c s) = ipLimiter s"
  "globalLimiter (local_conns_delete rid c s) = globalLimiter s"
  "disconnected (local_conns_delete rid c s) = disconnected s"
  by (simp_all add: local_conns_delete_def split: option.splits)

lemma cleanupIfEmpty_fields:
  "connections (cleanupIfEmpty rid s) = connections s"
  "ipLimiter (cleanupIfEmpty rid s) = ipLimiter s"
  "globalLimiter (cleanupIfEmpty rid s) = globalLimiter s"
  "disconnected (cleanupIfEmpty rid s) = disconnected s"
  "redis (cleanupIfEmpty rid s) = redis s"
  by (simp_all add: cleanupIfEmpty_def split: option.splits)

lemma room_conns_deleted:
  "c \<notin> set (room_conns (local_conns_delete rid c s) rid)"
  by (simp add: room_conns_def local_conns_delete_def Set_delete_def split: option.splits)

lemma room_conns_cleanup:
  "c \<notin> set (room_conns s rid) \<Longrightarrow> c \<notin> set (room_conns (cleanupIfEmpty rid s) rid)"
  by (simp add: room_conns_def cleanupIfEmpty_def split: option.splits if_splits)

lemma room_conns_fields [simp]:
  "room_conns (s \<lparr> redis := rd \<rparr>) rid = room_conns s rid"
  "room_conns (s \<lparr> ctxs := x \<rparr>) rid = room_conns s rid"
  "room_conns (s \<lparr> connections := cs, ipLimiter := il, globalLimiter := gl \<rparr>) rid = room_conns s rid"
  by (simp_all add: room_conns_def)

lemma leave_removes:
  "meta s rid \<noteq> None \<Longrightarrow> c \<notin> members (snd (leave rs rid c s)) rid"
  by (simp add: leave_def Let_def)

lemma leaveRoom_removed:
  assumes "ctxs s cid = Some ctx" and "roomId ctx = Some rid"
  shows "connections (fst (leaveRoom cfg env cid rid s)) = connections s"
    and "ipLimiter (fst (leaveRoom cfg env cid rid s)) = ipLimiter s"
    and "globalLimiter (fst (leaveRoom cfg env cid rid s)) = globalLimiter s"
    and "disconnected (fst (leaveRoom cfg env cid rid s)) = disconnected s"
    and "connId ctx \<notin> set (room_conns (fst (leaveRoom cfg env cid rid s)) rid)"
    and "redis (fst (leaveRoom cfg env cid rid s))
           = snd (leave (roomStore cfg) rid (connId ctx) (redis s))"
proof -
  from leaveRoom_shape [OF assms, of cfg env] obtain c where
    c: "fst (leaveRoom cfg env cid rid s) =
           (if fst (leave (roomStore cfg) rid (connId ctx) (redis s)) \<le> 0
            then cleanupIfEmpty rid
                   ((local_conns_delete rid (connId ctx) s)
                      \<lparr> redis := snd (leave (roomStore cfg) rid (connId ctx) (redis s)) \<rparr>)
            else (local_conns_delete rid (connId ctx) s)
                   \<lparr> redis := snd (leave (roomStore cfg) rid (connId ctx) (redis s)) \<rparr>)
           \<lparr> ctxs := c \<rparr>"
    by blast
  show "connections (fst (leaveRoom cfg env cid rid s)) = connections s"
    and "ipLimiter (fst (leaveRoom cfg env cid rid s)) = ipLimiter s"
    and "globalLimiter (fst (leaveRoom cfg env cid rid s)) = globalLimiter s"
    and "disconnected (fst (leaveRoom cfg env cid rid s)) = disconnected s"
    and "redis (fst (leaveRoom cfg env cid rid s))
           = snd (leave (roomStore cfg) rid (connId ctx) (redis s))"
    by (simp_all add: c cleanupIfEmpty_fields local_conns_delete_fields)
  have "connId ctx \<notin> set (room_conns ((local_conns_delete rid (connId ctx) s)
                      \<lparr> redis := snd (leave (roomStore cfg) rid (connId ctx) (redis s)) \<rparr>) rid)"
    by (simp add: room_conns_deleted)
  then show "connId ctx \<notin> set (room_conns (fst (leaveRoom cfg env cid rid s)) rid)"
    using room_conns_cleanup by (simp add: c)
qed

lemma onDisconnect_fields:
  assumes "ctxs s cid = Some ctx"
  shows "connections (fst (onDisconnect cfg env cid s)) = Set_delete (connId ctx) (connections s)"
    and "ipLimiter (fst (onDisconnect cfg env cid s)) = ip_dec (ip ctx) (ipLimiter s)"
    and "globalLimiter (fst (onDisconnect cfg env cid s)) = global_dec (globalLimiter s)"
    and "disconnected (fst (onDisconnect cfg env cid s)) = disconnected s"
  using assms leaveRoom_removed(1-4) [OF assms, of _ cfg env]
  by (auto simp add: onDisconnect_def case_prod_beta Let_def split: option.splits)

lemma onDisconnect_room:
  assumes "ctxs s cid = Some ctx" and "roomId ctx = Some rid" and "rid \<noteq> []"
  shows "connId ctx \<notin> set (room_conns (fst (onDisconnect cfg env cid s)) rid)"
    and "meta (redis s) rid \<noteq> None \<Longrightarrow>
           connId ctx \<notin> members (redis (fst (onDisconnect cfg env cid s))) rid"
  using assms leaveRoom_removed(5,6) [OF assms(1,2), of cfg env]
  by (simp_all add: onDisconnect_def case_prod_beta Let_def leave_removes)

lemma reject_global:
  "maxTotal (globalLimiter s) \<le> current (globalLimiter s) \<Longrightarrow>
     onConnection cfg env sock addr s
       = (s, [Reject WS_CLOSE_POLICY_VIOLATION ''server at capacity''])"
  by (simp add: onConnection_def global_tryInc_def)

lemma reject_ip:
  "0 \<le> current (globalLimiter s) \<Longrightarrow> current (globalLimiter s) < maxTotal (globalLimiter s)
     \<Longrightarrow> maxPerIp (ipLimiter s) \<le> getCount (ipLimiter s) addr \<Longrightarrow>
     onConnection cfg env sock addr s
       = (s, [Reject WS_CLOSE_POLICY_VIOLATION ''too many connections from your IP''])"
  by (simp add: onConnection_def global_tryInc_def ip_tryInc_def global_dec_def Let_def)

lemma accept_meters:
  assumes "current (globalLimiter s) < maxTotal (globalLimiter s)"
    and "getCount (ipLimiter s) addr < maxPerIp (ipLimiter s)"
  shows "current (globalLimiter (fst (onConnection cfg env sock addr s)))
           = current (globalLimiter s) + 1"
    and "getCount (ipLimiter (fst (onConnection cfg env sock addr s))) addr
           = getCount (ipLimiter s) addr + 1"
  using assms
  by (simp_all add: onConnection_def global_tryInc_def ip_tryInc_def Let_def getCount_def)

lemma disconnected_noop:
  "cid \<in> disconnected s \<Longrightarrow> ev = CloseEvent cid \<or> ev = ErrorEvent cid \<Longrightarrow>
     step P T cfg env ev s = (s, [])"
  by (auto simp add: step_def onClose_def onError_def)

lemma disconnect_once:
  assumes "ev = CloseEvent cid \<or> ev = ErrorEvent cid"
    and "cid \<notin> disconnected s" and "ctxs s cid = Some ctx"
    and "1 \<le> current (globalLimiter s)" and "1 \<le> getCount (ipLimiter s) (ip ctx)"
  shows "current (globalLimiter (fst (step P T cfg env ev s))) = current (globalLimiter s) - 1"
    and "getCount (ipLimiter (fst (step P T cfg env ev s))) (ip ctx)
           = getCount (ipLimiter s) (ip ctx) - 1"
    and "connId ctx \<notin> set (connections (fst (step P T cfg env ev s)))"
    and "roomId ctx = Some rid \<Longrightarrow> rid \<noteq> [] \<Longrightarrow>
           connId ctx \<notin> set (room_conns (fst (step P T cfg env ev s)) rid)"
    and "roomId ctx = Some rid \<Longrightarrow> rid \<noteq> [] \<Longrightarrow> meta (redis s) rid \<noteq> None \<Longrightarrow>
           connId ctx \<notin> members (redis (fst (step P T cfg env ev s))) rid"
    and "ev' = CloseEvent cid \<or> ev' = ErrorEvent cid \<Longrightarrow>
           step P T cfg env' ev' (fst (step P T cfg env ev s)) = (fst (step P T cfg env ev s), [])"
proof -
  let ?s0 = "s \<lparr> disconnected := insert cid (disconnected s) \<rparr>"
  have e: "fst (step P T cfg env ev s) = fst (onDisconnect cfg env cid ?s0)"
    using assms(1,2) by (auto simp add: step_def onClose_def onError_def)
  have c: "ctxs ?s0 cid = Some ctx" using assms(3) by simp
  note f = onDisconnect_fields [OF c, of cfg env]
  show "current (globalLimiter (fst (step P T cfg env ev s))) = current (globalLimiter s) - 1"
    using assms(4) by (simp add: e f global_dec_def)
  show "getCount (ipLimiter (fst (step P T cfg env ev s))) (ip ctx)
           = getCount (ipLimiter s) (ip ctx) - 1"
    using assms(5) by (auto simp add: e f ip_dec_def Let_def getCount_def)
  show "connId ctx \<notin> set (connections (fst (step P T cfg env ev s)))"
    by (simp add: e f Set_delete_def)
  show "connId ctx \<notin> set (room_conns (fst (step P T cfg env ev s)) rid)"
    if "roomId ctx = Some rid" "rid \<noteq> []"
    using onDisconnect_room(1) [OF c that, of cfg env] by (simp add: e)
  show "connId ctx \<notin> members (redis (fst (step P T cfg env ev s))) rid"
    if "roomId ctx = Some rid" "rid \<noteq> []" "meta (redis s) rid \<noteq> None"
    using onDisconnect_room(2) [OF c that(1,2), of cfg env] that(3) by (simp add: e)
  show "step P T cfg env' ev' (fst (step P T cfg env ev s)) = (fst (step P T cfg env ev s), [])"
    if "ev' = CloseEvent cid \<or> ev' = ErrorEvent cid"
  proof -
    have "cid \<in> disconnected (fst (step P T cfg env ev s))" by (simp add: e f)
    then show ?thesis using that by (rule disconnected_noop)
  qed
qed

text \<open>
  The meters and the membership in runs without interleaving. With a global counter that
  is not negative: a socket refused at the global ceiling, or at the ceiling of its
  address, leaves the whole server state as it was; an accepted socket raises the global
  counter and the counter of its address by one. The first \<^verbatim>\<open>close\<close> or \<^verbatim>\<open>error\<close> event
  of a connection that holds its two slots lowers both counters by one, removes the
  connection from the table, from the router's entry of its room and from the stored
  members of that room; every further \<^verbatim>\<open>close\<close> or \<^verbatim>\<open>error\<close> event of the same socket
  changes nothing.
\<close>

lemma admission_meters_disconnect:
  assumes "0 \<le> current (globalLimiter s)"
  shows "(maxTotal (globalLimiter s) \<le> current (globalLimiter s) \<longrightarrow>
            onConnection cfg env sock addr s
              = (s, [Reject WS_CLOSE_POLICY_VIOLATION ''server at capacity'']))
       \<and> (current (globalLimiter s) < maxTotal (globalLimiter s)
            \<and> maxPerIp (ipLimiter s) \<le> getCount (ipLimiter s) addr \<longrightarrow>
            onConnection cfg env sock addr s
              = (s, [Reject WS_CLOSE_POLICY_VIOLATION ''too many connections from your IP'']))
       \<and> (current (globalLimiter s) < maxTotal (globalLimiter s)
            \<and> getCount (ipLimiter s) addr < maxPerIp (ipLimiter s) \<longrightarrow>
            current (globalLimiter (fst (onConnection cfg env sock addr s)))
              = current (globalLimiter s) + 1
            \<and> getCount (ipLimiter (fst (onConnection cfg env sock addr s))) addr
              = getCount (ipLimiter s) addr + 1)
       \<and> (\<forall>ev cid ctx.
             (ev = CloseEvent cid \<or> ev = ErrorEvent cid)
             \<and> cid \<notin> disconnected s \<and> ctxs s cid = Some ctx
             \<and> 1 \<le> current (globalLimiter s) \<and> 1 \<le> getCount (ipLimiter s) (ip ctx) \<longrightarrow>
             current (globalLimiter (fst (step P T cfg env ev s))) = current (globalLimiter s) - 1
             \<and> getCount (ipLimiter (fst (step P T cfg env ev s))) (ip ctx)
                 = getCount (ipLimiter s) (ip ctx) - 1
             \<and> connId ctx \<notin> set (connections (fst (step P T cfg env ev s)))
             \<and> (\<forall>rid. roomId ctx = Some rid \<and> rid \<noteq> [] \<longrightarrow>
                    connId ctx \<notin> set (room_conns (fst (step P T cfg env ev s)) rid)
                    \<and> (meta (redis s) rid \<noteq> None \<longrightarrow>
                          connId ctx \<notin> members (redis (fst (step P T cfg env ev s))) rid))
             \<and> (\<forall>ev' env'. ev' = CloseEvent cid \<or> ev' = ErrorEvent cid \<longrightarrow>
                    step P T cfg env' ev' (fst (step P T cfg env ev s))
                      = (fst (step P T cfg env ev s), [])))"
proof -
  have a: "maxTotal (globalLimiter s) \<le> current (globalLimiter s) \<longrightarrow>
            onConnection cfg env sock addr s
              = (s, [Reject WS_CLOSE_POLICY_VIOLATION ''server at capacity''])"
    using reject_global by blast
  have b: "current (globalLimiter s) < maxTotal (globalLimiter s)
            \<and> maxPerIp (ipLimiter s) \<le> getCount (ipLimiter s) addr \<longrightarrow>
            onConnection cfg env sock addr s
              = (s, [Reject WS_CLOSE_POLICY_VIOLATION ''too many connections from your IP''])"
    using reject_ip [OF assms] by blast
  have c: "current (globalLimiter s) < maxTotal (globalLimiter s)
            \<and> getCount (ipLimiter s) addr < maxPerIp (ipLimiter s) \<longrightarrow>
            current (globalLimiter (fst (onConnection cfg env sock addr s)))
              = current (globalLimiter s) + 1
            \<and> getCount (ipLimiter (fst (onConnection cfg env sock addr s))) addr
              = getCount (ipLimiter s) addr + 1"
    using accept_meters by blast
  have d: "(ev = CloseEvent cid \<or> ev = ErrorEvent cid)
             \<and> cid \<notin> disconnected s \<and> ctxs s cid = Some ctx
             \<and> 1 \<le> current (globalLimiter s) \<and> 1 \<le> getCount (ipLimiter s) (ip ctx) \<longrightarrow>
             current (globalLimiter (fst (step P T cfg env ev s))) = current (globalLimiter s) - 1
             \<and> getCount (ipLimiter (fst (step P T cfg env ev s))) (ip ctx)
                 = getCount (ipLimiter s) (ip ctx) - 1
             \<and> connId ctx \<notin> set (connections (fst (step P T cfg env ev s)))
             \<and> (\<forall>rid. roomId ctx = Some rid \<and> rid \<noteq> [] \<longrightarrow>
                    connId ctx \<notin> set (room_conns (fst (step P T cfg env ev s)) rid)
                    \<and> (meta (redis s) rid \<noteq> None \<longrightarrow>
                          connId ctx \<notin> members (redis (fst (step P T cfg env ev s))) rid))
             \<and> (\<forall>ev' env'. ev' = CloseEvent cid \<or> ev' = ErrorEvent cid \<longrightarrow>
                    step P T cfg env' ev' (fst (step P T cfg env ev s))
                      = (fst (step P T cfg env ev s), []))"
    for ev cid ctx
  proof (intro impI, elim conjE)
    assume h: "ev = CloseEvent cid \<or> ev = ErrorEvent cid" "cid \<notin> disconnected s"
       "ctxs s cid = Some ctx" "1 \<le> current (globalLimiter s)"
       "1 \<le> getCount (ipLimiter s) (ip ctx)"
    note o = disconnect_once [OF h, where P = P and T = T and cfg = cfg and env = env]
    show "current (globalLimiter (fst (step P T cfg env ev s))) = current (globalLimiter s) - 1
             \<and> getCount (ipLimiter (fst (step P T cfg env ev s))) (ip ctx)
                 = getCount (ipLimiter s) (ip ctx) - 1
             \<and> connId ctx \<notin> set (connections (fst (step P T cfg env ev s)))
             \<and> (\<forall>rid. roomId ctx = Some rid \<and> rid \<noteq> [] \<longrightarrow>
                    connId ctx \<notin> set (room_conns (fst (step P T cfg env ev s)) rid)
                    \<and> (meta (redis s) rid \<noteq> None \<longrightarrow>
                          connId ctx \<notin> members (redis (fst (step P T cfg env ev s))) rid))
             \<and> (\<forall>ev' env'. ev' = CloseEvent cid \<or> ev' = ErrorEvent cid \<longrightarrow>
                    step P T cfg env' ev' (fst (step P T cfg env ev s))
                      = (fst (step P T cfg env ev s), []))"
    proof (intro conjI allI impI)
      show "current (globalLimiter (fst (step P T cfg env ev s))) = current (globalLimiter s) - 1"
        by (rule o(1))
      show "getCount (ipLimiter (fst (step P T cfg env ev s))) (ip ctx)
                 = getCount (ipLimiter s) (ip ctx) - 1"
        by (rule o(2))
      show "connId ctx \<notin> set (connections (fst (step P T cfg env ev s)))"
        by (rule o(3))
      show "connId ctx \<notin> set (room_conns (fst (step P T cfg env ev s)) rid)"
        if "roomId ctx = Some rid \<and> rid \<noteq> []" for rid
        using o(4) that by blast
      show "connId ctx \<notin> members (redis (fst (step P T cfg env ev s))) rid"
        if "roomId ctx = Some rid \<and> rid \<noteq> []" "meta (redis s) rid \<noteq> None" for rid
        using o(5) that by blast
      show "step P T cfg env' ev' (fst (step P T cfg env ev s))
                      = (fst (step P T cfg env ev s), [])"
        if "ev' = CloseEvent cid \<or> ev' = ErrorEvent cid" for ev' env'
        using that by (rule o(6))
    qed
  qed
  show ?thesis by (intro conjI allI a b c d)

qed


section \<open>Replay of a consumed token: the handler\<close>

lemma rid0_nonempty [simp]: "rid0 \<noteq> []"
  using rid0_len by force










section \<open>The label of a join\<close>

lemma sends_append: "sends (xs @ ys) = sends xs @ sends ys"
  by (simp add: sends_def List.map_filter_def)

lemma deliverable_broadcast_loop:
  "deliverable cfg (fst (broadcast_loop cfg d js s)) = deliverable cfg s"
proof (induction js arbitrary: s)
  case Nil
  show ?case by simp
next
  case (Cons i rest)
  show ?case
  proof (cases "conn_get s i")
    case None
    then show ?thesis using Cons.IH [of s] by simp
  next
    case (Some c)
    show ?thesis
    proof (cases "deliverable cfg s i")
      case True
      then show ?thesis using Some Cons.IH [of s]
        by (simp add: deliverable_def case_prod_beta Let_def)
    next
      case False
      have e: "deliverable cfg (conn_set i (ws_closing c) s) = deliverable cfg s"
        by (rule ext) (rule deliverable_closing [OF Some False])
      show ?thesis
        using Some False Cons.IH [of s] Cons.IH [of "conn_set i (ws_closing c) s"] e
        by (auto simp add: deliverable_def case_prod_beta Let_def)
    qed
  qed
qed

lemma deliverable_broadcast:
  "deliverable cfg (fst (broadcast cfg rid d s)) = deliverable cfg s"
  by (simp add: broadcast_def deliverable_broadcast_loop split: option.splits)

lemma room_conns_broadcast:
  "room_conns (fst (broadcast cfg rid d s)) r = room_conns s r"
proof -
  obtain c where "fst (broadcast cfg rid d s) = s \<lparr> ctxs := c \<rparr>"
    using broadcast_ctxs_only by blast
  then show ?thesis by simp
qed

lemma schema_label:
  assumes "schema_JoinRequest ws_types kv = Some body"
    and "map_of kv ''label'' = Some (JStr l)"
  shows "jb_label body = Some l" and "l \<noteq> []" and "length l \<le> 32"
  using assms
  by (auto simp add: ws_types_def JoinRequestSchema_def z_string_optional_def
        split: option.splits if_splits)

lemma join_success_sends:
  assumes "readyState (ws ctx) = 1" and "bufferedAmount (ws ctx) \<le> MAX_WS_MSG_BYTES cfg * 4"
  shows "sends (snd (join_success P cfg env cid ctx body cnt lbl s)) =
     (cid, (frameId env 1,
            JOINED (jb_roomId body) cnt (ROOM_MAX_PARTICIPANTS cfg)
              (if truthy (jb_label body) then jb_label body else Some lbl)
              (mintJoinToken P (JOIN_TOKEN_SECRET cfg) (jb_roomId body)
                 (nowMs env + ROOM_KEY_TTL_MS cfg) (newJti env 1))
              (nowMs env + ROOM_KEY_TTL_MS cfg)))
     # map (\<lambda>i. (i, (frameId env 2,
            SYSTEM_MSG (jb_roomId body)
              (''this person has entered the chat with the name ''
                 @ (case (if truthy (jb_label body) then jb_label body else Some lbl) of
                      Some l \<Rightarrow> l | None \<Rightarrow> ''undefined''))
              ''info'')))
         (filter (deliverable cfg (fst (join_success P cfg env cid ctx body cnt lbl s)))
            (room_conns (fst (join_success P cfg env cid ctx body cnt lbl s)) (jb_roomId body)))
     @ map (\<lambda>i. (i, (frameId env 3,
            ROOM_STATS (jb_roomId body) cnt (ROOM_MAX_PARTICIPANTS cfg))))
         (filter (deliverable cfg (fst (join_success P cfg env cid ctx body cnt lbl s)))
            (room_conns (fst (join_success P cfg env cid ctx body cnt lbl s)) (jb_roomId body)))"
  using assms
  by (simp add: join_success_def case_prod_beta Let_def sends_append broadcast_sends wsSend_def
        deliverable_broadcast room_conns_broadcast)

lemma join_ok_step:
  assumes "\<not> truthy (roomId ctx)"
    and "effectiveToken body = Some tk" and "tk \<noteq> []"
    and "verifyJoinToken P (JOIN_TOKEN_SECRET cfg) tk = Inr payload"
    and "tok_rid payload = jb_roomId body"
    and "nowMs env \<le> tok_exp payload"
    and "\<not> jti_live (redis s) (jb_roomId body) (tok_jti payload) (nowMs env)"
    and "fst (tryJoin (roomStore cfg) (jb_roomId body) (connId ctx) (redis s)) = JoinOk cnt lbl"
  shows "\<exists>s2. handle_JOIN_REQUEST P cfg env cid ctx body s
                = join_success P cfg env cid ctx body cnt lbl s2"
proof -
  let ?rd = "(redis s)
                  \<lparr> jti_key := (jti_key (redis s))
                       ((jb_roomId body, tok_jti payload) \<mapsto>
                          nowMs env + max 1 (tok_exp payload - nowMs env + 5000)),
                    jtis := (jtis (redis s))
                       (jb_roomId body := insert (tok_jti payload) (jtis (redis s) (jb_roomId body))) \<rparr>"
  have j: "fst (tryJoin (roomStore cfg) (jb_roomId body) (connId ctx) ?rd) = JoinOk cnt lbl"
    using assms(8) by (simp only: tryJoin_marked)
  have "handle_JOIN_REQUEST P cfg env cid ctx body s
          = join_success P cfg env cid ctx body cnt lbl
              (s \<lparr> redis := snd (tryJoin (roomStore cfg) (jb_roomId body) (connId ctx) ?rd) \<rparr>)"
    using assms(1-6) mark_fresh [OF assms(7)] j
    by (simp add: handle_JOIN_REQUEST_def Let_def case_prod_beta)
  then show ?thesis by blast
qed

lemma handle_join_st3:
  "handle_JOIN_REQUEST node_platform config_default (env_at 1799999950000 connB) connB ctxB3
     join_body0 st3
   = ((joined_state ''bob'') \<lparr> ctxs := [connA \<mapsto> ctxA2,
                                          connB \<mapsto> ctxB3 \<lparr> roomId := Some rid0,
                                                            label := Some ''bob'' \<rparr>] \<rparr>,
      joined_effects ''bob'')"
  by (simp add: st3_eq scen_defs engine_defs ctxA2_def ctxB3_def room0_def join_defs
       verify0 exp0_def joined_state_def joined_effects_def join_body0_def)

text \<open>
  Claim C9. A \<^verbatim>\<open>JOIN_REQUEST\<close> whose body passes the schema with a label \<open>l\<close>, from a
  connection that is in no room and whose socket is open, with a token that verifies for
  the room, has not expired and whose \<open>jti\<close> is fresh, and which \<^verbatim>\<open>tryJoin\<close> admits, is
  answered with a \<^verbatim>\<open>JOINED\<close> frame whose label is \<open>l\<close>; the frames sent next are the
  \<^verbatim>\<open>SYSTEM_MSG\<close> announcing the entry under the name \<open>l\<close> and the \<^verbatim>\<open>ROOM_STATS\<close>, each to
  every connection of the room that can be served. (The label that \<^verbatim>\<open>tryJoin\<close> computes,
  \<open>lbl\<close>, is not used when the client supplies one.)
\<close>

theorem JOINED_carries_client_label:
  assumes "schema_JoinRequest ws_types kv = Some body"
    and "map_of kv ''label'' = Some (JStr l)"
    and "\<not> truthy (roomId ctx)"
    and "effectiveToken body = Some tk" and "tk \<noteq> []"
    and "verifyJoinToken P (JOIN_TOKEN_SECRET cfg) tk = Inr payload"
    and "tok_rid payload = jb_roomId body"
    and "nowMs env \<le> tok_exp payload"
    and "\<not> jti_live (redis s) (jb_roomId body) (tok_jti payload) (nowMs env)"
    and "fst (tryJoin (roomStore cfg) (jb_roomId body) (connId ctx) (redis s)) = JoinOk cnt lbl"
    and "readyState (ws ctx) = 1" and "bufferedAmount (ws ctx) \<le> MAX_WS_MSG_BYTES cfg * 4"
  shows "sends (snd (handle_JOIN_REQUEST P cfg env cid ctx body s)) =
     (cid, (frameId env 1,
            JOINED (jb_roomId body) cnt (ROOM_MAX_PARTICIPANTS cfg) (Some l)
              (mintJoinToken P (JOIN_TOKEN_SECRET cfg) (jb_roomId body)
                 (nowMs env + ROOM_KEY_TTL_MS cfg) (newJti env 1))
              (nowMs env + ROOM_KEY_TTL_MS cfg)))
     # map (\<lambda>i. (i, (frameId env 2,
            SYSTEM_MSG (jb_roomId body)
              (''this person has entered the chat with the name '' @ l) ''info'')))
         (filter (deliverable cfg (fst (handle_JOIN_REQUEST P cfg env cid ctx body s)))
            (room_conns (fst (handle_JOIN_REQUEST P cfg env cid ctx body s)) (jb_roomId body)))
     @ map (\<lambda>i. (i, (frameId env 3,
            ROOM_STATS (jb_roomId body) cnt (ROOM_MAX_PARTICIPANTS cfg))))
         (filter (deliverable cfg (fst (handle_JOIN_REQUEST P cfg env cid ctx body s)))
            (room_conns (fst (handle_JOIN_REQUEST P cfg env cid ctx body s)) (jb_roomId body)))"
proof -
  have l: "jb_label body = Some l" "l \<noteq> []"
    using schema_label [OF assms(1,2)] by blast+
  then have t: "truthy (jb_label body)" by (simp add: truthy_def)
  from join_ok_step [OF assms(3-10), of cid] obtain s2 where
    e: "handle_JOIN_REQUEST P cfg env cid ctx body s
          = join_success P cfg env cid ctx body cnt lbl s2"
    by blast
  show ?thesis
    unfolding e using join_success_sends [OF assms(11,12), of P env cid body cnt lbl s2] t l(1)
    by simp
qed

theorem JOINED_carries_client_label_witness:
  "schema_JoinRequest ws_types join_kv0 = Some join_body0
   \<and> map_of join_kv0 ''label'' = Some (JStr ''bob'')
   \<and> \<not> truthy (roomId ctxB3)
   \<and> effectiveToken join_body0 = Some token0 \<and> token0 \<noteq> []
   \<and> verifyJoinToken node_platform (JOIN_TOKEN_SECRET config_default) token0 = Inr payload_rec0
   \<and> tok_rid payload_rec0 = jb_roomId join_body0
   \<and> nowMs (env_at 1799999950000 connB) \<le> tok_exp payload_rec0
   \<and> \<not> jti_live (redis st3) (jb_roomId join_body0) (tok_jti payload_rec0)
          (nowMs (env_at 1799999950000 connB))
   \<and> fst (tryJoin (roomStore config_default) (jb_roomId join_body0) (connId ctxB3) (redis st3))
       = JoinOk 2 ''P2''
   \<and> readyState (ws ctxB3) = 1 \<and> bufferedAmount (ws ctxB3) \<le> MAX_WS_MSG_BYTES config_default * 4
   \<and> sends (snd (handle_JOIN_REQUEST node_platform config_default (env_at 1799999950000 connB)
                    connB ctxB3 join_body0 st3))
       = [(connB, (''frame-00'',
             JOINED rid0 2 10 (Some ''bob'')
               (mintJoinToken node_platform secret0 rid0 1800000550000 jti1) 1800000550000)),
          (connA, (''frame-00'',
             SYSTEM_MSG rid0 ''this person has entered the chat with the name bob'' ''info'')),
          (connB, (''frame-00'',
             SYSTEM_MSG rid0 ''this person has entered the chat with the name bob'' ''info'')),
          (connA, (''frame-00'', ROOM_STATS rid0 2 10)),
          (connB, (''frame-00'', ROOM_STATS rid0 2 10))]"
proof -
  have h1: "schema_JoinRequest ws_types join_kv0 = Some join_body0"
    by (simp add: ws_types_def JoinRequestSchema_def z_string_def z_string_optional_def
         join_kv0_def join_body0_def truthy_def)
  have h2: "map_of join_kv0 ''label'' = Some (JStr ''bob'')" by (simp add: join_kv0_def)
  have h3: "\<not> truthy (roomId ctxB3)" by (simp add: ctxB3_def truthy_def)
  have h4: "effectiveToken join_body0 = Some token0"
    by (simp add: effectiveToken_def join_body0_def truthy_def)
  have h5: "token0 \<noteq> []" by simp
  have h6: "verifyJoinToken node_platform (JOIN_TOKEN_SECRET config_default) token0
              = Inr payload_rec0"
    using verify0 by (simp add: config_default_def payload_rec0_def)
  have h7: "tok_rid payload_rec0 = jb_roomId join_body0"
    by (simp add: payload_rec0_def join_body0_def)
  have h8: "nowMs (env_at 1799999950000 connB) \<le> tok_exp payload_rec0"
    by (simp add: payload_rec0_def env_at_def exp0_def)
  have h9: "\<not> jti_live (redis st3) (jb_roomId join_body0) (tok_jti payload_rec0)
          (nowMs (env_at 1799999950000 connB))"
    by (simp add: st3_redis jti_live_def)
  have h10: "fst (tryJoin (roomStore config_default) (jb_roomId join_body0) (connId ctxB3)
                    (redis st3)) = JoinOk 2 ''P2''"
    by (simp add: st3_redis tryJoin_def get_count_def roomStore_def config_default_def
         join_body0_def ctxB3_def connA_def connB_def show_int_def digit_char_def)
  have h11: "readyState (ws ctxB3) = 1" by (simp add: ctxB3_def sock_open_def)
  have h12: "bufferedAmount (ws ctxB3) \<le> MAX_WS_MSG_BYTES config_default * 4"
    by (simp add: ctxB3_def sock_open_def config_default_def)
  note t = JOINED_carries_client_label [OF h1 h2 h3 h4 h5 h6 h7 h8 h9 h10 h11 h12, of connB]
  have r: "room_conns (fst (handle_JOIN_REQUEST node_platform config_default
                         (env_at 1799999950000 connB) connB ctxB3 join_body0 st3))
               (jb_roomId join_body0)
             = [connA, connB]"
    unfolding handle_join_st3
    by (simp add: room_conns_def joined_state_def room0_def join_body0_def)
  have d: "deliverable config_default (fst (handle_JOIN_REQUEST node_platform config_default
                         (env_at 1799999950000 connB) connB ctxB3 join_body0 st3)) connA"
          "deliverable config_default (fst (handle_JOIN_REQUEST node_platform config_default
                         (env_at 1799999950000 connB) connB ctxB3 join_body0 st3)) connB"
    unfolding handle_join_st3
    by (simp_all add: deliverable_def conn_get_def joined_state_def ctxA2_def
         ctxB3_def sock_open_def config_default_def connA_def connB_def)
  have f: "filter (deliverable config_default (fst (handle_JOIN_REQUEST node_platform
                         config_default (env_at 1799999950000 connB) connB ctxB3 join_body0 st3)))
              [connA, connB] = [connA, connB]"
    using d by simp
  have c: "sends (snd (handle_JOIN_REQUEST node_platform config_default (env_at 1799999950000 connB)
                    connB ctxB3 join_body0 st3))
       = [(connB, (''frame-00'',
             JOINED rid0 2 10 (Some ''bob'')
               (mintJoinToken node_platform secret0 rid0 1800000550000 jti1) 1800000550000)),
          (connA, (''frame-00'',
             SYSTEM_MSG rid0 ''this person has entered the chat with the name bob'' ''info'')),
          (connB, (''frame-00'',
             SYSTEM_MSG rid0 ''this person has entered the chat with the name bob'' ''info'')),
          (connA, (''frame-00'', ROOM_STATS rid0 2 10)),
          (connB, (''frame-00'', ROOM_STATS rid0 2 10))]"
    unfolding t r f
    by (simp add: join_body0_def env_at_def config_default_def)
  show ?thesis
    by (intro conjI h1 h2 h3 h4 h5 h6 h7 h8 h9 h10 h11 h12 c)
qed


section \<open>A close event during a join\<close>

lemma race_ctx_eq:
  "race_ctx = ctxB3 \<lparr> msgBucket := \<lparr> capacity = 200, refillTokens = 200, refillEveryMs = 10000,
                                      tokens = 199, lastRefillMs = 1799999950000 \<rparr>,
                      bytesBucket := \<lparr> capacity = 1048576, refillTokens = 1048576,
                                        refillEveryMs = 10000, tokens = 1048276,
                                        lastRefillMs = 1799999950000 \<rparr> \<rparr>"
  by (simp add: race_ctx_def race_env_def charge_def env_at_def ctxB3_def take_tokens_def refill_def
       new_TokenBucket_def Let_def)

lemma race_dispatch_eq:
  "onMessage node_platform ws_types config_default race_env connB 300 (Some (msg_join rid0)) st3
     = handle_JOIN_REQUEST node_platform config_default race_env connB race_ctx join_body0
         race_dispatch"
proof -
  have c: "ctxs st3 connB = Some ctxB3" by (simp add: st3_eq connA_def connB_def)
  have b: "300 \<le> MAX_WS_MSG_BYTES config_default" by (simp add: config_default_def)
  have r: "rate_ok race_env 300 ctxB3"
    by (simp add: rate_ok_def race_env_def env_at_def ctxB3_def take_tokens_def refill_def
         new_TokenBucket_def Let_def)
  have p: "parseClientMsg ws_types (msg_join rid0) = Some (JOIN_REQUEST join_body0)"
    by (simp add: parse_join join_body0_def)
  show ?thesis
    using onMessage_accepted [OF c b r p, of node_platform]
    by (simp add: dispatch_def race_ctx_def race_dispatch_def)
qed

lemma join_cut:
  assumes "ctxs s cid = Some ctx"
  shows "handle_JOIN_REQUEST P cfg env cid ctx body s =
           (case join_until_tryJoin P cfg env cid ctx body s of
              Inl r \<Rightarrow> r
            | Inr (s2, joined) \<Rightarrow> join_resume P cfg env cid body joined s2)"
  using assms
  by (auto simp add: handle_JOIN_REQUEST_def join_until_tryJoin_def join_resume_def Let_def
        case_prod_beta split: option.splits sum.splits JoinResult.splits)

lemma race_suspended_eq:
  "join_until_tryJoin node_platform config_default race_env connB race_ctx join_body0
     race_dispatch
   = Inr ((joined_state ''bob'')
            \<lparr> ctxs := [connA \<mapsto> ctxA2, connB \<mapsto> race_ctx],
              localRooms := [rid0 \<mapsto> room0 [connA]] \<rparr>,
          JoinOk 2 ''P2'')"
  by (simp add: join_until_tryJoin_def race_dispatch_def race_ctx_eq race_env_def
       st3_eq scen_defs engine_defs ctxA2_def ctxB3_def room0_def join_defs
       verify0 exp0_def join_body0_def joined_state_def)

lemma race_suspended_val:
  "race_suspended = ((joined_state ''bob'')
            \<lparr> ctxs := [connA \<mapsto> ctxA2, connB \<mapsto> race_ctx],
              localRooms := [rid0 \<mapsto> room0 [connA]] \<rparr>,
          JoinOk 2 ''P2'')"
  by (simp add: race_suspended_def race_suspended_eq)

lemma race_closed_eq:
  "race_closed =
     \<lparr> ctxs = [connA \<mapsto> ctxA2,
               connB \<mapsto> race_ctx \<lparr> ws := \<lparr> readyState = 3, bufferedAmount = 0 \<rparr> \<rparr>],
       connections = [connA],
       localRooms = [rid0 \<mapsto> room0 [connA]],
       redis = redis (joined_state ''bob''),
       ipLimiter = \<lparr> maxPerIp = 50, counts = [''10.0.0.1'' \<mapsto> 1] \<rparr>,
       globalLimiter = \<lparr> maxTotal = 10000, current = 1 \<rparr>,
       disconnected = {connB} \<rparr>"
  by (simp add: race_closed_def race_suspended_val ws_closed_def joined_state_def
        scen_defs onClose_def onDisconnect_def conn_set_def race_ctx_eq ctxB3_def
        Set_delete_def ip_dec_def global_dec_def getCount_def Let_def)

lemma race_resume_eq:
  "join_resume node_platform config_default (env_at 1799999951000 connB) connB join_body0
     (snd race_suspended) race_closed
   = (\<lparr> ctxs = [connA \<mapsto> ctxA2,
                connB \<mapsto> race_ctx \<lparr> ws := \<lparr> readyState = 3, bufferedAmount = 0 \<rparr>,
                                      roomId := Some rid0, label := Some ''bob'' \<rparr>],
        connections = [connA],
        localRooms = [rid0 \<mapsto> room0 [connA, connB]],
        redis = redis (joined_state ''bob''),
        ipLimiter = \<lparr> maxPerIp = 50, counts = [''10.0.0.1'' \<mapsto> 1] \<rparr>,
        globalLimiter = \<lparr> maxTotal = 10000, current = 1 \<rparr>,
        disconnected = {connB} \<rparr>,
      [Send connA (''frame-00'',
         SYSTEM_MSG rid0 ''this person has entered the chat with the name bob'' ''info''),
       Send connA (''frame-00'', ROOM_STATS rid0 2 10)])"
  by (simp add: race_closed_eq race_suspended_val join_resume_def join_success_def
        joined_state_def race_ctx_eq ctxB3_def ctxA2_def room0_def connA_def connB_def
        env_at_def config_default_def sock_open_def
        ensureLocalRoom_def local_conns_add_def Set_add_def conn_set_def conn_get_def wsSend_def
        broadcast_def truthy_def join_body0_def Let_def)

text \<open>
  Claim C6, at a socket that closes while its \<^verbatim>\<open>JOIN_REQUEST\<close> waits for \<^verbatim>\<open>tryJoin\<close>. In the
  reference scenario the message of \<open>connB\<close> reaches the \<^verbatim>\<open>JOIN_REQUEST\<close> case, which runs
  up to \<^verbatim>\<open>await tryJoin\<close>: the store has admitted \<open>connB\<close>, its context has no room yet.
  The \<^verbatim>\<open>close\<close> event that arrives now decrements both meters and removes the connection,
  and leaves the stored membership, for the context names no room. The handler then
  resumes: it writes the room into the context and the router, and announces the entry to
  \<open>connA\<close>. The membership of the closed connection stays, in the store and in the
  router, with a count of two, and a later \<^verbatim>\<open>close\<close> or \<^verbatim>\<open>error\<close> event changes nothing.
\<close>

theorem join_closed_while_suspended:
  "step node_platform ws_types config_default race_env
       (Message connB 300 (Some (msg_join rid0))) st3
     = handle_JOIN_REQUEST node_platform config_default race_env connB race_ctx join_body0
         race_dispatch
   \<and> join_until_tryJoin node_platform config_default race_env connB race_ctx join_body0
         race_dispatch = Inr race_suspended
   \<and> snd race_suspended = JoinOk 2 ''P2''
   \<and> connB \<in> members (redis (fst race_suspended)) rid0
   \<and> map_option roomId (ctxs (fst race_suspended) connB) = Some None
   \<and> current (globalLimiter (fst race_suspended)) = 2
   \<and> getCount (ipLimiter (fst race_suspended)) ''10.0.0.2'' = 1
   \<and> current (globalLimiter race_closed) = 1
   \<and> getCount (ipLimiter race_closed) ''10.0.0.2'' = 0
   \<and> connB \<notin> set (connections race_closed)
   \<and> connB \<in> disconnected race_closed
   \<and> connB \<in> members (redis race_closed) rid0
   \<and> snd (join_resume node_platform config_default (env_at 1799999951000 connB) connB
             join_body0 (snd race_suspended) race_closed)
       = [Send connA (''frame-00'',
            SYSTEM_MSG rid0 ''this person has entered the chat with the name bob'' ''info''),
          Send connA (''frame-00'', ROOM_STATS rid0 2 10)]
   \<and> connB \<in> members (redis race_resumed) rid0
   \<and> get_count (redis race_resumed) rid0 = 2
   \<and> room_conns race_resumed rid0 = [connA, connB]
   \<and> map_option roomId (ctxs race_resumed connB) = Some (Some rid0)
   \<and> connB \<notin> set (connections race_resumed)
   \<and> step node_platform ws_types config_default (env_at 1799999952000 connB)
         (CloseEvent connB) race_resumed = (race_resumed, [])
   \<and> step node_platform ws_types config_default (env_at 1799999952000 connB)
         (ErrorEvent connB) race_resumed = (race_resumed, [])"
proof -
  have r: "race_resumed = fst (join_resume node_platform config_default
             (env_at 1799999951000 connB) connB join_body0 (snd race_suspended) race_closed)"
    by (simp add: race_resumed_def)
  have m: "step node_platform ws_types config_default race_env
       (Message connB 300 (Some (msg_join rid0))) st3
     = handle_JOIN_REQUEST node_platform config_default race_env connB race_ctx join_body0
         race_dispatch"
    by (simp add: step_def race_dispatch_eq)
  have a: "join_until_tryJoin node_platform config_default race_env connB race_ctx join_body0
         race_dispatch = Inr race_suspended"
    by (simp add: race_suspended_eq race_suspended_val)
  have b: "snd race_suspended = JoinOk 2 ''P2''"
    "connB \<in> members (redis (fst race_suspended)) rid0"
    "map_option roomId (ctxs (fst race_suspended) connB) = Some None"
    "current (globalLimiter (fst race_suspended)) = 2"
    "getCount (ipLimiter (fst race_suspended)) ''10.0.0.2'' = 1"
    by (simp_all add: race_suspended_val joined_state_def race_ctx_eq ctxB3_def getCount_def)
  have c: "current (globalLimiter race_closed) = 1"
    "getCount (ipLimiter race_closed) ''10.0.0.2'' = 0"
    "connB \<notin> set (connections race_closed)"
    "connB \<in> disconnected race_closed"
    "connB \<in> members (redis race_closed) rid0"
    by (simp_all add: race_closed_eq joined_state_def getCount_def connA_def connB_def)
  have d: "connB \<in> members (redis race_resumed) rid0"
    "get_count (redis race_resumed) rid0 = 2"
    "room_conns race_resumed rid0 = [connA, connB]"
    "map_option roomId (ctxs race_resumed connB) = Some (Some rid0)"
    "connB \<notin> set (connections race_resumed)"
    "connB \<in> disconnected race_resumed"
    unfolding r race_resume_eq
    by (simp_all add: joined_state_def get_count_def room_conns_def room0_def connA_def connB_def)
  have e: "step node_platform ws_types config_default (env_at 1799999952000 connB)
         (CloseEvent connB) race_resumed = (race_resumed, [])"
    "step node_platform ws_types config_default (env_at 1799999952000 connB)
         (ErrorEvent connB) race_resumed = (race_resumed, [])"
    using d(6) by (simp_all add: step_def onClose_def onError_def)
  show ?thesis
    by (intro conjI m a b c d(1-5) e) (simp add: race_resume_eq)
qed


end
